theory Spec2Isabelle
  imports Main
begin

section \<open>Values of the parser\<close>

text \<open>
  The grammar's actions and the constructors of package \<open>types\<close> exchange Go values of
  type \<open>interface{}\<close>: matched bytes, strings, slices, attribute maps and the nodes of the
  AST. One datatype holds them all. \<open>Failure\<close> stands for the error or the panic of a
  function that returns no value. A Go map is an association list with at most one
  entry per key (\<open>store\<close> replaces in place). The element references of a Document are
  filled by a collector that is not among the sources; the model leaves the field out.
\<close>

datatype BlockKind = Fenced | Listing | Example | Comment | Verse

datatype AdmonitionKind = Tip | Note | Important | Warning | Caution

datatype QuotedTextKind = Bold | Italic | Monospace

datatype PassthroughKind = SinglePlusPassthrough | TriplePlusPassthrough | PassthroughMacro

datatype NumberingStyle =
    UnknownNumberingStyle | Arabic | Decimal | LowerAlpha | UpperAlpha
  | LowerRoman | UpperRoman | LowerGreek | UpperGreek

datatype BulletStyle =
    UnknownBulletStyle | Dash | OneAsterisk | TwoAsterisks | ThreeAsterisks
  | FourAsterisks | FiveAsterisks

datatype (plugins only: code size) val =
    Nil
  | Bytes string
  | Str string
  | Slice "val list"
  | AttrMap "(string \<times> val) list"
  | GenericAttribute "(string \<times> val) list"
  | Failure string
  | BlockKindV BlockKind
  | AdmonitionKindV AdmonitionKind
  | Document "(string \<times> val) list" "val list"
  | Preamble "val list"
  | FrontMatter "(string \<times> val) list"
  | DocumentHeader "(string \<times> val) list"
  | DocumentAuthors "val list"
  | DocumentAuthor string string string string string string
  | DocumentRevision string string string
  | DocumentAttributeDeclaration string string
  | DocumentAttributeReset string
  | DocumentAttributeSubstitution string
  | TableOfContentsMacro
  | Section nat val "val list"
  | SectionTitle "(string \<times> val) list" val
  | OrderedListItemPrefix NumberingStyle int
  | OrderedListItem int int NumberingStyle "val list" "(string \<times> val) list"
  | OrderedList "(string \<times> val) list" "val list"
  | UnorderedListItemPrefix BulletStyle int
  | UnorderedListItem int BulletStyle "val list"
  | UnorderedList "(string \<times> val) list" "val list"
  | LabeledListItem string "val list"
  | LabeledList "(string \<times> val) list" "val list"
  | ListItemContinuation
  | Paragraph "(string \<times> val) list" "val list"
  | InlineElements "val list"
  | StringElement string
  | QuotedText QuotedTextKind "val list"
  | Passthrough PassthroughKind "val list"
  | CrossReference string
  | Link string "(string \<times> val) list"
  | ImageMacro string "(string \<times> val) list"
  | BlockImage val "(string \<times> val) list"
  | InlineImage val
  | DelimitedBlock "(string \<times> val) list" "val list"
  | LiteralBlock string
  | SingleLineComment string
  | BlankLine

type_synonym attrs = "(string \<times> val) list"

text \<open>\<open>m[k] = v\<close>, \<open>delete(m, k)\<close> and \<open>for k, v := range src { dst[k] = v }\<close>.\<close>

fun store :: "'k \<Rightarrow> 'v \<Rightarrow> ('k \<times> 'v) list \<Rightarrow> ('k \<times> 'v) list" where
  "store k v [] = [(k, v)]"
| "store k v ((k', v') # m) = (if k = k' then (k, v) # m else (k', v') # store k v m)"

definition delete :: "'k \<Rightarrow> ('k \<times> 'v) list \<Rightarrow> ('k \<times> 'v) list" where
  "delete k m = filter (\<lambda>(k', v). k' \<noteq> k) m"

fun storeAll :: "('k \<times> 'v) list \<Rightarrow> ('k \<times> 'v) list \<Rightarrow> ('k \<times> 'v) list" where
  "storeAll dst [] = dst"
| "storeAll dst ((k, v) # src) = storeAll (store k v dst) src"

section \<open>Go library functions on strings\<close>

text \<open>
  Strings are byte lists. \<open>unicode.IsSpace\<close> holds of the six ASCII white-space
  characters and of U+0085, U+00A0, U+1680, U+2000 to U+200A, U+2028, U+2029, U+202F,
  U+205F and U+3000, listed here in their UTF-8 encodings.
\<close>

definition spaceRunes :: "string list" where
  "spaceRunes =
     [[CHR 0x09], [CHR 0x0A], [CHR 0x0B], [CHR 0x0C], [CHR 0x0D], [CHR 0x20],
      [CHR 0xC2, CHR 0x85], [CHR 0xC2, CHR 0xA0], [CHR 0xE1, CHR 0x9A, CHR 0x80],
      [CHR 0xE2, CHR 0x80, CHR 0x80], [CHR 0xE2, CHR 0x80, CHR 0x81],
      [CHR 0xE2, CHR 0x80, CHR 0x82], [CHR 0xE2, CHR 0x80, CHR 0x83],
      [CHR 0xE2, CHR 0x80, CHR 0x84], [CHR 0xE2, CHR 0x80, CHR 0x85],
      [CHR 0xE2, CHR 0x80, CHR 0x86], [CHR 0xE2, CHR 0x80, CHR 0x87],
      [CHR 0xE2, CHR 0x80, CHR 0x88], [CHR 0xE2, CHR 0x80, CHR 0x89],
      [CHR 0xE2, CHR 0x80, CHR 0x8A], [CHR 0xE2, CHR 0x80, CHR 0xA8],
      [CHR 0xE2, CHR 0x80, CHR 0xA9], [CHR 0xE2, CHR 0x80, CHR 0xAF],
      [CHR 0xE2, CHR 0x81, CHR 0x9F], [CHR 0xE3, CHR 0x80, CHR 0x80]]"

text \<open>\<open>match p s\<close> is what follows the prefix \<open>p\<close> of \<open>s\<close>, if \<open>s\<close> starts with \<open>p\<close>.\<close>

fun match :: "string \<Rightarrow> string \<Rightarrow> string option" where
  "match [] s = Some s"
| "match (c # cs) [] = None"
| "match (c # cs) (d # ds) = (if c = d then match cs ds else None)"

definition hasPrefix :: "string \<Rightarrow> string \<Rightarrow> bool" where
  "hasPrefix s p = (match p s \<noteq> None)"

definition hasSuffix :: "string \<Rightarrow> string \<Rightarrow> bool" where
  "hasSuffix s p = hasPrefix (rev s) (rev p)"

text \<open>What is left of \<open>s\<close> behind the white-space rune that it starts with.\<close>

fun afterSpace :: "string list \<Rightarrow> string \<Rightarrow> string option" where
  "afterSpace [] s = None"
| "afterSpace (w # ws) s = (case match w s of Some r \<Rightarrow> Some r | None \<Rightarrow> afterSpace ws s)"

function trimLeftSpace :: "string \<Rightarrow> string" where
  "trimLeftSpace s =
     (case afterSpace spaceRunes s of
        None \<Rightarrow> s
      | Some r \<Rightarrow> if length r < length s then trimLeftSpace r else s)"
  by pat_completeness auto
termination
  by (relation "measure length") auto

text \<open>\<open>strings.TrimSpace\<close>; the trailing runes are found on the reversed string with
  the reversed encodings.\<close>

function trimLeftSpaceRev :: "string \<Rightarrow> string" where
  "trimLeftSpaceRev s =
     (case afterSpace (map rev spaceRunes) s of
        None \<Rightarrow> s
      | Some r \<Rightarrow> if length r < length s then trimLeftSpaceRev r else s)"
  by pat_completeness auto
termination
  by (relation "measure length") auto

definition TrimSpace :: "string \<Rightarrow> string" where
  "TrimSpace s = rev (trimLeftSpaceRev (rev (trimLeftSpace s)))"



text \<open>\<open>strings.TrimRight(s, cutset)\<close> drops every trailing character that occurs in
  \<open>cutset\<close>, which is a set of characters and not a suffix; \<open>strings.TrimLeft\<close> and
  \<open>strings.Trim\<close> likewise.\<close>

definition TrimRight :: "string \<Rightarrow> string \<Rightarrow> string" where
  "TrimRight s cutset = rev (dropWhile (\<lambda>c. c \<in> set cutset) (rev s))"

definition TrimLeft :: "string \<Rightarrow> string \<Rightarrow> string" where
  "TrimLeft s cutset = dropWhile (\<lambda>c. c \<in> set cutset) s"

definition Trim :: "string \<Rightarrow> string \<Rightarrow> string" where
  "Trim s cutset = TrimRight (TrimLeft s cutset) cutset"

definition TrimPrefix :: "string \<Rightarrow> string \<Rightarrow> string" where
  "TrimPrefix s p = (case match p s of Some r \<Rightarrow> r | None \<Rightarrow> s)"

definition TrimSuffix :: "string \<Rightarrow> string \<Rightarrow> string" where
  "TrimSuffix s p = rev (TrimPrefix (rev s) (rev p))"

text \<open>\<open>strings.Replace(s, "_", " ", -1)\<close>.\<close>

definition underscoresToSpaces :: "string \<Rightarrow> string" where
  "underscoresToSpaces s = map (\<lambda>c. if c = CHR ''_'' then CHR '' '' else c) s"

text \<open>\<open>filepath.Split\<close> (with \<open>/\<close> as the separator): the file name is what follows
  the last separator.\<close>

definition filepath_Split :: "string \<Rightarrow> string \<times> string" where
  "filepath_Split path =
     (let file = rev (takeWhile (\<lambda>c. c \<noteq> CHR ''/'') (rev path))
      in (take (length path - length file) path, file))"

text \<open>\<open>filepath.Ext\<close>: the suffix that starts at the last dot of the last path element,
  the dot included; empty when that element has no dot.\<close>

fun extFrom :: "string \<Rightarrow> string \<Rightarrow> string" where
  "extFrom [] acc = []"
| "extFrom (c # cs) acc =
     (if c = CHR ''/'' then []
      else if c = CHR ''.'' then c # acc
      else extFrom cs (c # acc))"

definition filepath_Ext :: "string \<Rightarrow> string" where
  "filepath_Ext path = extFrom (rev path) []"

text \<open>\<open>strconv.ParseInt(s, 10, 64)\<close>: an optional sign, then one or more decimal digits;
  the value has to fit into 64 bits.\<close>

definition isDigit :: "char \<Rightarrow> bool" where
  "isDigit c = (48 \<le> (of_char c :: nat) \<and> (of_char c :: nat) \<le> 57)"

definition digitsValue :: "string \<Rightarrow> int" where
  "digitsValue ds = foldl (\<lambda>acc c. 10 * acc + (int (of_char c) - 48)) 0 ds"

definition ParseInt :: "string \<Rightarrow> int option" where
  "ParseInt s =
     (let neg = (s \<noteq> [] \<and> hd s = CHR ''-'');
          ds = (if s \<noteq> [] \<and> (hd s = CHR ''+'' \<or> hd s = CHR ''-'') then tl s else s)
      in if ds = [] \<or> \<not> list_all isDigit ds then None
         else let un = digitsValue ds
              in if \<not> neg \<and> un \<ge> 2 ^ 63 then None
                 else if neg \<and> un > 2 ^ 63 then None
                 else Some (if neg then - un else un))"

section \<open>Helpers of package types that the actions rely on\<close>

text \<open>
  Modelled from the spec: \<open>mergeElements\<close>, \<open>stringify\<close>, \<open>nilSafe\<close>, \<open>mergeAttributes\<close>
  and \<open>toPtr\<close> are helpers of package \<open>types\<close> whose file is not among the sources.
  The specification does not describe them; their behaviour is taken from their call
  sites and from the values that the parser tests expect. \<open>mergeElements\<close> flattens
  nested slices, skips \<open>nil\<close> and joins every run of adjacent text pieces (matched
  bytes, strings, string elements) into one \<open>StringElement\<close>, leaving other nodes in
  place; \<open>stringify\<close> joins the text of its argument, fails on any other node, and then
  applies the given string functions from left to right; \<open>nilSafe\<close> and \<open>toPtr\<close> do not
  change a value of the model; \<open>mergeAttributes\<close> merges attribute maps as
  \<open>NewElementAttributes\<close> does.
\<close>

fun flatten :: "val \<Rightarrow> val list" where
  "flatten v = (case v of Nil \<Rightarrow> [] | Slice vs \<Rightarrow> concat (map flatten vs) | _ \<Rightarrow> [v])"

definition flattenAll :: "val list \<Rightarrow> val list" where
  "flattenAll vs = concat (map flatten vs)"

definition appendBuffer :: "string \<Rightarrow> val list" where
  "appendBuffer buff = (if buff = [] then [] else [StringElement buff])"

fun mergeFlat :: "string \<Rightarrow> val list \<Rightarrow> val list" where
  "mergeFlat buff [] = appendBuffer buff"
| "mergeFlat buff (v # vs) =
     (case v of
        Bytes b \<Rightarrow> mergeFlat (buff @ b) vs
      | Str b \<Rightarrow> mergeFlat (buff @ b) vs
      | StringElement b \<Rightarrow> mergeFlat (buff @ b) vs
      | _ \<Rightarrow> appendBuffer buff @ v # mergeFlat [] vs)"

definition mergeElements :: "val list \<Rightarrow> val list" where
  "mergeElements vs = mergeFlat [] (flattenAll vs)"

fun joinText :: "val list \<Rightarrow> string option" where
  "joinText [] = Some []"
| "joinText (v # vs) =
     (case v of
        StringElement b \<Rightarrow> map_option (\<lambda>r. b @ r) (joinText vs)
      | _ \<Rightarrow> None)"

definition stringify :: "val list \<Rightarrow> (string \<Rightarrow> string) list \<Rightarrow> string option" where
  "stringify elements fs =
     map_option (\<lambda>s. fold (\<lambda>f r. f r) fs s) (joinText (mergeElements elements))"

text \<open>Type assertions. \<open>v.([]interface{})\<close> panics on \<open>nil\<close> and on any value that is
  no slice; the continuation gets the slice otherwise.\<close>

definition asSlice :: "val \<Rightarrow> (val list \<Rightarrow> val) \<Rightarrow> val" where
  "asSlice v k =
     (case v of
        Slice vs \<Rightarrow> k vs
      | _ \<Rightarrow> Failure ''interface conversion: interface {} is not []interface {}'')"

definition asString :: "val \<Rightarrow> (string \<Rightarrow> val) \<Rightarrow> val" where
  "asString v k =
     (case v of
        Str s \<Rightarrow> k s
      | _ \<Rightarrow> Failure ''interface conversion: interface {} is not string'')"

definition asAttrMap :: "val \<Rightarrow> (attrs \<Rightarrow> val) \<Rightarrow> val" where
  "asAttrMap v k =
     (case v of
        AttrMap m \<Rightarrow> k m
      | _ \<Rightarrow> Failure ''interface conversion: interface {} is not map[string]interface {}'')"

text \<open>The result of \<open>stringify\<close>, or its error wrapped with the message of the caller.\<close>

definition orFail :: "string \<Rightarrow> 'a option \<Rightarrow> ('a \<Rightarrow> val) \<Rightarrow> val" where
  "orFail msg r k = (case r of None \<Rightarrow> Failure msg | Some x \<Rightarrow> k x)"

section \<open>Element attributes\<close>

definition AttrID :: string where "AttrID = ''elementID''"
definition AttrTitle :: string where "AttrTitle = ''title''"
definition AttrAdmonitionKind :: string where "AttrAdmonitionKind = ''admonitionKind''"
definition AttrBlockKind :: string where "AttrBlockKind = ''kind''"
definition AttrVerseAuthor :: string where "AttrVerseAuthor = ''verseAuthor''"
definition AttrVerseTitle :: string where "AttrVerseTitle = ''verseTitle''"
definition AttrLinkText :: string where "AttrLinkText = ''text''"
definition AttrImageAlt :: string where "AttrImageAlt = ''alt''"
definition AttrImageWidth :: string where "AttrImageWidth = ''width''"
definition AttrImageHeight :: string where "AttrImageHeight = ''height''"

text \<open>The loop \<open>if a, ok := a.(map[string]interface{}); ok { copy }\<close>: a value of the
  named type \<open>GenericAttribute\<close> is not a \<open>map[string]interface{}\<close> and is skipped, like
  \<open>nil\<close> and every other value.\<close>

fun copyAttrMaps :: "attrs \<Rightarrow> val list \<Rightarrow> attrs" where
  "copyAttrMaps result [] = result"
| "copyAttrMaps result (v # others) =
     (case v of
        AttrMap m \<Rightarrow> copyAttrMaps (storeAll result m) others
      | _ \<Rightarrow> copyAttrMaps result others)"

text \<open>The same loop for \<open>a.(GenericAttribute)\<close>.\<close>

fun copyGenericAttributes :: "attrs \<Rightarrow> val list \<Rightarrow> attrs" where
  "copyGenericAttributes result [] = result"
| "copyGenericAttributes result (v # others) =
     (case v of
        GenericAttribute m \<Rightarrow> copyGenericAttributes (storeAll result m) others
      | _ \<Rightarrow> copyGenericAttributes result others)"

definition NewElementAttributes :: "val list \<Rightarrow> attrs" where
  "NewElementAttributes attributes = copyAttrMaps [] attributes"

definition mergeAttributes :: "val list \<Rightarrow> attrs" where
  "mergeAttributes attributes = NewElementAttributes attributes"

definition NewElementID :: "string \<Rightarrow> val" where
  "NewElementID elementID = AttrMap [(AttrID, Str elementID)]"

definition NewElementTitle :: "val list \<Rightarrow> val" where
  "NewElementTitle v =
     orFail ''failed to initialize a new ElementTitle'' (stringify v [])
       (\<lambda>t. AttrMap [(AttrTitle, Str t)])"

definition NewAdmonitionAttribute :: "AdmonitionKind \<Rightarrow> val" where
  "NewAdmonitionAttribute k = AttrMap [(AttrAdmonitionKind, AdmonitionKindV k)]"

definition NewAttributeGroup :: "val list \<Rightarrow> val" where
  "NewAttributeGroup attributes = AttrMap (copyGenericAttributes [] attributes)"

text \<open>\<open>NewGenericAttribute\<close>: the value is \<open>nil\<close> when the slice of the value is \<open>nil\<close>,
  which is what a repetition without a match returns.\<close>

definition trimQuotes :: "string \<Rightarrow> string" where
  "trimQuotes s = Trim s [CHR 0x22]"

definition NewGenericAttribute :: "val list \<Rightarrow> val list \<Rightarrow> val" where
  "NewGenericAttribute key v =
     orFail ''failed to initialize a new generic attribute'' (stringify key [trimQuotes])
       (\<lambda>k. if v \<noteq> [] then
               orFail ''failed to initialize a new generic attribute'' (stringify v [trimQuotes])
                 (\<lambda>s. GenericAttribute [(k, Str s)])
             else GenericAttribute [(k, Nil)])"

definition NewVerseAttributes :: "string \<Rightarrow> string \<Rightarrow> val" where
  "NewVerseAttributes author title =
     AttrMap (store AttrVerseTitle (Str (TrimSpace title))
               (store AttrVerseAuthor (Str (TrimSpace author))
                 (store AttrBlockKind (BlockKindV Verse) [])))"

section \<open>Paragraphs, inline elements, quoted text\<close>

text \<open>\<open>NewParagraph\<close> keeps the lines that are \<open>InlineElements\<close>.\<close>

definition isInlineElements :: "val \<Rightarrow> bool" where
  "isInlineElements v = (case v of InlineElements es \<Rightarrow> True | _ \<Rightarrow> False)"

definition NewParagraph :: "val list \<Rightarrow> val list \<Rightarrow> val" where
  "NewParagraph lines attributes =
     Paragraph (NewElementAttributes attributes) (filter isInlineElements lines)"

definition NewAdmonitionParagraph :: "val list \<Rightarrow> AdmonitionKind \<Rightarrow> val list \<Rightarrow> val" where
  "NewAdmonitionParagraph lines admonitionKind attributes =
     (case NewParagraph lines attributes of
        Paragraph attrbs ls \<Rightarrow>
          Paragraph (store AttrAdmonitionKind (AdmonitionKindV admonitionKind) attrbs) ls
      | v \<Rightarrow> v)"

definition NewInlineElements :: "val list \<Rightarrow> val" where
  "NewInlineElements elements = InlineElements (mergeElements elements)"

definition NewQuotedText :: "QuotedTextKind \<Rightarrow> val list \<Rightarrow> val" where
  "NewQuotedText kind content = QuotedText kind (mergeElements content)"

text \<open>
  \<open>NewEscapedQuotedText\<close>: the matched backslashes are joined into one string, from which
  as many characters as the punctuation has are cut off at the front when the string is
  longer than the punctuation; otherwise nothing of it is kept.
\<close>

definition dropPunctuation :: "string \<Rightarrow> string \<Rightarrow> string" where
  "dropPunctuation punctuation s =
     (if length s > length punctuation then drop (length punctuation) s else [])"

definition NewEscapedQuotedText :: "val list \<Rightarrow> string \<Rightarrow> val list \<Rightarrow> val" where
  "NewEscapedQuotedText backslashes punctuation content =
     orFail ''error while initializing quoted text with substitution prevention''
       (stringify backslashes [dropPunctuation punctuation])
       (\<lambda>backslashesStr. Slice [Str backslashesStr, Str punctuation, Slice content, Str punctuation])"

definition NewPassthrough :: "PassthroughKind \<Rightarrow> val list \<Rightarrow> val" where
  "NewPassthrough kind elements = Passthrough kind (mergeElements elements)"

definition NewCrossReference :: "string \<Rightarrow> val" where
  "NewCrossReference xref = CrossReference xref"

section \<open>Links and images\<close>

text \<open>\<open>NewLink\<close>; the attributes are \<open>nil\<close> or a map.\<close>

definition NewLink :: "val list \<Rightarrow> val \<Rightarrow> val" where
  "NewLink url attributes =
     orFail ''failed to initialize a new Link element'' (stringify url [])
       (\<lambda>urlStr. case attributes of
                   Nil \<Rightarrow> Link urlStr [(AttrLinkText, Str [])]
                 | AttrMap m \<Rightarrow> Link urlStr m
                 | _ \<Rightarrow> Failure ''interface conversion: interface {} is not map[string]interface {}'')"

definition NewLinkAttributes :: "val list \<Rightarrow> val list \<Rightarrow> val" where
  "NewLinkAttributes text otherAttrs =
     orFail ''unable to convert the 'text' link attribute into a string'' (stringify text [TrimSpace])
       (\<lambda>textStr. AttrMap (copyAttrMaps [(AttrLinkText, Str textStr)] otherAttrs))"

text \<open>
  \<open>NewImageAttributes\<close>: the positional attributes are stored under \<open>alt\<close>, \<open>width\<close> and
  \<open>height\<close>, an absent one (\<open>nil\<close>) as the empty string.
\<close>

definition NewImageAttributes :: "val list \<Rightarrow> val list \<Rightarrow> val list \<Rightarrow> val list \<Rightarrow> val" where
  "NewImageAttributes alt width height otherAttrs =
     orFail ''unable to convert the 'alt' image attribute into a string'' (stringify alt [TrimSpace])
       (\<lambda>altStr.
     orFail ''unable to convert the 'width' image attribute into a string'' (stringify width [TrimSpace])
       (\<lambda>widthStr.
     orFail ''unable to convert the 'height' image attribute into a string'' (stringify height [TrimSpace])
       (\<lambda>heightStr.
          AttrMap (copyAttrMaps
            [(AttrImageAlt, Str altStr), (AttrImageWidth, Str widthStr), (AttrImageHeight, Str heightStr)]
            otherAttrs))))"

text \<open>
  \<open>NewImageMacro\<close>: when the \<open>alt\<close> attribute is the empty string, it is derived from
  the file name of the path. The extension that \<open>filepath.Ext\<close> returns starts with its
  dot, \<open>fmt.Sprintf(".%s", ext)\<close> puts one more dot in front, and the result is the
  cutset of \<open>strings.TrimRight\<close>.
\<close>

definition NewImageMacro :: "string \<Rightarrow> attrs \<Rightarrow> val" where
  "NewImageMacro path attributes =
     (if map_of attributes AttrImageAlt = Some (Str [])
      then (let filename = snd (filepath_Split path);
                ext = filepath_Ext filename
            in if ext \<noteq> []
               then ImageMacro path
                      (store AttrImageAlt (Str (TrimRight filename (CHR ''.'' # ext))) attributes)
               else ImageMacro path (store AttrImageAlt (Str filename) attributes))
      else ImageMacro path attributes)"

text \<open>\<open>ImageMacro.Alt\<close>.\<close>

definition Alt :: "val \<Rightarrow> string" where
  "Alt i =
     (case i of
        ImageMacro path attributes \<Rightarrow>
          (case map_of attributes AttrImageAlt of Some (Str alt) \<Rightarrow> alt | _ \<Rightarrow> [])
      | _ \<Rightarrow> [])"

definition NewBlockImage :: "val \<Rightarrow> val list \<Rightarrow> val" where
  "NewBlockImage imageMacro attributes = BlockImage imageMacro (NewElementAttributes attributes)"

definition NewInlineImage :: "val \<Rightarrow> val" where
  "NewInlineImage imageMacro = InlineImage imageMacro"

section \<open>Delimited blocks, literal blocks, comments\<close>

text \<open>The two substitutions of delimited blocks. \<open>None\<close> returns the content as it is;
  \<open>Verbatim\<close> turns every element that is a slice into a string element and leaves
  \<open>nil\<close> in the place of any other element.\<close>

datatype Substitution = None_subst | Verbatim

definition verbatimElement :: "val \<Rightarrow> val option" where
  "verbatimElement v =
     (case v of Slice c \<Rightarrow> map_option StringElement (stringify c []) | _ \<Rightarrow> Some Nil)"

fun verbatimAll :: "val list \<Rightarrow> val list option" where
  "verbatimAll [] = Some []"
| "verbatimAll (c # cs) =
     (case verbatimElement c of
        None \<Rightarrow> None
      | Some e \<Rightarrow> map_option (\<lambda>es. e # es) (verbatimAll cs))"

fun substitute :: "Substitution \<Rightarrow> val list \<Rightarrow> val list option" where
  "substitute None_subst content = Some content"
| "substitute Verbatim content = verbatimAll content"

definition NewDelimitedBlock :: "BlockKind \<Rightarrow> val list \<Rightarrow> val list \<Rightarrow> Substitution \<Rightarrow> val" where
  "NewDelimitedBlock kind content attributes substitution =
     (let attrbs = store AttrBlockKind (BlockKindV kind) (NewElementAttributes attributes)
      in orFail ''failed to initialize a new delimited block'' (substitute substitution content)
           (\<lambda>elements. DelimitedBlock attrbs elements))"

definition NewLiteralBlock :: "val list \<Rightarrow> val list \<Rightarrow> val" where
  "NewLiteralBlock spaces content =
     orFail ''unable to initialize a new literal block'' (stringify (spaces @ content) [])
       (\<lambda>c. LiteralBlock (TrimRight (TrimRight c [CHR 0x0A]) [CHR 0x0D]))"

definition NewSingleLineComment :: "val list \<Rightarrow> val" where
  "NewSingleLineComment content =
     orFail ''failed to initialize a new single line comment'' (stringify content [])
       (\<lambda>c. SingleLineComment c)"

section \<open>Sections\<close>

definition NewSection :: "nat \<Rightarrow> val \<Rightarrow> val list \<Rightarrow> val" where
  "NewSection level sectionTitle blocks = Section level sectionTitle blocks"

text \<open>
  Modelled from the spec: \<open>ReplaceNonAlphanumerics\<close>, which \<open>NewSectionTitle\<close> calls for
  the default id of a title, is not among the sources. The specification has: "If no
  explicit ID is given, synthesize one by lowercasing the title's plain text and
  replacing runs of non-alphanumerics with \<open>_\<close>."
\<close>

fun plainText :: "val \<Rightarrow> string" where
  "plainText v =
     (case v of
        StringElement s \<Rightarrow> s
      | InlineElements es \<Rightarrow> concat (map plainText es)
      | QuotedText kind es \<Rightarrow> concat (map plainText es)
      | _ \<Rightarrow> [])"

definition isAlphanumeric :: "char \<Rightarrow> bool" where
  "isAlphanumeric c =
     (let n = (of_char c :: nat)
      in (48 \<le> n \<and> n \<le> 57) \<or> (65 \<le> n \<and> n \<le> 90) \<or> (97 \<le> n \<and> n \<le> 122))"

definition toLower :: "char \<Rightarrow> char" where
  "toLower c =
     (let n = (of_char c :: nat) in if 65 \<le> n \<and> n \<le> 90 then char_of (n + 32) else c)"

fun replaceRuns :: "bool \<Rightarrow> string \<Rightarrow> string" where
  "replaceRuns inRun [] = []"
| "replaceRuns inRun (c # cs) =
     (if isAlphanumeric c then toLower c # replaceRuns False cs
      else if inRun then replaceRuns True cs
      else CHR ''_'' # replaceRuns True cs)"

definition ReplaceNonAlphanumerics :: "val \<Rightarrow> string" where
  "ReplaceNonAlphanumerics source = replaceRuns False (plainText source)"

definition NewSectionTitle :: "val \<Rightarrow> val list \<Rightarrow> val" where
  "NewSectionTitle inlineContent attributes =
     (case inlineContent of
        InlineElements es \<Rightarrow>
          (let attrbs = NewElementAttributes attributes
           in if map_of attrbs AttrID = None
              then SectionTitle (store AttrID (Str (ReplaceNonAlphanumerics inlineContent)) attrbs) inlineContent
              else SectionTitle attrbs inlineContent)
      | _ \<Rightarrow> Failure ''interface conversion: interface {} is not types.InlineElements'')"

section \<open>The document header\<close>

text \<open>
  Modelled from the spec: the methods \<open>AddNonEmpty\<close> and \<open>AddAttribute\<close> of
  \<open>DocumentAttributes\<close> are not among the sources. By their names and by the
  specification ("Copy front-matter keys and header-derived keys ... into document
  attributes") the first stores a value unless it is empty and the second stores the
  value of a declaration under its name.
\<close>

definition AddNonEmpty :: "string \<Rightarrow> string \<Rightarrow> attrs \<Rightarrow> attrs" where
  "AddNonEmpty key v content = (if v = [] then content else store key (Str v) content)"

definition AddAttribute :: "val \<Rightarrow> attrs \<Rightarrow> attrs" where
  "AddAttribute attr content =
     (case attr of
        DocumentAttributeDeclaration name v \<Rightarrow> store name (Str v) content
      | _ \<Rightarrow> content)"

text \<open>\<open>initials\<close>: the first character of every part; \<open>part[0:1]\<close> panics on \<open>""\<close>.\<close>

fun initials :: "string list \<Rightarrow> string option" where
  "initials [] = Some []"
| "initials (p # parts) =
     (case p of
        [] \<Rightarrow> None
      | c # cs \<Rightarrow> map_option (\<lambda>r. c # r) (initials parts))"

definition namePart :: "val \<Rightarrow> string option option" where
  "namePart v =
     (case v of
        Nil \<Rightarrow> Some (Some [])
      | Slice vs \<Rightarrow> map_option Some (stringify vs [TrimSpace, underscoresToSpaces])
      | _ \<Rightarrow> Some None)"

text \<open>\<open>NewDocumentAuthor\<close>. The fields of an author are, in this order: full name,
  initials, first name, middle name, last name, email.\<close>

definition authorOf :: "string \<Rightarrow> string \<Rightarrow> string \<Rightarrow> string \<Rightarrow> val" where
  "authorOf part1 part2 part3 email =
     (if part2 \<noteq> [] \<and> part3 \<noteq> [] then
        orFail ''slice bounds out of range'' (initials [part1, part2, part3])
          (\<lambda>i. DocumentAuthor (part1 @ '' '' @ part2 @ '' '' @ part3) i part1 part2 part3 email)
      else if part2 \<noteq> [] then
        orFail ''slice bounds out of range'' (initials [part1, part2])
          (\<lambda>i. DocumentAuthor (part1 @ '' '' @ part2) i part1 [] part2 email)
      else
        orFail ''slice bounds out of range'' (initials [part1])
          (\<lambda>i. DocumentAuthor part1 i part1 [] [] email))"

definition emailOf :: "val \<Rightarrow> string option option" where
  "emailOf v =
     (case v of
        Nil \<Rightarrow> Some (Some [])
      | Slice vs \<Rightarrow>
          map_option Some
            (stringify vs [\<lambda>s. TrimPrefix s ''<'', \<lambda>s. TrimSuffix s ''>'', TrimSpace])
      | _ \<Rightarrow> Some None)"

definition withPart :: "string option option \<Rightarrow> (string \<Rightarrow> val) \<Rightarrow> val" where
  "withPart r k =
     (case r of
        None \<Rightarrow> Failure ''error while initializing a DocumentAuthor''
      | Some None \<Rightarrow> Failure ''interface conversion: interface {} is not []interface {}''
      | Some (Some s) \<Rightarrow> k s)"

definition NewDocumentAuthor :: "val \<Rightarrow> val \<Rightarrow> val \<Rightarrow> val \<Rightarrow> val" where
  "NewDocumentAuthor namePart1 namePart2 namePart3 emailAddress =
     withPart (namePart namePart1) (\<lambda>part1.
     withPart (namePart namePart2) (\<lambda>part2.
     withPart (namePart namePart3) (\<lambda>part3.
     withPart (emailOf emailAddress) (\<lambda>email.
       authorOf part1 part2 part3 email))))"

definition isDocumentAuthor :: "val \<Rightarrow> bool" where
  "isDocumentAuthor v = (case v of DocumentAuthor a b c d e f \<Rightarrow> True | _ \<Rightarrow> False)"

definition NewDocumentAuthors :: "val list \<Rightarrow> val" where
  "NewDocumentAuthors authors =
     (if list_all isDocumentAuthor authors then DocumentAuthors authors
      else Failure ''unexpected type of author'')"

text \<open>\<open>NewDocumentRevision\<close>; each argument is \<open>nil\<close> or a slice.\<close>

definition revisionPart :: "val \<Rightarrow> (string \<Rightarrow> string) list \<Rightarrow> string option option" where
  "revisionPart v fs =
     (case v of
        Nil \<Rightarrow> Some (Some [])
      | Slice vs \<Rightarrow> map_option Some (stringify vs fs)
      | _ \<Rightarrow> Some None)"

definition revPart :: "string option option \<Rightarrow> (string \<Rightarrow> val) \<Rightarrow> val" where
  "revPart r k =
     (case r of
        None \<Rightarrow> Failure ''error while initializing a DocumentRevision''
      | Some None \<Rightarrow> Failure ''interface conversion: interface {} is not []interface {}''
      | Some (Some s) \<Rightarrow> k s)"

definition NewDocumentRevision :: "val \<Rightarrow> val \<Rightarrow> val \<Rightarrow> val" where
  "NewDocumentRevision revnumber revdate revremark =
     revPart (revisionPart revnumber [\<lambda>s. TrimPrefix s ''v'', \<lambda>s. TrimPrefix s ''V'', TrimSpace]) (\<lambda>number.
     revPart (revisionPart revdate [TrimSpace]) (\<lambda>date.
     revPart (revisionPart revremark [\<lambda>s. TrimPrefix s '':'', TrimSpace]) (\<lambda>remark.
       DocumentRevision number date remark)))"

definition NewDocumentAttributeDeclaration :: "val list \<Rightarrow> val list \<Rightarrow> val" where
  "NewDocumentAttributeDeclaration name v =
     orFail ''error while initializing a DocumentAttributeDeclaration'' (stringify name [TrimSpace])
       (\<lambda>attrName.
     orFail ''error while initializing a DocumentAttributeDeclaration'' (stringify v [TrimSpace])
       (\<lambda>attrValue. DocumentAttributeDeclaration attrName attrValue))"

definition NewDocumentAttributeReset :: "val list \<Rightarrow> val" where
  "NewDocumentAttributeReset name =
     orFail ''error while initializing a DocumentAttributeReset'' (stringify name [])
       (\<lambda>attrName. DocumentAttributeReset attrName)"

definition NewDocumentAttributeSubstitution :: "val list \<Rightarrow> val" where
  "NewDocumentAttributeSubstitution name =
     orFail ''error while initializing a DocumentAttributeSubstitution'' (stringify name [])
       (\<lambda>attrName. DocumentAttributeSubstitution attrName)"

text \<open>The decimal digits of a number, for \<open>fmt.Sprintf("firstname_%d", i+1)\<close>.\<close>

fun decimal :: "nat \<Rightarrow> string" where
  "decimal n = (if n < 10 then [char_of (48 + n)] else decimal (n div 10) @ [char_of (48 + n mod 10)])"

definition addAuthor :: "nat \<Rightarrow> val \<Rightarrow> attrs \<Rightarrow> attrs" where
  "addAuthor i author content =
     (case author of
        DocumentAuthor fullName inits firstName middleName lastName email \<Rightarrow>
          (let suffix = (if i = 0 then [] else CHR ''_'' # decimal (i + 1))
           in AddNonEmpty (''email'' @ suffix) email
               (AddNonEmpty (''authorinitials'' @ suffix) inits
                 (AddNonEmpty (''author'' @ suffix) fullName
                   (AddNonEmpty (''lastname'' @ suffix) lastName
                     (AddNonEmpty (''middlename'' @ suffix) middleName
                       (AddNonEmpty (''firstname'' @ suffix) firstName content))))))
      | _ \<Rightarrow> content)"

fun addAuthors :: "nat \<Rightarrow> val list \<Rightarrow> attrs \<Rightarrow> attrs" where
  "addAuthors i [] content = content"
| "addAuthors i (author # authors) content = addAuthors (Suc i) authors (addAuthor i author content)"

definition NewDocumentHeader :: "val \<Rightarrow> val \<Rightarrow> val \<Rightarrow> val list \<Rightarrow> val" where
  "NewDocumentHeader header authors revision otherAttributes =
     (case (case header of
              Nil \<Rightarrow> Some []
            | SectionTitle a c \<Rightarrow> Some [(''doctitle'', header)]
            | _ \<Rightarrow> None) of
        None \<Rightarrow> Failure ''interface conversion: interface {} is not types.SectionTitle''
      | Some content1 \<Rightarrow>
     (case (case authors of
              Nil \<Rightarrow> Some content1
            | DocumentAuthors as \<Rightarrow> Some (addAuthors 0 as content1)
            | _ \<Rightarrow> None) of
        None \<Rightarrow> Failure ''interface conversion: interface {} is not []types.DocumentAuthor''
      | Some content2 \<Rightarrow>
     (case (case revision of
              Nil \<Rightarrow> Some content2
            | DocumentRevision revnumber revdate revremark \<Rightarrow>
                Some (AddNonEmpty ''revremark'' revremark
                       (AddNonEmpty ''revdate'' revdate
                         (AddNonEmpty ''revnumber'' revnumber content2)))
            | _ \<Rightarrow> None) of
        None \<Rightarrow> Failure ''interface conversion: interface {} is not types.DocumentRevision''
      | Some content3 \<Rightarrow> DocumentHeader (fold AddAttribute otherAttributes content3))))"

text \<open>\<open>NewYamlFrontMatter\<close>. The YAML decoder is a library; it is a parameter here: it
  gives the attributes of a front matter, or nothing for a content that is no YAML.\<close>

definition NewYamlFrontMatter :: "(string \<Rightarrow> attrs option) \<Rightarrow> string \<Rightarrow> val" where
  "NewYamlFrontMatter yaml content =
     orFail ''unable to parse yaml content in front-matter of document'' (yaml content)
       (\<lambda>attributes. FrontMatter attributes)"

section \<open>Ordered lists\<close>

text \<open>Reading a slice out of a map: a missing key gives the \<open>nil\<close> slice.\<close>

definition layer :: "('k \<times> val list) list \<Rightarrow> 'k \<Rightarrow> val list" where
  "layer m k = (case map_of m k of None \<Rightarrow> [] | Some items \<Rightarrow> items)"

definition numberingStyleName :: "NumberingStyle \<Rightarrow> string" where
  "numberingStyleName s =
     (case s of
        UnknownNumberingStyle \<Rightarrow> ''unknown''
      | Arabic \<Rightarrow> ''arabic''
      | Decimal \<Rightarrow> ''decimal''
      | LowerAlpha \<Rightarrow> ''loweralpha''
      | UpperAlpha \<Rightarrow> ''upperalpha''
      | LowerRoman \<Rightarrow> ''lowerroman''
      | UpperRoman \<Rightarrow> ''upperroman''
      | LowerGreek \<Rightarrow> ''lowergreek''
      | UpperGreek \<Rightarrow> ''uppergreek'')"

definition numberingStyles :: "NumberingStyle list" where
  "numberingStyles =
     [Arabic, Decimal, LowerAlpha, UpperAlpha, LowerRoman, UpperRoman, LowerGreek, UpperGreek]"

definition NewOrderedListItem :: "val \<Rightarrow> val list \<Rightarrow> val list \<Rightarrow> val" where
  "NewOrderedListItem prefix elements attributes =
     (case prefix of
        OrderedListItemPrefix numberingStyle level \<Rightarrow>
          OrderedListItem level 1 numberingStyle elements (mergeAttributes attributes)
      | _ \<Rightarrow> Failure ''interface conversion: interface {} is not types.OrderedListItemPrefix'')"

text \<open>\<open>OrderedListItem.applyAttributes\<close>: the first numbering style whose name is a key
  of the attributes replaces the style of the item; a \<open>start\<close> attribute that is a
  string and a number sets the position. The error of a \<open>start\<close> that is no number is
  returned after the style has been set (and \<open>toOrderedList\<close> drops it). The method is
  called for buffered items only, whose elements are not empty, so that
  \<open>i.Elements[0]\<close> in its log calls does not panic.\<close>

definition styleOverride :: "attrs \<Rightarrow> NumberingStyle \<Rightarrow> NumberingStyle" where
  "styleOverride attributes current =
     (case filter (\<lambda>style. map_of attributes (numberingStyleName style) \<noteq> None) numberingStyles of
        [] \<Rightarrow> current
      | style # others \<Rightarrow> style)"

definition startOverride :: "attrs \<Rightarrow> int \<Rightarrow> int" where
  "startOverride attributes current =
     (case map_of attributes ''start'' of
        Some (Str start) \<Rightarrow> (case ParseInt start of None \<Rightarrow> current | Some s \<Rightarrow> s)
      | _ \<Rightarrow> current)"

definition applyAttributes :: "val \<Rightarrow> val" where
  "applyAttributes i =
     (case i of
        OrderedListItem level position numberingStyle elements attributes \<Rightarrow>
          OrderedListItem level (startOverride attributes position)
            (styleOverride attributes numberingStyle) elements attributes
      | _ \<Rightarrow> i)"

definition itemLevel :: "val \<Rightarrow> int" where
  "itemLevel i =
     (case i of OrderedListItem level position numberingStyle elements attributes \<Rightarrow> level | _ \<Rightarrow> 0)"

definition itemPosition :: "val \<Rightarrow> int" where
  "itemPosition i =
     (case i of OrderedListItem level position numberingStyle elements attributes \<Rightarrow> position | _ \<Rightarrow> 0)"

definition itemNumberingStyle :: "val \<Rightarrow> NumberingStyle" where
  "itemNumberingStyle i =
     (case i of
        OrderedListItem level position numberingStyle elements attributes \<Rightarrow> numberingStyle
      | _ \<Rightarrow> UnknownNumberingStyle)"

definition setPosition :: "int \<Rightarrow> val \<Rightarrow> val" where
  "setPosition p i =
     (case i of
        OrderedListItem level position numberingStyle elements attributes \<Rightarrow>
          OrderedListItem level p numberingStyle elements attributes
      | _ \<Rightarrow> i)"

definition setNumberingStyle :: "NumberingStyle \<Rightarrow> val \<Rightarrow> val" where
  "setNumberingStyle s i =
     (case i of
        OrderedListItem level position numberingStyle elements attributes \<Rightarrow>
          OrderedListItem level position s elements attributes
      | _ \<Rightarrow> i)"

text \<open>\<open>AddChild\<close> of the three kinds of list items, and
  \<open>parentItem.Elements = append(parentItem.Elements, childList)\<close>.\<close>

definition AddChild :: "val \<Rightarrow> val \<Rightarrow> val" where
  "AddChild child i =
     (case i of
        OrderedListItem level position numberingStyle elements attributes \<Rightarrow>
          OrderedListItem level position numberingStyle (elements @ [child]) attributes
      | UnorderedListItem level bulletStyle elements \<Rightarrow>
          UnorderedListItem level bulletStyle (elements @ [child])
      | LabeledListItem term elements \<Rightarrow> LabeledListItem term (elements @ [child])
      | _ \<Rightarrow> i)"

text \<open>\<open>item.Position = items[0].Position + idx\<close> for every item of the slice.\<close>

definition numberFrom :: "int \<Rightarrow> val list \<Rightarrow> val list" where
  "numberFrom first items =
     map (\<lambda>(idx, item). setPosition (first + int idx) item) (enumerate 0 items)"

definition toOrderedList :: "val list \<Rightarrow> val" where
  "toOrderedList items =
     (case items of
        [] \<Rightarrow> OrderedList [] []
      | item # others \<Rightarrow>
          (let first = applyAttributes item
           in OrderedList []
                (map (setNumberingStyle (itemNumberingStyle first))
                   (numberFrom (itemPosition first) (first # others)))))"

text \<open>
  The state of the loop of \<open>NewOrderedList\<close>. The items are pointers in the code; each
  pointer is stored in exactly one slice of \<open>bufferedItemsPerLevel\<close>, so the model keeps
  the items themselves there and a write through a pointer rewrites the slice.
\<close>

record orderedListState =
  bufferedItemsPerLevel :: "(int \<times> val list) list"
  levelPerStyle :: "(NumberingStyle \<times> int) list"
  previousLevel :: int
  previousNumberingStyle :: NumberingStyle

text \<open>A child list goes into the last item of the level above. Indexing the last item
  of an empty or missing slice panics.\<close>

definition attachToParent ::
  "(int \<times> val list) list \<Rightarrow> int \<Rightarrow> val \<Rightarrow> string + (int \<times> val list) list" where
  "attachToParent buffered parentKey childList =
     (let parentLayer = layer buffered parentKey
      in if parentLayer = [] then Inl ''index out of range''
         else Inr (store parentKey (butlast parentLayer @ [AddChild childList (last parentLayer)])
                     buffered))"

text \<open>The first statement of a round of the first loop: the level of the item is
  rewritten, and the level may be recorded for the numbering style of the item. The
  result is the new level and the new map \<open>levelPerStyle\<close>.\<close>

definition rewriteLevel ::
  "orderedListState \<Rightarrow> int \<Rightarrow> NumberingStyle \<Rightarrow> int \<times> (NumberingStyle \<times> int) list" where
  "rewriteLevel st level numberingStyle =
     (if level > previousLevel st then
        (previousLevel st + 1,
         store numberingStyle (previousLevel st + 1) (levelPerStyle st))
      else if numberingStyle \<noteq> previousNumberingStyle st then
        (case map_of (levelPerStyle st) numberingStyle of
           Some found \<Rightarrow> (found, levelPerStyle st)
         | None \<Rightarrow>
             (previousLevel st + 1,
              store numberingStyle (previousLevel st + 1) (levelPerStyle st)))
      else (previousLevel st, levelPerStyle st))"

text \<open>One round of the first loop. The arguments of the calls of \<open>log.Debugf\<close> are
  evaluated whatever the log level is: \<open>item.Elements[0]\<close> panics for an item without
  elements, and \<open>bufferedItemsPerLevel[previousLevel-1][0]\<close> for a level without items.\<close>

definition processItem :: "orderedListState \<Rightarrow> val \<Rightarrow> string + orderedListState" where
  "processItem st element =
     (case element of
        OrderedListItem level position numberingStyle elements attributes \<Rightarrow>
          if elements = [] then Inl ''index out of range''
          else
          (let (level', levels) = rewriteLevel st level numberingStyle;
               item = OrderedListItem level' position numberingStyle elements attributes
           in case (if level' < previousLevel st then
                      (if layer (bufferedItemsPerLevel st) (previousLevel st - 2) = []
                          \<or> layer (bufferedItemsPerLevel st) (previousLevel st - 1) = []
                       then Inl ''index out of range''
                       else map_sum id (delete (previousLevel st - 1))
                              (attachToParent (bufferedItemsPerLevel st) (previousLevel st - 2)
                                 (toOrderedList (layer (bufferedItemsPerLevel st) (previousLevel st - 1)))))
                    else Inr (bufferedItemsPerLevel st)) of
                Inl err \<Rightarrow> Inl err
              | Inr joined \<Rightarrow>
                  (let opened = (if level' > int (length joined) then store (level' - 1) [] joined
                                 else joined)
                   in Inr \<lparr>bufferedItemsPerLevel =
                             store (level' - 1) (layer opened (level' - 1) @ [item]) opened,
                           levelPerStyle = levels,
                           previousLevel = level',
                           previousNumberingStyle = numberingStyle\<rparr>))
      | _ \<Rightarrow> Inl ''element is not a valid unorderedlist item'')"

fun processItems :: "orderedListState \<Rightarrow> val list \<Rightarrow> string + orderedListState" where
  "processItems st [] = Inr st"
| "processItems st (element # elements) =
     (case processItem st element of
        Inl err \<Rightarrow> Inl err
      | Inr st' \<Rightarrow> processItems st' elements)"

text \<open>The second loop: from the deepest level down to level 0.\<close>

fun flushLevels :: "nat \<Rightarrow> (int \<times> val list) list \<Rightarrow> string + val list" where
  "flushLevels 0 buffered =
     (let items = layer buffered 0
      in Inr (case items of [] \<Rightarrow> [] | item # others \<Rightarrow> numberFrom (itemPosition item) items))"
| "flushLevels (Suc level) buffered =
     (case attachToParent buffered (int level) (toOrderedList (layer buffered (int (Suc level)))) of
        Inl err \<Rightarrow> Inl err
      | Inr buffered' \<Rightarrow> flushLevels level buffered')"

definition initialState :: orderedListState where
  "initialState = \<lparr>bufferedItemsPerLevel = [], levelPerStyle = [], previousLevel = 0,
                    previousNumberingStyle = UnknownNumberingStyle\<rparr>"

definition NewOrderedList :: "val list \<Rightarrow> val list \<Rightarrow> val" where
  "NewOrderedList elements attributes =
     (case processItems initialState elements of
        Inl err \<Rightarrow> Failure err
      | Inr st \<Rightarrow>
          (case (if bufferedItemsPerLevel st = [] then Inr []
                 else flushLevels (length (bufferedItemsPerLevel st) - 1) (bufferedItemsPerLevel st)) of
             Inl err \<Rightarrow> Failure err
           | Inr result \<Rightarrow> OrderedList (mergeAttributes attributes) result))"

text \<open>The rule of the specification for the level of an ordered list item, in the
  specification's own words and names.\<close>

definition claimedLevel ::
  "int \<Rightarrow> NumberingStyle \<Rightarrow> (NumberingStyle \<rightharpoonup> int) \<Rightarrow> int \<Rightarrow> NumberingStyle
     \<Rightarrow> int \<times> (NumberingStyle \<rightharpoonup> int)" where
  "claimedLevel previous_level previous_numbering_style level_per_style item_level item_style =
     (if item_level > previous_level then
        (previous_level + 1, level_per_style(item_style \<mapsto> previous_level + 1))
      else if item_style \<noteq> previous_numbering_style then
        (case level_per_style item_style of
           Some recorded \<Rightarrow> (recorded, level_per_style)
         | None \<Rightarrow> (previous_level + 1, level_per_style(item_style \<mapsto> previous_level + 1)))
      else (previous_level, level_per_style))"

definition claimedStep ::
  "int \<times> NumberingStyle \<times> (NumberingStyle \<rightharpoonup> int) \<Rightarrow> val
     \<Rightarrow> int \<times> NumberingStyle \<times> (NumberingStyle \<rightharpoonup> int)" where
  "claimedStep tracked item =
     (case tracked of
        (previous_level, previous_numbering_style, level_per_style) \<Rightarrow>
          (case claimedLevel previous_level previous_numbering_style level_per_style
                  (itemLevel item) (itemNumberingStyle item) of
             (level, levels) \<Rightarrow> (level, itemNumberingStyle item, levels)))"

definition tracked :: "orderedListState \<Rightarrow> int \<times> NumberingStyle \<times> (NumberingStyle \<rightharpoonup> int)" where
  "tracked st = (previousLevel st, previousNumberingStyle st, map_of (levelPerStyle st))"

section \<open>Unordered and labeled lists\<close>

definition NewUnorderedListItem :: "val \<Rightarrow> val list \<Rightarrow> val" where
  "NewUnorderedListItem prefix elements =
     (case prefix of
        UnorderedListItemPrefix bulletStyle level \<Rightarrow> UnorderedListItem level bulletStyle elements
      | _ \<Rightarrow> Failure ''interface conversion: interface {} is not types.UnorderedListItemPrefix'')"

text \<open>\<open>b.nextLevelStyle(p)\<close>.\<close>

definition nextLevelStyle :: "BulletStyle \<Rightarrow> BulletStyle \<Rightarrow> BulletStyle" where
  "nextLevelStyle b p =
     (case p of
        Dash \<Rightarrow> OneAsterisk
      | OneAsterisk \<Rightarrow> TwoAsterisks
      | TwoAsterisks \<Rightarrow> ThreeAsterisks
      | ThreeAsterisks \<Rightarrow> FourAsterisks
      | FourAsterisks \<Rightarrow> FiveAsterisks
      | FiveAsterisks \<Rightarrow> Dash
      | UnknownBulletStyle \<Rightarrow> b)"

record unorderedListState =
  bufferedBullets :: "(int \<times> val list) list"
  levelPerBullet :: "(BulletStyle \<times> int) list"
  previousBulletLevel :: int
  previousBulletStyle :: BulletStyle

text \<open>The loop \<open>for l := previousLevel; l > item.Level; l--\<close> that merges the buffered
  levels into their parents; \<open>count\<close> is the number of its rounds.\<close>

fun mergeLevels :: "nat \<Rightarrow> int \<Rightarrow> (int \<times> val list) list \<Rightarrow> string + (int \<times> val list) list" where
  "mergeLevels 0 l buffered = Inr buffered"
| "mergeLevels (Suc count) l buffered =
     (case attachToParent buffered (l - 2) (UnorderedList [] (layer buffered (l - 1))) of
        Inl err \<Rightarrow> Inl err
      | Inr buffered' \<Rightarrow> mergeLevels count (l - 1) (delete (l - 1) buffered'))"

text \<open>One round of the loop of \<open>NewUnorderedList\<close>; \<open>item.Elements[0]\<close> in its log calls
  panics for an item without elements.\<close>

definition processBullet :: "unorderedListState \<Rightarrow> val \<Rightarrow> string + unorderedListState" where
  "processBullet st element =
     (case element of
        UnorderedListItem level bulletStyle elements \<Rightarrow>
          if elements = [] then Inl ''index out of range''
          else
          (let (level', style', levels) =
                 (if level > previousBulletLevel st then
                    (let adjusted = nextLevelStyle bulletStyle (previousBulletStyle st)
                     in (previousBulletLevel st + 1, adjusted,
                         store adjusted (previousBulletLevel st + 1) (levelPerBullet st)))
                  else if bulletStyle \<noteq> previousBulletStyle st then
                    (case map_of (levelPerBullet st) bulletStyle of
                       Some found \<Rightarrow> (found, bulletStyle, levelPerBullet st)
                     | None \<Rightarrow>
                         (previousBulletLevel st + 1, bulletStyle,
                          store bulletStyle (previousBulletLevel st + 1) (levelPerBullet st)))
                  else (previousBulletLevel st, bulletStyle, levelPerBullet st));
               item = UnorderedListItem level' style' elements
           in case (if level' < previousBulletLevel st then
                      mergeLevels (nat (previousBulletLevel st - level')) (previousBulletLevel st)
                        (bufferedBullets st)
                    else Inr (bufferedBullets st)) of
                Inl err \<Rightarrow> Inl err
              | Inr joined \<Rightarrow>
                  (let opened = (if level' > int (length joined) then store (level' - 1) [] joined
                                 else joined)
                   in Inr \<lparr>bufferedBullets =
                             store (level' - 1) (layer opened (level' - 1) @ [item]) opened,
                           levelPerBullet = levels,
                           previousBulletLevel = level',
                           previousBulletStyle = style'\<rparr>))
      | _ \<Rightarrow> Inl ''element is not a valid unorderedlist item'')"

fun processBullets :: "unorderedListState \<Rightarrow> val list \<Rightarrow> string + unorderedListState" where
  "processBullets st [] = Inr st"
| "processBullets st (element # elements) =
     (case processBullet st element of
        Inl err \<Rightarrow> Inl err
      | Inr st' \<Rightarrow> processBullets st' elements)"

fun flushBullets :: "nat \<Rightarrow> (int \<times> val list) list \<Rightarrow> string + val list" where
  "flushBullets 0 buffered = Inr (layer buffered 0)"
| "flushBullets (Suc level) buffered =
     (case attachToParent buffered (int level) (UnorderedList [] (layer buffered (int (Suc level)))) of
        Inl err \<Rightarrow> Inl err
      | Inr buffered' \<Rightarrow> flushBullets level buffered')"

definition NewUnorderedList :: "val list \<Rightarrow> val list \<Rightarrow> val" where
  "NewUnorderedList elements attributes =
     (case processBullets \<lparr>bufferedBullets = [], levelPerBullet = [], previousBulletLevel = 0,
                            previousBulletStyle = UnknownBulletStyle\<rparr> elements of
        Inl err \<Rightarrow> Failure err
      | Inr st \<Rightarrow>
          (case (if bufferedBullets st = [] then Inr []
                 else flushBullets (length (bufferedBullets st) - 1) (bufferedBullets st)) of
             Inl err \<Rightarrow> Failure err
           | Inr result \<Rightarrow> UnorderedList (mergeAttributes attributes) result))"

definition NewLabeledListItem :: "val list \<Rightarrow> val list \<Rightarrow> val" where
  "NewLabeledListItem term elements =
     orFail ''unable to get term while instanciating a new LabeledListItem element'' (stringify term [])
       (\<lambda>t. LabeledListItem t elements)"

definition isLabeledListItem :: "val \<Rightarrow> bool" where
  "isLabeledListItem v = (case v of LabeledListItem term elements \<Rightarrow> True | _ \<Rightarrow> False)"

definition NewLabeledList :: "val list \<Rightarrow> val list \<Rightarrow> val" where
  "NewLabeledList elements attributes =
     LabeledList (mergeAttributes attributes) (filter isLabeledListItem elements)"

text \<open>\<open>NewListItemContent\<close>: the elements that are slices are unpacked, once.\<close>

definition NewListItemContent :: "val list \<Rightarrow> val" where
  "NewListItemContent content =
     Slice (concat (map (\<lambda>element. case element of Slice es \<Rightarrow> es | Nil \<Rightarrow> [] | _ \<Rightarrow> [element]) content))"

section \<open>Lists of mixed items\<close>

text \<open>The dynamic type of a list item, which \<open>NewList\<close> reads by reflection.\<close>

datatype itemType = OrderedType | UnorderedType | LabeledType

definition typeOfItem :: "val \<Rightarrow> itemType option" where
  "typeOfItem v =
     (case v of
        OrderedListItem level position numberingStyle elements attributes \<Rightarrow> Some OrderedType
      | UnorderedListItem level bulletStyle elements \<Rightarrow> Some UnorderedType
      | LabeledListItem term elements \<Rightarrow> Some LabeledType
      | _ \<Rightarrow> None)"

definition newList :: "val list \<Rightarrow> val list \<Rightarrow> val" where
  "newList items attributes =
     (case items of
        [] \<Rightarrow> Failure ''cannot build a list from an empty slice''
      | item # others \<Rightarrow>
          (case typeOfItem item of
             Some OrderedType \<Rightarrow> NewOrderedList items attributes
           | Some UnorderedType \<Rightarrow> NewUnorderedList items attributes
           | Some LabeledType \<Rightarrow> NewLabeledList items attributes
           | None \<Rightarrow> Failure ''unsupported type of element as the root list''))"

definition isFailure :: "val \<Rightarrow> bool" where
  "isFailure v = (case v of Failure msg \<Rightarrow> True | _ \<Rightarrow> False)"

record listState =
  buffer :: "(itemType \<times> val list) list"
  previousType :: itemType
  stack :: "itemType list"

text \<open>One round of the loop of \<open>NewList\<close>: at a change of type away from a type that is
  not the root type, the buffered items of the previous type become a sublist of the
  last buffered item of the current type.\<close>

definition addToParent ::
  "(itemType \<times> val list) list \<Rightarrow> itemType \<Rightarrow> val \<Rightarrow> string + (itemType \<times> val list) list" where
  "addToParent buffered parentType sublist =
     (let parentItems = layer buffered parentType
      in if parentItems = [] then Inl ''index out of range''
         else Inr (store parentType (butlast parentItems @ [AddChild sublist (last parentItems)])
                     buffered))"

definition listStep :: "itemType \<Rightarrow> listState \<Rightarrow> val \<Rightarrow> string + listState" where
  "listStep rootType st element =
     (case typeOfItem element of
        None \<Rightarrow> Inl ''element is not a valid list item''
      | Some currentType \<Rightarrow>
          (case (if currentType \<noteq> previousType st \<and> previousType st \<noteq> rootType then
                   (let sublist = newList (layer (buffer st) (previousType st)) []
                    in if isFailure sublist then Inl ''failed to initialize a new sublist''
                       else case addToParent (buffer st) currentType sublist of
                              Inl err \<Rightarrow> Inl err
                            | Inr buffered \<Rightarrow>
                                Inr (store (previousType st) [] buffered,
                                     if previousType st \<in> set (stack st) then stack st
                                     else stack st @ [previousType st]))
                 else Inr (buffer st, stack st)) of
             Inl err \<Rightarrow> Inl err
           | Inr (buffered, stack') \<Rightarrow>
               Inr \<lparr>buffer = store currentType (layer buffered currentType @ [element]) buffered,
                     previousType = currentType,
                     stack = stack'\<rparr>))"

fun listSteps :: "itemType \<Rightarrow> listState \<Rightarrow> val list \<Rightarrow> string + listState" where
  "listSteps rootType st [] = Inr st"
| "listSteps rootType st (element # elements) =
     (case listStep rootType st element of
        Inl err \<Rightarrow> Inl err
      | Inr st' \<Rightarrow> listSteps rootType st' elements)"

text \<open>The loop over the stack, from its last entry down to its second.\<close>

fun processStack :: "nat \<Rightarrow> itemType list \<Rightarrow> (itemType \<times> val list) list
    \<Rightarrow> string + (itemType \<times> val list) list" where
  "processStack 0 types buffered = Inr buffered"
| "processStack (Suc i) types buffered =
     (if i = 0 then Inr buffered
      else if layer buffered (types ! i) = [] then processStack i types buffered
      else if layer buffered (types ! (i - 1)) = [] then Inl ''index out of range''
      else (let sublist = newList (layer buffered (types ! i)) []
            in if isFailure sublist then Inl ''failed to initialize a new sublist''
               else case addToParent buffered (types ! (i - 1)) sublist of
                      Inl err \<Rightarrow> Inl err
                    | Inr buffered' \<Rightarrow> processStack i types buffered'))"

definition NewList :: "val list \<Rightarrow> val list \<Rightarrow> val" where
  "NewList elements attributes =
     (case elements of
        [] \<Rightarrow> Failure ''index out of range''
      | first # others \<Rightarrow>
          (case typeOfItem first of
             None \<Rightarrow> Failure ''element is not a valid list item''
           | Some rootType \<Rightarrow>
               (case listSteps rootType \<lparr>buffer = [], previousType = rootType, stack = [rootType]\<rparr>
                       elements of
                  Inl err \<Rightarrow> Failure err
                | Inr st \<Rightarrow>
                    (case processStack (length (stack st)) (stack st) (buffer st) of
                       Inl err \<Rightarrow> Failure err
                     | Inr buffered \<Rightarrow> newList (layer buffered rootType) attributes))))"

section \<open>The document assembler\<close>

definition isSection :: "val \<Rightarrow> bool" where
  "isSection v = (case v of Section level title elements \<Rightarrow> True | _ \<Rightarrow> False)"

definition isPreamble :: "val \<Rightarrow> bool" where
  "isPreamble v = (case v of Preamble elements \<Rightarrow> True | _ \<Rightarrow> False)"

text \<open>
  The loop of \<open>insertPreamble\<close>. Its \<open>break\<close> stands inside a \<open>switch\<close>, so it leaves the
  \<open>switch\<close> and not the loop: the loop visits every block and appends each one that is
  not a Section.
\<close>

fun preambleElements :: "val list \<Rightarrow> val list \<Rightarrow> val list" where
  "preambleElements elements [] = elements"
| "preambleElements elements (block # blocks) =
     (if isSection block then preambleElements elements blocks
      else preambleElements (elements @ [block]) blocks)"

definition insertPreamble :: "val list \<Rightarrow> val list" where
  "insertPreamble blocks =
     (let elements = preambleElements [] blocks
      in if length elements = 0 \<or> length elements = length blocks then blocks
         else Preamble elements # drop (length elements) blocks)"

text \<open>
  \<open>NewDocument\<close>. The front matter and the header arrive as \<open>nil\<close> or as a value that
  holds an attribute map. A header attribute named \<open>toc\<close> may insert a table of
  contents: first for the values \<open>""\<close> and \<open>auto\<close>, behind the first Preamble (behind
  the first element when there is none) for \<open>preamble\<close>. In the latter case the code
  allocates a slice of \<open>len(elements) - (preambleIndex + 1)\<close> elements, which panics on
  an empty list.
\<close>

fun preambleIndex :: "val list \<Rightarrow> nat \<Rightarrow> nat" where
  "preambleIndex [] i = 0"
| "preambleIndex (e # es) i = (if isPreamble e then i else preambleIndex es (Suc i))"

definition insertToc :: "val \<Rightarrow> val list \<Rightarrow> val list option" where
  "insertToc attrValue elements =
     (if attrValue = Str [] \<or> attrValue = Str ''auto'' then Some (TableOfContentsMacro # elements)
      else if attrValue = Str ''preamble'' then
        (let i = preambleIndex elements 0
         in if length elements < i + 1 then None
            else Some (take (i + 1) elements @ TableOfContentsMacro # drop (i + 1) elements))
      else Some elements)"

fun headerAttributes :: "attrs \<Rightarrow> attrs \<Rightarrow> val list \<Rightarrow> (attrs \<times> val list) option" where
  "headerAttributes [] attributes elements = Some (attributes, elements)"
| "headerAttributes ((attrName, attrValue) # content) attributes elements =
     (if attrName = ''toc'' then
        (case insertToc attrValue elements of
           None \<Rightarrow> None
         | Some elements' \<Rightarrow>
             headerAttributes content (store attrName attrValue attributes) elements')
      else headerAttributes content (store attrName attrValue attributes) elements)"

definition frontMatterAttributes :: "val \<Rightarrow> attrs option" where
  "frontMatterAttributes frontmatter =
     (case frontmatter of
        Nil \<Rightarrow> Some []
      | FrontMatter content \<Rightarrow> Some (storeAll [] content)
      | _ \<Rightarrow> None)"

definition NewDocument :: "val \<Rightarrow> val \<Rightarrow> val list \<Rightarrow> val" where
  "NewDocument frontmatter header blocks =
     (let elements = insertPreamble blocks
      in case frontMatterAttributes frontmatter of
           None \<Rightarrow> Failure ''interface conversion: interface {} is not types.FrontMatter''
         | Some attributes \<Rightarrow>
             (case header of
                Nil \<Rightarrow> Document attributes elements
              | DocumentHeader content \<Rightarrow>
                  (case headerAttributes content attributes elements of
                     None \<Rightarrow> Failure ''makeslice: len out of range''
                   | Some (attributes', elements') \<Rightarrow> Document attributes' elements')
              | _ \<Rightarrow> Failure ''interface conversion: interface {} is not types.DocumentHeader''))"

definition Elements :: "val \<Rightarrow> val list" where
  "Elements v =
     (case v of
        Document attributes elements \<Rightarrow> elements
      | Preamble elements \<Rightarrow> elements
      | Section level title elements \<Rightarrow> elements
      | DelimitedBlock attributes elements \<Rightarrow> elements
      | _ \<Rightarrow> [])"

section \<open>The parsing machine\<close>

text \<open>
  Modelled from the spec: the driver that runs the grammar (the parser generated from
  the grammar file, and its runtime) is not among the sources. The specification has:
  "Implements Parsing-Expression-Grammar semantics: ordered choice \<open>/\<close>, sequence,
  repetition \<open>*\<close> \<open>+\<close>, optional \<open>?\<close>, and-predicate \<open>&\<close>, not-predicate \<open>!\<close>,
  end-of-input \<open>EOF\<close>. ... the cursor advances on consumed characters and is restored
  on rule failure. Every rule either succeeds and returns a value or fails without
  side effects."

  An expression of the grammar is a term of type \<open>expr\<close>. A rule of the grammar is a
  constant of that type named after the rule, of the form \<open>Rule e\<close>; a rule is referred
  to by its constant, and by \<open>Ref\<close> and its name where the grammar is recursive.
  \<open>Lab l e\<close> is the labelled expression \<open>l:e\<close> and \<open>Act f e\<close> the expression \<open>e { code }\<close>,
  whose code \<open>f\<close> gets the labelled values of \<open>e\<close> and the matched text \<open>c.text\<close>.

  The values are those of the generated parser: the matched bytes for a literal, a
  character class or \<open>.\<close>, the slice of the values for a sequence and a repetition,
  \<open>nil\<close> for a predicate and for an option without a match, and what the code returns
  for an action. Labels are visible to the code of the enclosing sequence; a rule, a
  choice, a repetition, an option, a predicate and a label each open a scope.

  A repetition goes on for as long as its expression matches, whether the match
  consumes input or not. Running the grammar may therefore not terminate, and the
  machine takes fuel: a rule reference by name and every round of a repetition use one
  unit, and \<open>OutOfFuel\<close> is the reply of a run that needs more than it was given. A run
  that never returns is one whose reply is \<open>OutOfFuel\<close> for every amount of fuel.
  \<open>Raised\<close> is the reply to an action that returns an error or panics: the generated
  parser then returns an error to its caller, and the machine stops at this point.
\<close>

datatype rule = R_QuotedText | R_DocumentBlock | R_Section0

type_synonym env = "(string \<times> val) list"

datatype expr =
    Lit string
  | LitI string
  | AnyChar
  | Class "(char \<times> char) list"
  | Seq "expr list"
  | Choice "expr list"
  | Star expr
  | Plus expr
  | Opt expr
  | And expr
  | Not expr
  | Lab string expr
  | Act "env \<Rightarrow> string \<Rightarrow> val" expr
  | Rule expr
  | Ref rule

datatype reply = OutOfFuel | Raised string | Fail | Ok val env string

definition label :: "env \<Rightarrow> string \<Rightarrow> val" where
  "label env l = (case map_of env l of Some v \<Rightarrow> v | None \<Rightarrow> Nil)"

fun inRanges :: "(char \<times> char) list \<Rightarrow> char \<Rightarrow> bool" where
  "inRanges [] c = False"
| "inRanges ((lo, hi) # rs) c =
     ((of_char lo \<le> (of_char c :: nat) \<and> (of_char c :: nat) \<le> of_char hi) \<or> inRanges rs c)"

text \<open>A literal with the suffix \<open>i\<close> matches without regard to case.\<close>

fun matchI :: "string \<Rightarrow> string \<Rightarrow> (string \<times> string) option" where
  "matchI [] s = Some ([], s)"
| "matchI (c # cs) [] = None"
| "matchI (c # cs) (d # ds) =
     (if toLower c = toLower d
      then map_option (\<lambda>(m, r). (d # m, r)) (matchI cs ds)
      else None)"

section \<open>The grammar: base types\<close>

definition WS :: expr where
  "WS = Rule (Choice [Lit '' '', Act (\<lambda>env text. Str text) (Lit [CHR 0x09])])"

definition NEWLINE :: expr where
  "NEWLINE = Rule (Choice [Lit [CHR 0x0D, CHR 0x0A], Lit [CHR 0x0D], Lit [CHR 0x0A]])"

definition EOF :: expr where
  "EOF = Rule (Not AnyChar)"

definition EOL :: expr where
  "EOL = Rule (Choice [NEWLINE, EOF])"

definition DIGIT :: expr where
  "DIGIT = Rule (Class [(CHR ''0'', CHR ''9'')])"

definition Word :: expr where
  "Word = Rule (Act (\<lambda>env text. Str text) (Plus (Seq [Not NEWLINE, Not WS, AnyChar])))"

definition URL :: expr where
  "URL = Rule (Act (\<lambda>env text. Str text)
           (Plus (Seq [Not NEWLINE, Not WS, Not (Lit ''[''), Not (Lit '']''), AnyChar])))"

definition ID :: expr where
  "ID = Rule (Act (\<lambda>env text. Str text)
          (Plus (Seq [Not NEWLINE, Not WS, Not (Lit ''[''), Not (Lit '']''), Not (Lit ''<<''),
                      Not (Lit ''>>''), AnyChar])))"

definition URL_TEXT :: expr where
  "URL_TEXT = Rule (Act (\<lambda>env text. Str text)
                (Plus (Seq [Not NEWLINE, Not (Lit ''[''), Not (Lit '']''), AnyChar])))"

definition URL_SCHEME :: expr where
  "URL_SCHEME =
     Rule (Choice [Lit ''http://'', Lit ''https://'', Lit ''ftp://'', Lit ''irc://'', Lit ''mailto:''])"

section \<open>The grammar: blank lines and admonition kinds\<close>

definition BlankLine_rule :: expr where
  "BlankLine_rule = Rule (Act (\<lambda>env text. BlankLine) (Seq [Not EOF, Star WS, EOL]))"

definition AdmonitionKind_rule :: expr where
  "AdmonitionKind_rule =
     Rule (Choice
       [Act (\<lambda>env text. AdmonitionKindV Tip) (Lit ''TIP''),
        Act (\<lambda>env text. AdmonitionKindV Note) (Lit ''NOTE''),
        Act (\<lambda>env text. AdmonitionKindV Important) (Lit ''IMPORTANT''),
        Act (\<lambda>env text. AdmonitionKindV Warning) (Lit ''WARNING''),
        Act (\<lambda>env text. AdmonitionKindV Caution) (Lit ''CAUTION'')])"

section \<open>The grammar: document attributes and table of contents\<close>

definition AttributeName :: expr where
  "AttributeName =
     Rule (Seq
       [Choice [Class [(CHR ''A'', CHR ''Z'')], Class [(CHR ''a'', CHR ''z'')],
                Class [(CHR ''0'', CHR ''9'')], Lit ''_''],
        Star (Choice [Class [(CHR ''A'', CHR ''Z'')], Class [(CHR ''a'', CHR ''z'')],
                      Class [(CHR ''0'', CHR ''9'')], Lit ''-''])])"

definition DocumentAttributeDeclarationWithNameOnly :: expr where
  "DocumentAttributeDeclarationWithNameOnly =
     Rule (Act (\<lambda>env text. asSlice (label env ''name'') (\<lambda>name.
                  NewDocumentAttributeDeclaration name []))
       (Seq [Lit '':'', Lab ''name'' AttributeName, Lit '':'', Star WS, EOL]))"

definition DocumentAttributeDeclarationWithNameAndValue :: expr where
  "DocumentAttributeDeclarationWithNameAndValue =
     Rule (Act (\<lambda>env text. asSlice (label env ''name'') (\<lambda>name.
                  asSlice (label env ''value'') (\<lambda>v. NewDocumentAttributeDeclaration name v)))
       (Seq [Lit '':'', Lab ''name'' AttributeName, Lit '':'', Plus WS,
             Lab ''value'' (Star (Seq [Not NEWLINE, AnyChar])), EOL]))"

definition DocumentAttributeDeclaration_rule :: expr where
  "DocumentAttributeDeclaration_rule =
     Rule (Choice [DocumentAttributeDeclarationWithNameOnly,
                   DocumentAttributeDeclarationWithNameAndValue])"

definition DocumentAttributeResetWithSectionTitleBangSymbol :: expr where
  "DocumentAttributeResetWithSectionTitleBangSymbol =
     Rule (Act (\<lambda>env text. asSlice (label env ''name'') NewDocumentAttributeReset)
       (Seq [Lit '':!'', Lab ''name'' AttributeName, Lit '':'', Star WS, EOL]))"

definition DocumentAttributeResetWithTrailingBangSymbol :: expr where
  "DocumentAttributeResetWithTrailingBangSymbol =
     Rule (Act (\<lambda>env text. asSlice (label env ''name'') NewDocumentAttributeReset)
       (Seq [Lit '':'', Lab ''name'' AttributeName, Lit ''!:'', Star WS, EOL]))"

definition DocumentAttributeReset_rule :: expr where
  "DocumentAttributeReset_rule =
     Rule (Choice [DocumentAttributeResetWithSectionTitleBangSymbol,
                   DocumentAttributeResetWithTrailingBangSymbol])"

definition DocumentAttributeSubstitution_rule :: expr where
  "DocumentAttributeSubstitution_rule =
     Rule (Act (\<lambda>env text. asSlice (label env ''name'') NewDocumentAttributeSubstitution)
       (Seq [Lit ''{'', Lab ''name'' AttributeName, Lit ''}'']))"

definition TableOfContentsMacro_rule :: expr where
  "TableOfContentsMacro_rule = Rule (Seq [Lit ''toc::[]'', NEWLINE])"

section \<open>The grammar: element attributes\<close>

definition InlineElementID :: expr where
  "InlineElementID =
     Rule (Act (\<lambda>env text. asString (label env ''id'') NewElementID)
       (Seq [Lit ''[['', Lab ''id'' ID, Lit '']]'']))"

definition ElementID :: expr where
  "ElementID =
     Rule (Choice
       [Act (\<lambda>env text. label env ''id'') (Lab ''id'' InlineElementID),
        Act (\<lambda>env text. asString (label env ''id'') NewElementID)
          (Seq [Lit ''[#'', Lab ''id'' ID, Lit '']''])])"

definition ElementTitle :: expr where
  "ElementTitle =
     Rule (Act (\<lambda>env text. asSlice (label env ''title'') NewElementTitle)
       (Seq [Lit ''.'', Not (Lit ''.''), Not WS, Lab ''title'' (Plus (Seq [Not NEWLINE, AnyChar]))]))"

definition AdmonitionMarkerAttribute :: expr where
  "AdmonitionMarkerAttribute =
     Rule (Act (\<lambda>env text. case label env ''k'' of
                  AdmonitionKindV k \<Rightarrow> NewAdmonitionAttribute k
                | _ \<Rightarrow> Failure ''interface conversion: interface {} is not types.AdmonitionKind'')
       (Seq [Lit ''['', Lab ''k'' AdmonitionKind_rule, Lit '']'']))"

definition AttributeKey :: expr where
  "AttributeKey =
     Rule (Act (\<lambda>env text. label env ''key'')
       (Seq [Lab ''key'' (Plus (Seq [Not WS, Not (Lit ''=''), Not (Lit '',''), Not (Lit '']''), AnyChar])),
             Star WS]))"

definition AttributeValue :: expr where
  "AttributeValue =
     Rule (Act (\<lambda>env text. label env ''value'')
       (Seq [Star WS, Lab ''value'' (Star (Seq [Not WS, Not (Lit ''=''), Not (Lit '']''), AnyChar])),
             Star WS]))"

definition GenericAttribute_rule :: expr where
  "GenericAttribute_rule =
     Rule (Choice
       [Act (\<lambda>env text. asSlice (label env ''key'') (\<lambda>key.
               asSlice (label env ''value'') (\<lambda>v. NewGenericAttribute key v)))
          (Seq [Lab ''key'' AttributeKey, Lit ''='', Lab ''value'' AttributeValue]),
        Act (\<lambda>env text. asSlice (label env ''key'') (\<lambda>key. NewGenericAttribute key []))
          (Lab ''key'' AttributeKey)])"

definition OtherGenericAttribute :: expr where
  "OtherGenericAttribute =
     Rule (Choice
       [Act (\<lambda>env text. asSlice (label env ''key'') (\<lambda>key.
               asSlice (label env ''value'') (\<lambda>v. NewGenericAttribute key v)))
          (Seq [Lit '','', Star WS, Lab ''key'' AttributeKey, Lit ''='', Lab ''value'' AttributeValue]),
        Act (\<lambda>env text. asSlice (label env ''key'') (\<lambda>key. NewGenericAttribute key []))
          (Seq [Lit '','', Star WS, Lab ''key'' AttributeKey])])"

definition AttributeGroup :: expr where
  "AttributeGroup =
     Rule (Act (\<lambda>env text. asSlice (label env ''attributes'') (\<lambda>attributes.
                  NewAttributeGroup (label env ''attribute'' # attributes)))
       (Seq [Lit ''['', Lab ''attribute'' GenericAttribute_rule,
             Lab ''attributes'' (Star OtherGenericAttribute), Lit '']'']))"

definition HorizontalLayout :: expr where
  "HorizontalLayout =
     Rule (Act (\<lambda>env text. AttrMap [(''layout'', Str ''horizontal'')]) (Lit ''[horizontal]''))"

definition VerseAuthor :: expr where
  "VerseAuthor =
     Rule (Act (\<lambda>env text. Str text) (Star (Seq [Not EOL, Not (Lit '',''), Not (Lit '']''), AnyChar])))"

definition VerseTitle :: expr where
  "VerseTitle =
     Rule (Act (\<lambda>env text. Str text) (Star (Seq [Not EOL, Not (Lit '',''), Not (Lit '']''), AnyChar])))"

definition VerseAttributes :: expr where
  "VerseAttributes =
     Rule (Choice
       [Act (\<lambda>env text. asString (label env ''author'') (\<lambda>author.
               asString (label env ''title'') (\<lambda>title. NewVerseAttributes author title)))
          (Seq [Lit ''[verse'', Star WS, Lit '','', Lab ''author'' VerseAuthor, Lit '','',
                Lab ''title'' VerseTitle, Lit '']'']),
        Act (\<lambda>env text. asString (label env ''author'') (\<lambda>author. NewVerseAttributes author []))
          (Seq [Lit ''[verse'', Star WS, Lit '','', Lab ''author'' VerseAuthor, Lit '']'']),
        Act (\<lambda>env text. NewVerseAttributes [] [])
          (Seq [Lit ''[verse'', Star WS, Lit '']''])])"

definition ElementAttribute :: expr where
  "ElementAttribute =
     Rule (Act (\<lambda>env text. label env ''attr'')
       (Seq [Lab ''attr'' (Choice [ElementID, ElementTitle, AdmonitionMarkerAttribute,
                                   HorizontalLayout, AttributeGroup]),
             Star WS, EOL]))"

definition MasqueradeAttribute :: expr where
  "MasqueradeAttribute =
     Rule (Act (\<lambda>env text. label env ''attr'') (Seq [Lab ''attr'' VerseAttributes, Star WS, EOL]))"

section \<open>The grammar: quoted text\<close>

text \<open>The literals between backquotes are raw: the first one below is one backslash,
  the second one two.\<close>

definition backslash :: string where "backslash = [CHR 0x5C]"
definition backslashes2 :: string where "backslashes2 = [CHR 0x5C, CHR 0x5C]"
definition backquote :: string where "backquote = [CHR 0x60]"
definition backquotes2 :: string where "backquotes2 = [CHR 0x60, CHR 0x60]"

definition QuotedTextWord :: expr where
  "QuotedTextWord =
     Rule (Plus (Seq [Not NEWLINE, Not WS, Not (Lit ''*''), Not (Lit ''_''), Not (Lit backquote),
                      AnyChar]))"

definition WordWithQuotePunctuation :: expr where
  "WordWithQuotePunctuation =
     Rule (Act (\<lambda>env text. Bytes text) (Plus (Seq [Not NEWLINE, Not WS, AnyChar])))"

definition QuotedTextContentElement :: expr where
  "QuotedTextContentElement =
     Rule (Choice [Ref R_QuotedText, QuotedTextWord, WordWithQuotePunctuation])"

definition QuotedTextContent :: expr where
  "QuotedTextContent =
     Rule (Seq [QuotedTextContentElement, Star (Seq [Plus WS, QuotedTextContentElement])])"

text \<open>The code of the alternatives: \<open>NewQuotedText(kind, content)\<close>; the same with the
  extra punctuation character in front of the content; \<open>NewEscapedQuotedText\<close> with the
  backslashes, the punctuation and the content; the same with the extra punctuation
  character in front of the content.\<close>

definition quoted :: "QuotedTextKind \<Rightarrow> env \<Rightarrow> string \<Rightarrow> val" where
  "quoted kind env text = asSlice (label env ''content'') (\<lambda>content. NewQuotedText kind content)"

definition quotedUnbalanced :: "QuotedTextKind \<Rightarrow> string \<Rightarrow> env \<Rightarrow> string \<Rightarrow> val" where
  "quotedUnbalanced kind p env text =
     asSlice (label env ''content'') (\<lambda>content. NewQuotedText kind [Str p, Slice content])"

definition escaped :: "string \<Rightarrow> env \<Rightarrow> string \<Rightarrow> val" where
  "escaped p env text =
     asSlice (label env ''backslashes'') (\<lambda>backslashes.
       asSlice (label env ''content'') (\<lambda>content. NewEscapedQuotedText backslashes p content))"

definition escapedUnbalanced :: "string \<Rightarrow> env \<Rightarrow> string \<Rightarrow> val" where
  "escapedUnbalanced p env text =
     asSlice (label env ''content'') (\<lambda>content.
       asSlice (label env ''backslashes'') (\<lambda>backslashes.
         NewEscapedQuotedText backslashes p [Str p, Slice content]))"

definition BoldText :: expr where
  "BoldText =
     Rule (Choice
       [Act (quoted Bold)
          (Seq [Not (Lit backslashes2), Lit ''**'', Lab ''content'' QuotedTextContent, Lit ''**'']),
        Act (quotedUnbalanced Bold ''*'')
          (Seq [Not (Lit backslashes2), Lit ''**'', Lab ''content'' QuotedTextContent, Lit ''*'']),
        Act (quoted Bold)
          (Seq [Not (Lit backslash), Lit ''*'', Lab ''content'' QuotedTextContent, Lit ''*''])])"

definition EscapedBoldText :: expr where
  "EscapedBoldText =
     Rule (Choice
       [Act (escaped ''**'')
          (Seq [Lab ''backslashes'' (Seq [Lit backslashes2, Star (Lit backslash)]), Lit ''**'',
                Lab ''content'' QuotedTextContent, Lit ''**'']),
        Act (escapedUnbalanced ''*'')
          (Seq [Lab ''backslashes'' (Seq [Lit backslash, Star (Lit backslash)]), Lit ''**'',
                Lab ''content'' QuotedTextContent, Lit ''*'']),
        Act (escaped ''*'')
          (Seq [Lab ''backslashes'' (Seq [Lit backslash, Star (Lit backslash)]), Lit ''*'',
                Lab ''content'' QuotedTextContent, Lit ''*''])])"

definition ItalicText :: expr where
  "ItalicText =
     Rule (Choice
       [Act (quoted Italic)
          (Seq [Not (Lit backslashes2), Lit ''__'', Lab ''content'' QuotedTextContent, Lit ''__'']),
        Act (quotedUnbalanced Italic ''_'')
          (Seq [Not (Lit backslashes2), Lit ''__'', Lab ''content'' QuotedTextContent, Lit ''_'']),
        Act (quoted Italic)
          (Seq [Not (Lit backslash), Lit ''_'', Lab ''content'' QuotedTextContent, Lit ''_''])])"

definition EscapedItalicText :: expr where
  "EscapedItalicText =
     Rule (Choice
       [Act (escaped ''__'')
          (Seq [Lab ''backslashes'' (Seq [Lit backslashes2, Star (Lit backslash)]), Lit ''__'',
                Lab ''content'' QuotedTextContent, Lit ''__'']),
        Act (escapedUnbalanced ''_'')
          (Seq [Lab ''backslashes'' (Seq [Lit backslash, Star (Lit backslash)]), Lit ''__'',
                Lab ''content'' QuotedTextContent, Lit ''_'']),
        Act (escaped ''_'')
          (Seq [Lab ''backslashes'' (Seq [Lit backslash, Star (Lit backslash)]), Lit ''_'',
                Lab ''content'' QuotedTextContent, Lit ''_''])])"

definition MonospaceText :: expr where
  "MonospaceText =
     Rule (Choice
       [Act (quoted Monospace)
          (Seq [Not (Lit backslashes2), Lit backquotes2, Lab ''content'' QuotedTextContent,
                Lit backquotes2]),
        Act (quotedUnbalanced Monospace backquote)
          (Seq [Not (Lit backslashes2), Lit backquotes2, Lab ''content'' QuotedTextContent,
                Lit backquote]),
        Act (quoted Monospace)
          (Seq [Not (Lit backslash), Lit backquote, Lab ''content'' QuotedTextContent,
                Lit backquote])])"

definition EscapedMonospaceText :: expr where
  "EscapedMonospaceText =
     Rule (Choice
       [Act (escaped backquotes2)
          (Seq [Lab ''backslashes'' (Seq [Lit backslashes2, Star (Lit backslash)]), Lit backquotes2,
                Lab ''content'' QuotedTextContent, Lit backquotes2]),
        Act (escapedUnbalanced backquote)
          (Seq [Lab ''backslashes'' (Seq [Lit backslash, Star (Lit backslash)]), Lit backquotes2,
                Lab ''content'' QuotedTextContent, Lit backquote]),
        Act (escaped backquote)
          (Seq [Lab ''backslashes'' (Seq [Lit backslash, Star (Lit backslash)]), Lit backquote,
                Lab ''content'' QuotedTextContent, Lit backquote])])"

definition QuotedText_rule :: expr where
  "QuotedText_rule =
     Rule (Choice [BoldText, ItalicText, MonospaceText,
                   EscapedBoldText, EscapedItalicText, EscapedMonospaceText])"

definition UnbalancedQuotePunctuation :: expr where
  "UnbalancedQuotePunctuation = Rule (Choice [Lit ''*'', Lit ''_'', Lit backquote])"

section \<open>The grammar: passthroughs, cross references, links, images\<close>

definition SinglePlusPassthrough_rule :: expr where
  "SinglePlusPassthrough_rule =
     Rule (Act (\<lambda>env text. asSlice (label env ''content'') (NewPassthrough SinglePlusPassthrough))
       (Seq [Lit ''+'', Lab ''content'' (Star (Seq [Not NEWLINE, Not (Lit ''+''), AnyChar])), Lit ''+'']))"

definition TriplePlusPassthrough_rule :: expr where
  "TriplePlusPassthrough_rule =
     Rule (Act (\<lambda>env text. asSlice (label env ''content'') (NewPassthrough TriplePlusPassthrough))
       (Seq [Lit ''+++'', Lab ''content'' (Star (Seq [Not (Lit ''+++''), AnyChar])), Lit ''+++'']))"

definition PassthroughMacroCharacter :: expr where
  "PassthroughMacroCharacter = Rule (Seq [Not (Lit '']''), AnyChar])"

definition PassthroughMacro_rule :: expr where
  "PassthroughMacro_rule =
     Rule (Choice
       [Act (\<lambda>env text. asSlice (label env ''content'') (NewPassthrough PassthroughMacro))
          (Seq [Lit ''pass:['', Lab ''content'' (Star PassthroughMacroCharacter), Lit '']'']),
        Act (\<lambda>env text. asSlice (label env ''content'') (NewPassthrough PassthroughMacro))
          (Seq [Lit ''pass:q['',
                Lab ''content'' (Star (Choice [QuotedText_rule, PassthroughMacroCharacter])),
                Lit '']''])])"

definition Passthrough_rule :: expr where
  "Passthrough_rule =
     Rule (Choice [TriplePlusPassthrough_rule, SinglePlusPassthrough_rule, PassthroughMacro_rule])"

definition CrossReference_rule :: expr where
  "CrossReference_rule =
     Rule (Act (\<lambda>env text. asString (label env ''id'') NewCrossReference)
       (Seq [Lit ''<<'', Lab ''id'' ID, Lit ''>>'']))"

definition LinkTextAttribute :: expr where
  "LinkTextAttribute =
     Rule (Act (\<lambda>env text. label env ''value'')
       (Lab ''value'' (Plus (Seq [Not (Lit '',''), Not (Lit '']''), AnyChar]))))"

definition LinkAttributes :: expr where
  "LinkAttributes =
     Rule (Choice
       [Act (\<lambda>env text. asSlice (label env ''text'') (\<lambda>linkText.
               asSlice (label env ''otherAttrs'') (\<lambda>otherAttrs. NewLinkAttributes linkText otherAttrs)))
          (Seq [Lit ''['', Lab ''text'' LinkTextAttribute,
                Lab ''otherAttrs'' (Star OtherGenericAttribute), Lit '']'']),
        Act (\<lambda>env text. asSlice (label env ''otherAttrs'') (\<lambda>otherAttrs.
               NewLinkAttributes [] otherAttrs))
          (Seq [Lit ''['', Lab ''otherAttrs'' (Star OtherGenericAttribute), Lit '']''])])"

definition ExternalLink :: expr where
  "ExternalLink =
     Rule (Choice
       [Act (\<lambda>env text. asSlice (label env ''url'') (\<lambda>url.
               asAttrMap (label env ''attributes'') (\<lambda>attributes. NewLink url (AttrMap attributes))))
          (Seq [Lab ''url'' (Seq [URL_SCHEME, URL]), Lab ''attributes'' LinkAttributes]),
        Act (\<lambda>env text. asSlice (label env ''url'') (\<lambda>url. NewLink url Nil))
          (Lab ''url'' (Seq [URL_SCHEME, URL]))])"

definition RelativeLink :: expr where
  "RelativeLink =
     Rule (Act (\<lambda>env text. asSlice (label env ''url'') (\<lambda>url.
                  asAttrMap (label env ''attributes'') (\<lambda>attributes. NewLink url (AttrMap attributes))))
       (Seq [Lit ''link:'', Lab ''url'' (Seq [Opt URL_SCHEME, URL]), Lab ''attributes'' LinkAttributes]))"

definition Link_rule :: expr where
  "Link_rule = Rule (Choice [RelativeLink, ExternalLink])"

definition ImageAltAttribute :: expr where
  "ImageAltAttribute =
     Rule (Act (\<lambda>env text. label env ''value'')
       (Lab ''value'' (Plus (Seq [Not (Lit '',''), Not (Lit '']''), AnyChar]))))"

definition ImageWidthAttribute :: expr where
  "ImageWidthAttribute =
     Rule (Act (\<lambda>env text. label env ''value'')
       (Seq [Lit '','', Lab ''value'' (Plus (Seq [Not (Lit '',''), Not (Lit '']''), AnyChar]))]))"

definition ImageHeightAttribute :: expr where
  "ImageHeightAttribute =
     Rule (Act (\<lambda>env text. label env ''value'')
       (Seq [Lit '','', Lab ''value'' (Plus (Seq [Not (Lit '',''), Not (Lit '']''), AnyChar]))]))"

definition ImageAttributes :: expr where
  "ImageAttributes =
     Rule (Choice
       [Act (\<lambda>env text. asSlice (label env ''alt'') (\<lambda>alt. asSlice (label env ''width'') (\<lambda>width.
               asSlice (label env ''height'') (\<lambda>height. asSlice (label env ''otherAttrs'') (\<lambda>otherAttrs.
                 NewImageAttributes alt width height otherAttrs)))))
          (Seq [Lit ''['', Lab ''alt'' ImageAltAttribute, Lab ''width'' ImageWidthAttribute,
                Lab ''height'' ImageHeightAttribute,
                Lab ''otherAttrs'' (Star OtherGenericAttribute), Lit '']'']),
        Act (\<lambda>env text. asSlice (label env ''alt'') (\<lambda>alt. asSlice (label env ''width'') (\<lambda>width.
               asSlice (label env ''otherAttrs'') (\<lambda>otherAttrs.
                 NewImageAttributes alt width [] otherAttrs))))
          (Seq [Lit ''['', Lab ''alt'' ImageAltAttribute, Lab ''width'' ImageWidthAttribute,
                Lab ''otherAttrs'' (Star OtherGenericAttribute), Lit '']'']),
        Act (\<lambda>env text. asSlice (label env ''alt'') (\<lambda>alt.
               asSlice (label env ''otherAttrs'') (\<lambda>otherAttrs.
                 NewImageAttributes alt [] [] otherAttrs)))
          (Seq [Lit ''['', Lab ''alt'' ImageAltAttribute,
                Lab ''otherAttrs'' (Star OtherGenericAttribute), Lit '']'']),
        Act (\<lambda>env text. asSlice (label env ''otherAttrs'') (\<lambda>otherAttrs.
               NewImageAttributes [] [] [] otherAttrs))
          (Seq [Lit ''['', Lab ''otherAttrs'' (Star OtherGenericAttribute), Lit '']''])])"

definition BlockImageMacro :: expr where
  "BlockImageMacro =
     Rule (Act (\<lambda>env text. asString (label env ''path'') (\<lambda>path.
                  asAttrMap (label env ''attributes'') (\<lambda>attributes. NewImageMacro path attributes)))
       (Seq [Lit ''image::'', Lab ''path'' URL, Lab ''attributes'' ImageAttributes]))"

definition InlineImageMacro :: expr where
  "InlineImageMacro =
     Rule (Act (\<lambda>env text. asString (label env ''path'') (\<lambda>path.
                  asAttrMap (label env ''attributes'') (\<lambda>attributes. NewImageMacro path attributes)))
       (Seq [Lit ''image:'', Not (Lit '':''), Lab ''path'' URL, Lab ''attributes'' ImageAttributes]))"

definition asImageMacro :: "val \<Rightarrow> (val \<Rightarrow> val) \<Rightarrow> val" where
  "asImageMacro v k =
     (case v of
        ImageMacro path attributes \<Rightarrow> k v
      | _ \<Rightarrow> Failure ''interface conversion: interface {} is not types.ImageMacro'')"

definition InlineImage_rule :: expr where
  "InlineImage_rule =
     Rule (Act (\<lambda>env text. asImageMacro (label env ''image'') NewInlineImage)
       (Lab ''image'' InlineImageMacro))"

definition BlockImage_rule :: expr where
  "BlockImage_rule =
     Rule (Act (\<lambda>env text. asImageMacro (label env ''image'') (\<lambda>image.
                  asSlice (label env ''attributes'') (\<lambda>attributes. NewBlockImage image attributes)))
       (Seq [Lab ''attributes'' (Star ElementAttribute), Lab ''image'' BlockImageMacro, Star WS, EOL]))"

section \<open>The grammar: comments, block delimiters, inline elements\<close>

definition CommentBlockDelimiter :: expr where
  "CommentBlockDelimiter = Rule (Lit ''////'')"

definition SingleLineComment_rule :: expr where
  "SingleLineComment_rule =
     Rule (Act (\<lambda>env text. asSlice (label env ''content'') NewSingleLineComment)
       (Seq [Not CommentBlockDelimiter, Lit ''//'', Lab ''content'' (Star (Seq [Not EOL, AnyChar])), EOL]))"

definition LiteralBlockDelimiter :: expr where
  "LiteralBlockDelimiter = Rule (Lit ''....'')"

definition FencedBlockDelimiter :: expr where
  "FencedBlockDelimiter = Rule (Lit [CHR 0x60, CHR 0x60, CHR 0x60])"

definition ListingBlockDelimiter :: expr where
  "ListingBlockDelimiter = Rule (Lit ''----'')"

definition ExampleBlockDelimiter :: expr where
  "ExampleBlockDelimiter = Rule (Lit ''===='')"

definition VerseBlockDelimiter :: expr where
  "VerseBlockDelimiter = Rule (Lit ''____'')"

definition BlockDelimiter :: expr where
  "BlockDelimiter =
     Rule (Choice [LiteralBlockDelimiter, FencedBlockDelimiter, ListingBlockDelimiter,
                   ExampleBlockDelimiter, CommentBlockDelimiter, VerseBlockDelimiter])"

definition InlineElement :: expr where
  "InlineElement =
     Rule (Act (\<lambda>env text. label env ''element'')
       (Lab ''element'' (Choice [CrossReference_rule, Passthrough_rule, InlineImage_rule,
                                 QuotedText_rule, Link_rule, DocumentAttributeSubstitution_rule, Word])))"

definition InlineElements_rule :: expr where
  "InlineElements_rule =
     Rule (Choice
       [Act (\<lambda>env text. NewInlineElements [Slice [label env ''comment'']])
          (Lab ''comment'' SingleLineComment_rule),
        Act (\<lambda>env text. asSlice (label env ''elements'') (\<lambda>elements.
               NewInlineElements [Slice elements]))
          (Seq [Not EOF, Not BlockDelimiter,
                Lab ''elements'' (Plus (Seq [Not EOL, Star WS, Not InlineElementID, InlineElement, Star WS])),
                EOL])])"

definition TitleElement :: expr where
  "TitleElement =
     Rule (Act (\<lambda>env text. label env ''element'')
       (Lab ''element'' (Choice [CrossReference_rule, Passthrough_rule, InlineImage_rule,
                                 QuotedText_rule, Link_rule, DocumentAttributeSubstitution_rule, Word])))"

definition TitleElements :: expr where
  "TitleElements =
     Rule (Act (\<lambda>env text. asSlice (label env ''elements'') (\<lambda>elements.
                  NewInlineElements [Slice elements]))
       (Lab ''elements'' (Plus (Seq [Not NEWLINE, Star WS, Not InlineElementID, TitleElement, Star WS]))))"

section \<open>The grammar: paragraphs\<close>

definition ParagraphAttribute :: expr where
  "ParagraphAttribute = Rule (Choice [MasqueradeAttribute, ElementAttribute])"

definition Paragraph_rule :: expr where
  "Paragraph_rule =
     Rule (Choice
       [Act (\<lambda>env text. asSlice (label env ''lines'') (\<lambda>lines.
               case label env ''t'' of
                 AdmonitionKindV t \<Rightarrow>
                   asSlice (label env ''attributes'') (\<lambda>attributes.
                     NewAdmonitionParagraph lines t attributes)
               | _ \<Rightarrow> Failure ''interface conversion: interface {} is not types.AdmonitionKind''))
          (Seq [Lab ''attributes'' (Star ParagraphAttribute),
                Not (Seq [Plus (Lit ''=''), Plus WS, Not NEWLINE]),
                Lab ''t'' AdmonitionKind_rule, Lit '': '',
                Lab ''lines'' (Plus InlineElements_rule)]),
        Act (\<lambda>env text. asSlice (label env ''lines'') (\<lambda>lines.
               asSlice (label env ''attributes'') (\<lambda>attributes. NewParagraph lines attributes)))
          (Seq [Lab ''attributes'' (Star ParagraphAttribute),
                Not (Seq [Plus (Lit ''=''), Plus WS, Not NEWLINE]),
                Lab ''lines'' (Plus InlineElements_rule)])])"

section \<open>The grammar: lists\<close>

definition ListItemContinuation_rule :: expr where
  "ListItemContinuation_rule =
     Rule (Act (\<lambda>env text. ListItemContinuation) (Seq [Lit ''+'', Star WS, EOL]))"

definition ContinuedDocumentBlock :: expr where
  "ContinuedDocumentBlock =
     Rule (Act (\<lambda>env text. label env ''element'')
       (Seq [ListItemContinuation_rule, Lab ''element'' (Ref R_DocumentBlock)]))"

definition OrderedListItemPrefix_rule :: expr where
  "OrderedListItemPrefix_rule =
     Rule (Act (\<lambda>env text. label env ''prefix'')
       (Seq [Star WS,
             Lab ''prefix'' (Choice
               [Act (\<lambda>env text. OrderedListItemPrefix UpperRoman 5) (Lit ''.....''),
                Act (\<lambda>env text. OrderedListItemPrefix UpperAlpha 4) (Lit ''....''),
                Act (\<lambda>env text. OrderedListItemPrefix LowerRoman 3) (Lit ''...''),
                Act (\<lambda>env text. OrderedListItemPrefix LowerAlpha 2) (Lit ''..''),
                Act (\<lambda>env text. OrderedListItemPrefix Arabic 1) (Lit ''.''),
                Act (\<lambda>env text. OrderedListItemPrefix Arabic 1)
                  (Seq [Plus (Class [(CHR ''0'', CHR ''9'')]), Lit ''.'']),
                Act (\<lambda>env text. OrderedListItemPrefix LowerAlpha 1)
                  (Seq [Plus (Class [(CHR ''a'', CHR ''z'')]), Lit ''.'']),
                Act (\<lambda>env text. OrderedListItemPrefix UpperAlpha 1)
                  (Seq [Plus (Class [(CHR ''A'', CHR ''Z'')]), Lit ''.'']),
                Act (\<lambda>env text. OrderedListItemPrefix LowerRoman 1)
                  (Seq [Plus (Class [(CHR ''a'', CHR ''z'')]), Lit '')'']),
                Act (\<lambda>env text. OrderedListItemPrefix UpperRoman 1)
                  (Seq [Plus (Class [(CHR ''A'', CHR ''Z'')]), Lit '')''])]),
             Plus WS]))"

definition UnorderedListItemPrefix_rule :: expr where
  "UnorderedListItemPrefix_rule =
     Rule (Act (\<lambda>env text. label env ''prefix'')
       (Seq [Star WS,
             Lab ''prefix'' (Choice
               [Act (\<lambda>env text. UnorderedListItemPrefix FiveAsterisks 5) (Lit ''*****''),
                Act (\<lambda>env text. UnorderedListItemPrefix FourAsterisks 4) (Lit ''****''),
                Act (\<lambda>env text. UnorderedListItemPrefix ThreeAsterisks 3) (Lit ''***''),
                Act (\<lambda>env text. UnorderedListItemPrefix TwoAsterisks 2) (Lit ''**''),
                Act (\<lambda>env text. UnorderedListItemPrefix OneAsterisk 1) (Lit ''*''),
                Act (\<lambda>env text. UnorderedListItemPrefix Dash 1) (Lit ''-'')]),
             Plus WS]))"

definition LabeledListItemTerm :: expr where
  "LabeledListItemTerm =
     Rule (Act (\<lambda>env text. label env ''term'')
       (Lab ''term'' (Star (Seq [Not NEWLINE, Not (Lit ''::''), AnyChar]))))"

definition LabeledListItemSeparator :: expr where
  "LabeledListItemSeparator = Rule (Seq [Lit ''::'', Plus (Choice [WS, NEWLINE])])"

definition ListParagraphLine :: expr where
  "ListParagraphLine =
     Rule (Act (\<lambda>env text. label env ''line'')
       (Seq [Not OrderedListItemPrefix_rule,
             Not UnorderedListItemPrefix_rule,
             Not (Seq [LabeledListItemTerm, LabeledListItemSeparator]),
             Not ListItemContinuation_rule,
             Not ElementAttribute,
             Not BlockDelimiter,
             Lab ''line'' InlineElements_rule]))"

definition ListParagraph :: expr where
  "ListParagraph =
     Rule (Act (\<lambda>env text. asSlice (label env ''lines'') (\<lambda>lines. NewParagraph lines []))
       (Lab ''lines'' (Plus ListParagraphLine)))"

definition OrderedListItemContent :: expr where
  "OrderedListItemContent =
     Rule (Act (\<lambda>env text. asSlice (label env ''elements'') NewListItemContent)
       (Lab ''elements'' (Seq [Plus ListParagraph, Star ContinuedDocumentBlock])))"

definition OrderedListItem_rule :: expr where
  "OrderedListItem_rule =
     Rule (Act (\<lambda>env text. asSlice (label env ''content'') (\<lambda>content.
                  asSlice (label env ''attributes'') (\<lambda>attributes.
                    NewOrderedListItem (label env ''prefix'') content attributes)))
       (Seq [Lab ''attributes'' (Star ElementAttribute), Lab ''prefix'' OrderedListItemPrefix_rule,
             Lab ''content'' OrderedListItemContent, Opt BlankLine_rule]))"

definition UnorderedListItemContent :: expr where
  "UnorderedListItemContent =
     Rule (Act (\<lambda>env text. asSlice (label env ''elements'') NewListItemContent)
       (Lab ''elements'' (Seq [Plus ListParagraph, Star ContinuedDocumentBlock])))"

definition UnorderedListItem_rule :: expr where
  "UnorderedListItem_rule =
     Rule (Act (\<lambda>env text. asSlice (label env ''content'') (\<lambda>content.
                  NewUnorderedListItem (label env ''prefix'') content))
       (Seq [Lab ''prefix'' UnorderedListItemPrefix_rule, Lab ''content'' UnorderedListItemContent,
             Opt BlankLine_rule]))"

definition LabeledListItemDescription :: expr where
  "LabeledListItemDescription =
     Rule (Act (\<lambda>env text. asSlice (label env ''elements'') NewListItemContent)
       (Lab ''elements'' (Star (Choice [ListParagraph, ContinuedDocumentBlock]))))"

definition LabeledListItem_rule :: expr where
  "LabeledListItem_rule =
     Rule (Choice
       [Act (\<lambda>env text. asSlice (label env ''term'') (\<lambda>term.
               asSlice (label env ''description'') (\<lambda>description. NewLabeledListItem term description)))
          (Seq [Lab ''term'' LabeledListItemTerm, LabeledListItemSeparator,
                Lab ''description'' LabeledListItemDescription]),
        Act (\<lambda>env text. asSlice (label env ''term'') (\<lambda>term. NewLabeledListItem term []))
          (Seq [Lab ''term'' LabeledListItemTerm, Lit ''::'', Star WS, EOL])])"

definition ListItems :: expr where
  "ListItems = Rule (Plus (Choice [OrderedListItem_rule, UnorderedListItem_rule, LabeledListItem_rule]))"

definition List :: expr where
  "List =
     Rule (Act (\<lambda>env text. asSlice (label env ''elements'') (\<lambda>elements.
                  asSlice (label env ''attributes'') (\<lambda>attributes. NewList elements attributes)))
       (Seq [Lab ''attributes'' (Star ElementAttribute), Lab ''elements'' ListItems]))"

section \<open>The grammar: delimited blocks\<close>

definition BlockParagraphLine :: expr where
  "BlockParagraphLine =
     Rule (Act (\<lambda>env text. label env ''line'')
       (Seq [Not OrderedListItemPrefix_rule,
             Not UnorderedListItemPrefix_rule,
             Not (Seq [LabeledListItemTerm, LabeledListItemSeparator]),
             Not ListItemContinuation_rule,
             Not BlockDelimiter,
             Lab ''line'' InlineElements_rule]))"

definition BlockParagraph :: expr where
  "BlockParagraph =
     Rule (Act (\<lambda>env text. asSlice (label env ''lines'') (\<lambda>lines. NewParagraph lines []))
       (Lab ''lines'' (Plus BlockParagraphLine)))"

definition FencedBlock :: expr where
  "FencedBlock =
     Rule (Act (\<lambda>env text. asSlice (label env ''content'') (\<lambda>content.
                  asSlice (label env ''attributes'') (\<lambda>attributes.
                    NewDelimitedBlock Fenced content attributes None_subst)))
       (Seq [Lab ''attributes'' (Star ElementAttribute), FencedBlockDelimiter, Star WS, NEWLINE,
             Lab ''content'' (Star (Choice [List, BlockParagraph, BlankLine_rule])),
             Choice [Seq [FencedBlockDelimiter, Star WS, EOL], EOF]]))"

definition ListingBlock :: expr where
  "ListingBlock =
     Rule (Act (\<lambda>env text. asSlice (label env ''content'') (\<lambda>content.
                  asSlice (label env ''attributes'') (\<lambda>attributes.
                    NewDelimitedBlock Listing content attributes None_subst)))
       (Seq [Lab ''attributes'' (Star ElementAttribute), ListingBlockDelimiter, Star WS, NEWLINE,
             Lab ''content'' (Star (Choice [List, BlockParagraph, BlankLine_rule])),
             Choice [Seq [ListingBlockDelimiter, Star WS, EOL], EOF]]))"

definition ExampleBlock :: expr where
  "ExampleBlock =
     Rule (Act (\<lambda>env text. asSlice (label env ''content'') (\<lambda>content.
                  asSlice (label env ''attributes'') (\<lambda>attributes.
                    NewDelimitedBlock Example content attributes None_subst)))
       (Seq [Lab ''attributes'' (Star ElementAttribute), ExampleBlockDelimiter, Star WS, NEWLINE,
             Lab ''content'' (Star (Choice [List, BlockParagraph, BlankLine_rule])),
             Choice [Seq [ExampleBlockDelimiter, Star WS, EOL], EOF]]))"

definition VerseBlockLineContent :: expr where
  "VerseBlockLineContent =
     Rule (Act (\<lambda>env text. NewInlineElements [Str (TrimSpace text)])
       (Lab ''content'' (Star (Seq [Not VerseBlockDelimiter, Not EOL, AnyChar]))))"

definition VerseBlockLine :: expr where
  "VerseBlockLine =
     Rule (Act (\<lambda>env text. label env ''line'') (Seq [Lab ''line'' VerseBlockLineContent, EOL]))"

definition VerseBlockParagraph :: expr where
  "VerseBlockParagraph =
     Rule (Act (\<lambda>env text. asSlice (label env ''lines'') (\<lambda>lines. NewParagraph lines []))
       (Lab ''lines'' (Star VerseBlockLine)))"

definition VerseBlockAttribute :: expr where
  "VerseBlockAttribute =
     Rule (Choice
       [Act (\<lambda>env text. label env ''attribute'') (Seq [Lab ''attribute'' VerseAttributes, Star WS, EOL]),
        Act (\<lambda>env text. label env ''attribute'') (Lab ''attribute'' ElementAttribute)])"

definition VerseBlock :: expr where
  "VerseBlock =
     Rule (Act (\<lambda>env text. asSlice (label env ''attributes'') (\<lambda>attributes.
                  NewDelimitedBlock Verse [label env ''content''] attributes None_subst))
       (Seq [Lab ''attributes'' (Star VerseBlockAttribute), VerseBlockDelimiter, Star WS, NEWLINE,
             Lab ''content'' VerseBlockParagraph,
             Choice [Seq [VerseBlockDelimiter, Star WS, EOL], EOF]]))"

definition CommentBlockLine :: expr where
  "CommentBlockLine =
     Rule (Act (\<lambda>env text. label env ''content'')
       (Seq [Lab ''content'' (Star (Seq [Not CommentBlockDelimiter, Not EOL, AnyChar])), EOL]))"

definition CommentBlock :: expr where
  "CommentBlock =
     Rule (Act (\<lambda>env text. asSlice (label env ''content'') (\<lambda>content.
                  asSlice (label env ''attributes'') (\<lambda>attributes.
                    NewDelimitedBlock Comment content attributes Verbatim)))
       (Seq [Lab ''attributes'' (Star ElementAttribute), CommentBlockDelimiter, Star WS, NEWLINE,
             Lab ''content'' (Star CommentBlockLine),
             Choice [Seq [CommentBlockDelimiter, Star WS, EOL], EOF]]))"

definition DelimitedBlock_rule :: expr where
  "DelimitedBlock_rule =
     Rule (Choice [FencedBlock, ListingBlock, ExampleBlock, CommentBlock, VerseBlock])"

section \<open>The grammar: literal blocks\<close>

definition LiteralBlockContent :: expr where
  "LiteralBlockContent =
     Rule (Act (\<lambda>env text. label env ''content'')
       (Lab ''content'' (Plus (Seq [Not (Seq [NEWLINE, BlankLine_rule]), AnyChar]))))"

definition EndOfLiteralBlock :: expr where
  "EndOfLiteralBlock = Rule (Choice [Seq [NEWLINE, BlankLine_rule], NEWLINE, EOF])"

definition ParagraphWithSpaces :: expr where
  "ParagraphWithSpaces =
     Rule (Act (\<lambda>env text. asSlice (label env ''spaces'') (\<lambda>spaces.
                  asSlice (label env ''content'') (\<lambda>content. NewLiteralBlock spaces content)))
       (Seq [Lab ''spaces'' (Plus WS), Not NEWLINE, Lab ''content'' LiteralBlockContent,
             EndOfLiteralBlock]))"

definition ParagraphWithLiteralBlockDelimiter :: expr where
  "ParagraphWithLiteralBlockDelimiter =
     Rule (Act (\<lambda>env text. asSlice (label env ''content'') (\<lambda>content. NewLiteralBlock [] content))
       (Seq [LiteralBlockDelimiter, Star WS, NEWLINE,
             Lab ''content'' (Star (Seq [Not LiteralBlockDelimiter, AnyChar])),
             Choice [Seq [LiteralBlockDelimiter, Star WS, EOL], EOF]]))"

definition ParagraphWithLiteralAttribute :: expr where
  "ParagraphWithLiteralAttribute =
     Rule (Act (\<lambda>env text. asSlice (label env ''content'') (\<lambda>content. NewLiteralBlock [] content))
       (Seq [Lit ''[literal]'', Star WS, NEWLINE, Lab ''content'' LiteralBlockContent,
             EndOfLiteralBlock]))"

definition LiteralBlock_rule :: expr where
  "LiteralBlock_rule =
     Rule (Choice [ParagraphWithSpaces, ParagraphWithLiteralBlockDelimiter,
                   ParagraphWithLiteralAttribute])"

section \<open>The grammar: document blocks\<close>

definition DocumentBlock :: expr where
  "DocumentBlock =
     Rule (Act (\<lambda>env text. label env ''block'')
       (Seq [Not EOF,
             Lab ''block'' (Choice [BlankLine_rule, DocumentAttributeDeclaration_rule,
                                    DocumentAttributeReset_rule, TableOfContentsMacro_rule, List,
                                    BlockImage_rule, LiteralBlock_rule, DelimitedBlock_rule,
                                    Paragraph_rule])]))"

section \<open>The grammar: sections\<close>

definition SectionTitlePrefix :: expr where
  "SectionTitlePrefix = Rule (Seq [Plus (Lit ''=''), Star WS])"

definition Section0TitlePrefix :: expr where
  "Section0TitlePrefix = Rule (Seq [Lit ''='', Plus WS])"

definition Section1TitlePrefix :: expr where
  "Section1TitlePrefix = Rule (Seq [Lit ''=='', Plus WS])"

definition Section2TitlePrefix :: expr where
  "Section2TitlePrefix = Rule (Seq [Lit ''==='', Plus WS])"

definition Section3TitlePrefix :: expr where
  "Section3TitlePrefix = Rule (Seq [Lit ''===='', Plus WS])"

definition Section4TitlePrefix :: expr where
  "Section4TitlePrefix = Rule (Seq [Lit ''====='', Plus WS])"

definition Section5TitlePrefix :: expr where
  "Section5TitlePrefix = Rule (Seq [Lit ''======'', Plus WS])"

text \<open>The code of the six title rules and of the six section rules.\<close>

definition sectionTitle :: "env \<Rightarrow> string \<Rightarrow> val" where
  "sectionTitle env text =
     asSlice (label env ''attributes'') (\<lambda>attributes.
       NewSectionTitle (label env ''content'') (attributes @ [label env ''id'']))"

definition sectionOfLevel :: "nat \<Rightarrow> env \<Rightarrow> string \<Rightarrow> val" where
  "sectionOfLevel level env text =
     (case label env ''header'' of
        SectionTitle attributes content \<Rightarrow>
          asSlice (label env ''elements'') (\<lambda>elements.
            NewSection level (label env ''header'') elements)
      | _ \<Rightarrow> Failure ''interface conversion: interface {} is not types.SectionTitle'')"

definition Section0Title :: expr where
  "Section0Title =
     Rule (Act sectionTitle
       (Seq [Lab ''attributes'' (Star ElementAttribute), Section0TitlePrefix,
             Lab ''content'' TitleElements, Star WS, Lab ''id'' (Opt InlineElementID), Star WS, EOL]))"

definition Section1Title :: expr where
  "Section1Title =
     Rule (Act sectionTitle
       (Seq [Lab ''attributes'' (Star ElementAttribute), Section1TitlePrefix,
             Lab ''content'' TitleElements, Star WS, Lab ''id'' (Opt InlineElementID), Star WS, EOL]))"

definition Section2Title :: expr where
  "Section2Title =
     Rule (Act sectionTitle
       (Seq [Lab ''attributes'' (Star ElementAttribute), Section2TitlePrefix,
             Lab ''content'' TitleElements, Star WS, Lab ''id'' (Opt InlineElementID), Star WS, EOL]))"

definition Section3Title :: expr where
  "Section3Title =
     Rule (Act sectionTitle
       (Seq [Lab ''attributes'' (Star ElementAttribute), Section3TitlePrefix,
             Lab ''content'' TitleElements, Star WS, Lab ''id'' (Opt InlineElementID), EOL]))"

definition Section4Title :: expr where
  "Section4Title =
     Rule (Act sectionTitle
       (Seq [Lab ''attributes'' (Star ElementAttribute), Section4TitlePrefix,
             Lab ''content'' TitleElements, Star WS, Lab ''id'' (Opt InlineElementID), EOL]))"

definition Section5Title :: expr where
  "Section5Title =
     Rule (Act sectionTitle
       (Seq [Lab ''attributes'' (Star ElementAttribute), Section5TitlePrefix,
             Lab ''content'' TitleElements, Star WS, Lab ''id'' (Opt InlineElementID), EOL]))"

definition Section5Block :: expr where
  "Section5Block =
     Rule (Act (\<lambda>env text. label env ''content'')
       (Seq [Not Section1Title, Not Section2Title, Not Section3Title, Not Section4Title,
             Not Section5Title, Lab ''content'' (Star DocumentBlock)]))"

definition Section5 :: expr where
  "Section5 =
     Rule (Act (\<lambda>env text. label env ''section'')
       (Seq [Not EOF,
             Lab ''section'' (Act (sectionOfLevel 5)
               (Seq [Lab ''header'' Section5Title, Lab ''elements'' (Opt Section5Block)]))]))"

definition Section4Block :: expr where
  "Section4Block =
     Rule (Act (\<lambda>env text. label env ''content'')
       (Seq [Not Section1Title, Not Section2Title, Not Section3Title, Not Section4Title,
             Lab ''content'' (Star (Choice [Section5, DocumentBlock]))]))"

definition Section4 :: expr where
  "Section4 =
     Rule (Act (\<lambda>env text. label env ''section'')
       (Seq [Not EOF,
             Lab ''section'' (Act (sectionOfLevel 4)
               (Seq [Lab ''header'' Section4Title, Lab ''elements'' (Opt Section4Block)]))]))"

definition Section3Block :: expr where
  "Section3Block =
     Rule (Act (\<lambda>env text. label env ''content'')
       (Seq [Not Section1Title, Not Section2Title, Not Section3Title,
             Lab ''content'' (Star (Choice [Section4, Section5, DocumentBlock]))]))"

definition Section3 :: expr where
  "Section3 =
     Rule (Act (\<lambda>env text. label env ''section'')
       (Seq [Not EOF,
             Lab ''section'' (Act (sectionOfLevel 3)
               (Seq [Lab ''header'' Section3Title, Lab ''elements'' (Opt Section3Block)]))]))"

definition Section2Block :: expr where
  "Section2Block =
     Rule (Act (\<lambda>env text. label env ''content'')
       (Seq [Not Section1Title, Not Section2Title,
             Lab ''content'' (Star (Choice [Section3, Section4, Section5, DocumentBlock]))]))"

definition Section2 :: expr where
  "Section2 =
     Rule (Act (\<lambda>env text. label env ''section'')
       (Seq [Not EOF,
             Lab ''section'' (Act (sectionOfLevel 2)
               (Seq [Lab ''header'' Section2Title, Lab ''elements'' (Opt Section2Block)]))]))"

definition Section1Block :: expr where
  "Section1Block =
     Rule (Act (\<lambda>env text. label env ''content'')
       (Seq [Not Section1Title,
             Lab ''content'' (Choice [Section2, Section3, Section4, Section5, DocumentBlock])]))"

definition Section1 :: expr where
  "Section1 =
     Rule (Act (\<lambda>env text. label env ''section'')
       (Seq [Not EOF,
             Lab ''section'' (Act (sectionOfLevel 1)
               (Seq [Lab ''header'' Section1Title, Lab ''elements'' (Star Section1Block)]))]))"

definition Section0Block :: expr where
  "Section0Block =
     Rule (Act (\<lambda>env text. label env ''content'')
       (Seq [Not (Ref R_Section0),
             Lab ''content'' (Choice [Section1, Section2, Section3, Section4, Section5,
                                      DocumentBlock])]))"

definition Section0 :: expr where
  "Section0 =
     Rule (Act (\<lambda>env text. label env ''section'')
       (Seq [Not EOF,
             Lab ''section'' (Act (sectionOfLevel 0)
               (Seq [Lab ''header'' Section0Title, Lab ''elements'' (Star Section0Block)]))]))"

definition Section_rule :: expr where
  "Section_rule =
     Rule (Act (\<lambda>env text. label env ''section'')
       (Seq [Not EOF,
             Lab ''section'' (Choice [Section0, Section1, Section2, Section3, Section4, Section5])]))"

section \<open>The grammar: document header, front matter, document\<close>

definition DocumentAuthorNamePart :: expr where
  "DocumentAuthorNamePart = Rule (Seq [Not (Lit ''<''), Not (Lit '';''), Word, Star WS])"

definition DocumentAuthorEmail :: expr where
  "DocumentAuthorEmail =
     Rule (Seq [Lit ''<'', Lab ''email'' (Plus (Seq [Not (Lit ''>''), Not EOL, AnyChar])), Lit ''>''])"

definition DocumentAuthor_rule :: expr where
  "DocumentAuthor_rule =
     Rule (Act (\<lambda>env text. NewDocumentAuthor (label env ''namePart1'') (label env ''namePart2'')
                              (label env ''namePart3'') (label env ''email''))
       (Seq [Star WS, Lab ''namePart1'' DocumentAuthorNamePart,
             Lab ''namePart2'' (Opt DocumentAuthorNamePart),
             Lab ''namePart3'' (Opt DocumentAuthorNamePart),
             Lab ''email'' (Opt DocumentAuthorEmail),
             Star WS, Opt (Lit '';''), Star WS]))"

definition DocumentAuthorsInlineForm :: expr where
  "DocumentAuthorsInlineForm =
     Rule (Act (\<lambda>env text. asSlice (label env ''authors'') NewDocumentAuthors)
       (Seq [Star WS, Not (Lit '':''), Lab ''authors'' (Plus DocumentAuthor_rule), EOL]))"

definition DocumentAuthorsAttributeForm :: expr where
  "DocumentAuthorsAttributeForm =
     Rule (Act (\<lambda>env text. if isDocumentAuthor (label env ''author'')
                           then DocumentAuthors [label env ''author'']
                           else Failure ''interface conversion: interface {} is not types.DocumentAuthor'')
       (Seq [Star WS, Lit '':author:'', Lab ''author'' DocumentAuthor_rule]))"

definition DocumentAuthors_rule :: expr where
  "DocumentAuthors_rule = Rule (Choice [DocumentAuthorsInlineForm, DocumentAuthorsAttributeForm])"

definition DocumentRevisionNumber :: expr where
  "DocumentRevisionNumber =
     Rule (Choice
       [Seq [LitI ''v'', DIGIT, Star (Seq [Not EOL, Not (Lit '',''), Not (Lit '':''), AnyChar])],
        Seq [Opt (LitI ''v''), DIGIT, Star (Seq [Not EOL, Not (Lit '',''), Not (Lit '':''), AnyChar]),
             Star WS, And (Lit '','')]])"

definition DocumentRevisionDate :: expr where
  "DocumentRevisionDate = Rule (Star (Seq [Not EOL, Not (Lit '':''), AnyChar]))"

definition DocumentRevisionRemark :: expr where
  "DocumentRevisionRemark = Rule (Star (Seq [Not EOL, AnyChar]))"

definition DocumentRevision_rule :: expr where
  "DocumentRevision_rule =
     Rule (Act (\<lambda>env text. NewDocumentRevision (label env ''revnumber'') (label env ''revdate'')
                              (label env ''revremark''))
       (Seq [Star WS, Not (Lit '':''), Lab ''revnumber'' (Opt DocumentRevisionNumber),
             Opt (Lit '',''), Lab ''revdate'' (Opt DocumentRevisionDate), Opt (Lit '':''),
             Lab ''revremark'' (Opt DocumentRevisionRemark), EOL]))"

definition DocumentHeader_rule :: expr where
  "DocumentHeader_rule =
     Rule (Act (\<lambda>env text. asSlice (label env ''otherAttributes'') (\<lambda>otherAttributes.
                  NewDocumentHeader (label env ''header'') (label env ''authors'')
                    (label env ''revision'') otherAttributes))
       (Seq [Lab ''header'' Section0Title, Lab ''authors'' (Opt DocumentAuthors_rule),
             Lab ''revision'' (Opt DocumentRevision_rule),
             Lab ''otherAttributes'' (Star DocumentAttributeDeclaration_rule)]))"

text \<open>The grammar file defines the rule \<open>FrontMatter\<close> twice, first as a reference to a
  rule \<open>YamlFrontMatter\<close> that it does not define. The second definition is the one that
  the rule table of the generated parser keeps.\<close>

definition YamlFrontMatterToken :: expr where
  "YamlFrontMatterToken = Rule (Seq [Lit ''---'', EOL])"

definition YamlFrontMatterContent :: expr where
  "YamlFrontMatterContent =
     Rule (Act (\<lambda>env text. Str text) (Star (Seq [Not YamlFrontMatterToken, AnyChar])))"

definition FrontMatter_rule :: "(string \<Rightarrow> attrs option) \<Rightarrow> expr" where
  "FrontMatter_rule yaml =
     Rule (Act (\<lambda>env text. asString (label env ''content'') (NewYamlFrontMatter yaml))
       (Seq [YamlFrontMatterToken, Lab ''content'' YamlFrontMatterContent, YamlFrontMatterToken]))"

definition Document_rule :: "(string \<Rightarrow> attrs option) \<Rightarrow> expr" where
  "Document_rule yaml =
     Rule (Act (\<lambda>env text. asSlice (label env ''blocks'') (\<lambda>blocks.
                  NewDocument (label env ''frontMatter'') (label env ''documentHeader'') blocks))
       (Seq [Lab ''frontMatter'' (Opt (FrontMatter_rule yaml)),
             Lab ''documentHeader'' (Opt DocumentHeader_rule),
             Lab ''blocks'' (Star (Choice [Section_rule, DocumentBlock])),
             EOF]))"

section \<open>Running the grammar\<close>

definition grammar :: "rule \<Rightarrow> expr" where
  "grammar r =
     (case r of
        R_QuotedText \<Rightarrow> QuotedText_rule
      | R_DocumentBlock \<Rightarrow> DocumentBlock
      | R_Section0 \<Rightarrow> Section0)"

text \<open>The slice of the values of a sequence or a repetition.\<close>

definition elems :: "val \<Rightarrow> val list" where
  "elems v = (case v of Slice vs \<Rightarrow> vs | _ \<Rightarrow> [])"

text \<open>The reply to a sequence or a repetition whose first expression gave \<open>v\<close> and the
  labels \<open>env\<close>, from the reply to its rest.\<close>

definition andThen :: "val \<Rightarrow> env \<Rightarrow> reply \<Rightarrow> reply" where
  "andThen v env rest =
     (case rest of
        Ok vs env' r \<Rightarrow> Ok (Slice (v # elems vs)) (env' @ env) r
      | x \<Rightarrow> x)"

text \<open>The text that an expression has matched, \<open>c.text\<close>: what the input \<open>s\<close> has in
  front of the rest \<open>r\<close>.\<close>

definition matched :: "string \<Rightarrow> string \<Rightarrow> string" where
  "matched s r = take (length s - length r) s"

text \<open>The reply to an action whose code returned \<open>v\<close>.\<close>

definition returned :: "val \<Rightarrow> env \<Rightarrow> string \<Rightarrow> reply" where
  "returned v env r = (case v of Failure msg \<Rightarrow> Raised msg | _ \<Rightarrow> Ok v env r)"

text \<open>The reply with its labels dropped, at the end of a scope.\<close>

definition scoped :: "reply \<Rightarrow> reply" where
  "scoped x = (case x of Ok v env r \<Rightarrow> Ok v [] r | _ \<Rightarrow> x)"

text \<open>
  Modelled from the spec: the driver itself, with the semantics of the expressions that
  the section on the parsing machine describes. \<open>parse n e s\<close> runs the expression \<open>e\<close> on
  the input \<open>s\<close> with the fuel \<open>n\<close>.
\<close>

fun parse :: "nat \<Rightarrow> expr \<Rightarrow> string \<Rightarrow> reply" where
  "parse n (Lit l) s = (case match l s of None \<Rightarrow> Fail | Some r \<Rightarrow> Ok (Bytes l) [] r)"
| "parse n (LitI l) s = (case matchI l s of None \<Rightarrow> Fail | Some (m, r) \<Rightarrow> Ok (Bytes m) [] r)"
| "parse n AnyChar s = (case s of [] \<Rightarrow> Fail | c # r \<Rightarrow> Ok (Bytes [c]) [] r)"
| "parse n (Class rs) s =
     (case s of [] \<Rightarrow> Fail | c # r \<Rightarrow> if inRanges rs c then Ok (Bytes [c]) [] r else Fail)"
| "parse n (Seq []) s = Ok (Slice []) [] s"
| "parse n (Seq (e # es)) s =
     (case parse n e s of
        Ok v env r \<Rightarrow> andThen v env (parse n (Seq es) r)
      | x \<Rightarrow> x)"
| "parse n (Choice []) s = Fail"
| "parse n (Choice (e # es)) s =
     (case parse n e s of
        Fail \<Rightarrow> parse n (Choice es) s
      | x \<Rightarrow> scoped x)"
| "parse n (Star e) s =
     (case n of
        0 \<Rightarrow> OutOfFuel
      | Suc m \<Rightarrow>
          (case parse n e s of
             Fail \<Rightarrow> Ok (Slice []) [] s
           | Ok v env r \<Rightarrow> scoped (andThen v [] (parse m (Star e) r))
           | x \<Rightarrow> x))"
| "parse n (Plus e) s =
     (case n of
        0 \<Rightarrow> OutOfFuel
      | Suc m \<Rightarrow>
          (case parse n e s of
             Ok v env r \<Rightarrow> scoped (andThen v [] (parse m (Star e) r))
           | x \<Rightarrow> x))"
| "parse n (Opt e) s =
     (case parse n e s of Fail \<Rightarrow> Ok Nil [] s | x \<Rightarrow> scoped x)"
| "parse n (And e) s =
     (case parse n e s of Ok v env r \<Rightarrow> Ok Nil [] s | x \<Rightarrow> x)"
| "parse n (Not e) s =
     (case parse n e s of Fail \<Rightarrow> Ok Nil [] s | Ok v env r \<Rightarrow> Fail | x \<Rightarrow> x)"
| "parse n (Lab l e) s =
     (case parse n e s of Ok v env r \<Rightarrow> Ok v [(l, v)] r | x \<Rightarrow> x)"
| "parse n (Act f e) s =
     (case parse n e s of
        Ok v env r \<Rightarrow> returned (f env (matched s r)) env r
      | x \<Rightarrow> x)"
| "parse n (Rule e) s = scoped (parse n e s)"
| "parse n (Ref r) s = (case n of 0 \<Rightarrow> OutOfFuel | Suc m \<Rightarrow> parse m (grammar r) s)"

section \<open>Evaluating the machine\<close>

text \<open>The replies of the helpers of the machine, by the form of the reply they get.\<close>

lemma scoped_simps:
  "scoped (Ok v env r) = Ok v [] r"
  "scoped Fail = Fail"
  "scoped OutOfFuel = OutOfFuel"
  "scoped (Raised msg) = Raised msg"
  by (simp_all add: scoped_def)

lemma andThen_simps:
  "andThen v env (Ok vs env' r) = Ok (Slice (v # elems vs)) (env' @ env) r"
  "andThen v env Fail = Fail"
  "andThen v env OutOfFuel = OutOfFuel"
  "andThen v env (Raised msg) = Raised msg"
  by (simp_all add: andThen_def)

lemma elems_Slice: "elems (Slice vs) = vs"
  by (simp add: elems_def)

text \<open>A reply other than \<open>OutOfFuel\<close> does not depend on the fuel: more fuel gives the same
  reply.\<close>

lemma scoped_OutOfFuel: "scoped x = OutOfFuel \<longleftrightarrow> x = OutOfFuel"
  by (cases x) (simp_all add: scoped_simps)

lemma andThen_OutOfFuel: "andThen v env x = OutOfFuel \<longleftrightarrow> x = OutOfFuel"
  by (cases x) (simp_all add: andThen_simps)

lemma returned_OutOfFuel: "returned v env r \<noteq> OutOfFuel"
  by (simp add: returned_def split: val.splits)

lemma parse_Suc: "parse n e s \<noteq> OutOfFuel \<Longrightarrow> parse (Suc n) e s = parse n e s"
proof (induction n e s rule: parse.induct)
  case (6 n e es s)
  then show ?case
    by (cases "parse n e s") (auto simp: andThen_OutOfFuel)
next
  case (8 n e es s)
  then show ?case
    by (cases "parse n e s") (auto simp: scoped_OutOfFuel)
next
  case (9 n e s)
  then show ?case
    by (cases n; cases "parse n e s") (auto simp: scoped_OutOfFuel andThen_OutOfFuel)
next
  case (10 n e s)
  then show ?case
    by (cases n; cases "parse n e s") (auto simp: scoped_OutOfFuel andThen_OutOfFuel)
next
  case (11 n e s)
  then show ?case
    by (cases "parse n e s") (auto simp: scoped_OutOfFuel)
next
  case (12 n e s)
  then show ?case
    by (cases "parse n e s") auto
next
  case (13 n e s)
  then show ?case
    by (cases "parse n e s") auto
next
  case (14 n l e s)
  then show ?case
    by (cases "parse n e s") auto
next
  case (15 n f e s)
  then show ?case
    by (cases "parse n e s") (auto simp: returned_OutOfFuel)
next
  case (16 n e s)
  then show ?case
    by (auto simp: scoped_OutOfFuel)
next
  case (17 n r s)
  then show ?case
    by (cases n) auto
qed simp_all

lemma parse_fuel: "parse n e s \<noteq> OutOfFuel \<Longrightarrow> parse (n + k) e s = parse n e s"
  by (induction k) (simp_all add: parse_Suc)


text \<open>The rest of the input that a match leaves is a suffix of the input.\<close>

lemma match_suffix: "match l s = Some r \<Longrightarrow> s = l @ r"
  by (induction l s rule: match.induct) (auto split: if_splits)

lemma matchI_suffix: "matchI l s = Some (m, r) \<Longrightarrow> s = m @ r"
  by (induction l s arbitrary: m r rule: matchI.induct) (auto split: if_splits)

lemma scoped_Ok: "scoped x = Ok v env r \<Longrightarrow> \<exists>env'. x = Ok v env' r"
  by (cases x) (simp_all add: scoped_simps)

lemma andThen_Ok: "andThen v env x = Ok w env'' r \<Longrightarrow> \<exists>vs env'. x = Ok vs env' r"
  by (cases x) (simp_all add: andThen_simps)

lemma returned_Ok: "returned v env r = Ok w env' r' \<Longrightarrow> w = v \<and> env' = env \<and> r' = r"
  by (simp add: returned_def split: val.splits)

lemma parse_suffix: "parse n e s = Ok v env r \<Longrightarrow> \<exists>t. s = t @ r"
proof (induction n e s arbitrary: v env r rule: parse.induct)
  case (1 n l s)
  then show ?case by (auto split: option.splits dest: match_suffix)
next
  case (2 n l s)
  then show ?case by (auto split: option.splits dest: matchI_suffix)
next
  case (3 n s)
  then show ?case by (auto split: list.splits)
next
  case (4 n rs s)
  then show ?case by (auto split: list.splits if_splits)
next
  case (6 n e es s)
  from "6.prems" obtain v1 env1 r1 where first: "parse n e s = Ok v1 env1 r1"
    by (cases "parse n e s") auto
  with "6.prems" have "andThen v1 env1 (parse n (Seq es) r1) = Ok v env r" by simp
  from andThen_Ok [OF this] obtain vs env' where "parse n (Seq es) r1 = Ok vs env' r" by blast
  from "6.IH"(2) [OF first this] "6.IH"(1) [OF first] show ?case by auto
next
  case (8 n e es s)
  show ?case
  proof (cases "parse n e s")
    case Fail
    with "8.prems" "8.IH"(2) show ?thesis by auto
  next
    case (Ok v1 env1 r1)
    with "8.prems" "8.IH"(1) show ?thesis by (auto simp: scoped_simps)
  qed (use "8.prems" in \<open>auto simp: scoped_simps\<close>)
next
  case (9 n e s)
  from "9.prems" obtain m where n: "n = Suc m" by (cases n) auto
  show ?case
  proof (cases "parse n e s")
    case Fail
    with "9.prems" n show ?thesis by auto
  next
    case (Ok v1 env1 r1)
    with "9.prems" n have "scoped (andThen v1 [] (parse m (Star e) r1)) = Ok v env r" by simp
    from scoped_Ok [OF this] obtain env' where "andThen v1 [] (parse m (Star e) r1) = Ok v env' r"
      by blast
    from andThen_Ok [OF this] obtain vs env'' where "parse m (Star e) r1 = Ok vs env'' r" by blast
    from "9.IH"(2) [OF n Ok this] "9.IH"(1) [OF n Ok] show ?thesis by auto
  qed (use "9.prems" n in auto)
next
  case (10 n e s)
  from "10.prems" obtain m where n: "n = Suc m" by (cases n) auto
  show ?case
  proof (cases "parse n e s")
    case (Ok v1 env1 r1)
    with "10.prems" n have "scoped (andThen v1 [] (parse m (Star e) r1)) = Ok v env r" by simp
    from scoped_Ok [OF this] obtain env' where "andThen v1 [] (parse m (Star e) r1) = Ok v env' r"
      by blast
    from andThen_Ok [OF this] obtain vs env'' where "parse m (Star e) r1 = Ok vs env'' r" by blast
    from "10.IH"(2) [OF n Ok this] "10.IH"(1) [OF n Ok] show ?thesis by auto
  qed (use "10.prems" n in auto)
next
  case (11 n e s)
  then show ?case by (cases "parse n e s") (auto simp: scoped_simps)
next
  case (12 n e s)
  then show ?case by (cases "parse n e s") auto
next
  case (13 n e s)
  then show ?case by (cases "parse n e s") auto
next
  case (14 n l e s)
  then show ?case by (cases "parse n e s") auto
next
  case (15 n f e s)
  then show ?case by (cases "parse n e s") (auto dest: returned_Ok)
next
  case (16 n e s)
  then show ?case by (auto dest!: scoped_Ok)
next
  case (17 n r s)
  then show ?case by (cases n) auto
qed simp_all

text \<open>A round of a repetition, by the form of the fuel. With these equations in the place
  of the ones of the definition, a repetition with an unknown amount of fuel stays as it
  is.\<close>

lemma Star_simps:
  "parse 0 (Star e) s = OutOfFuel"
  "parse (Suc m) (Star e) s =
     (case parse (Suc m) e s of
        Fail \<Rightarrow> Ok (Slice []) [] s
      | Ok v env r \<Rightarrow> scoped (andThen v [] (parse m (Star e) r))
      | x \<Rightarrow> x)"
  "parse (numeral k) (Star e) s =
     (case parse (numeral k) e s of
        Fail \<Rightarrow> Ok (Slice []) [] s
      | Ok v env r \<Rightarrow> scoped (andThen v [] (parse (pred_numeral k) (Star e) r))
      | x \<Rightarrow> x)"
  by (simp_all add: numeral_eq_Suc)

lemma Plus_simps:
  "parse 0 (Plus e) s = OutOfFuel"
  "parse (Suc m) (Plus e) s =
     (case parse (Suc m) e s of
        Ok v env r \<Rightarrow> scoped (andThen v [] (parse m (Star e) r))
      | x \<Rightarrow> x)"
  "parse (numeral k) (Plus e) s =
     (case parse (numeral k) e s of
        Ok v env r \<Rightarrow> scoped (andThen v [] (parse (pred_numeral k) (Star e) r))
      | x \<Rightarrow> x)"
  by (simp_all add: numeral_eq_Suc)

lemma Ref_simps:
  "parse 0 (Ref r) s = OutOfFuel"
  "parse (Suc m) (Ref r) s = parse m (grammar r) s"
  "parse (numeral k) (Ref r) s = parse (pred_numeral k) (grammar r) s"
  by (simp_all add: numeral_eq_Suc)

declare parse.simps(9,10,17) [simp del]

lemmas machine =
  Star_simps Plus_simps Ref_simps scoped_simps andThen_simps elems_Slice matched_def returned_def
  grammar_def

text \<open>A rule is unfolded where the machine runs it, and nowhere else.\<close>

lemma parse_cong: "x = y \<Longrightarrow> parse n x s = parse n y s"
  by simp

lemmas rules =
  parse_cong[OF WS_def] parse_cong[OF NEWLINE_def] parse_cong[OF EOF_def]
  parse_cong[OF EOL_def] parse_cong[OF DIGIT_def] parse_cong[OF Word_def]
  parse_cong[OF URL_def] parse_cong[OF ID_def] parse_cong[OF URL_TEXT_def]
  parse_cong[OF URL_SCHEME_def] parse_cong[OF BlankLine_rule_def]
  parse_cong[OF AdmonitionKind_rule_def] parse_cong[OF AttributeName_def]
  parse_cong[OF DocumentAttributeDeclarationWithNameOnly_def]
  parse_cong[OF DocumentAttributeDeclarationWithNameAndValue_def]
  parse_cong[OF DocumentAttributeDeclaration_rule_def]
  parse_cong[OF DocumentAttributeResetWithSectionTitleBangSymbol_def]
  parse_cong[OF DocumentAttributeResetWithTrailingBangSymbol_def]
  parse_cong[OF DocumentAttributeReset_rule_def]
  parse_cong[OF DocumentAttributeSubstitution_rule_def]
  parse_cong[OF TableOfContentsMacro_rule_def] parse_cong[OF InlineElementID_def]
  parse_cong[OF ElementID_def] parse_cong[OF ElementTitle_def]
  parse_cong[OF AdmonitionMarkerAttribute_def] parse_cong[OF AttributeKey_def]
  parse_cong[OF AttributeValue_def] parse_cong[OF GenericAttribute_rule_def]
  parse_cong[OF OtherGenericAttribute_def] parse_cong[OF AttributeGroup_def]
  parse_cong[OF HorizontalLayout_def] parse_cong[OF VerseAuthor_def]
  parse_cong[OF VerseTitle_def] parse_cong[OF VerseAttributes_def]
  parse_cong[OF ElementAttribute_def] parse_cong[OF MasqueradeAttribute_def]
  parse_cong[OF QuotedTextWord_def] parse_cong[OF WordWithQuotePunctuation_def]
  parse_cong[OF QuotedTextContentElement_def] parse_cong[OF QuotedTextContent_def]
  parse_cong[OF BoldText_def] parse_cong[OF EscapedBoldText_def] parse_cong[OF ItalicText_def]
  parse_cong[OF EscapedItalicText_def] parse_cong[OF MonospaceText_def]
  parse_cong[OF EscapedMonospaceText_def] parse_cong[OF QuotedText_rule_def]
  parse_cong[OF UnbalancedQuotePunctuation_def] parse_cong[OF SinglePlusPassthrough_rule_def]
  parse_cong[OF TriplePlusPassthrough_rule_def] parse_cong[OF PassthroughMacroCharacter_def]
  parse_cong[OF PassthroughMacro_rule_def] parse_cong[OF Passthrough_rule_def]
  parse_cong[OF CrossReference_rule_def] parse_cong[OF LinkTextAttribute_def]
  parse_cong[OF LinkAttributes_def] parse_cong[OF ExternalLink_def]
  parse_cong[OF RelativeLink_def] parse_cong[OF Link_rule_def]
  parse_cong[OF ImageAltAttribute_def] parse_cong[OF ImageWidthAttribute_def]
  parse_cong[OF ImageHeightAttribute_def] parse_cong[OF ImageAttributes_def]
  parse_cong[OF BlockImageMacro_def] parse_cong[OF InlineImageMacro_def]
  parse_cong[OF InlineImage_rule_def] parse_cong[OF BlockImage_rule_def]
  parse_cong[OF CommentBlockDelimiter_def] parse_cong[OF SingleLineComment_rule_def]
  parse_cong[OF LiteralBlockDelimiter_def] parse_cong[OF FencedBlockDelimiter_def]
  parse_cong[OF ListingBlockDelimiter_def] parse_cong[OF ExampleBlockDelimiter_def]
  parse_cong[OF VerseBlockDelimiter_def] parse_cong[OF BlockDelimiter_def]
  parse_cong[OF InlineElement_def] parse_cong[OF InlineElements_rule_def]
  parse_cong[OF TitleElement_def] parse_cong[OF TitleElements_def]
  parse_cong[OF ParagraphAttribute_def] parse_cong[OF Paragraph_rule_def]
  parse_cong[OF ListItemContinuation_rule_def] parse_cong[OF ContinuedDocumentBlock_def]
  parse_cong[OF OrderedListItemPrefix_rule_def]
  parse_cong[OF UnorderedListItemPrefix_rule_def] parse_cong[OF LabeledListItemTerm_def]
  parse_cong[OF LabeledListItemSeparator_def] parse_cong[OF ListParagraphLine_def]
  parse_cong[OF ListParagraph_def] parse_cong[OF OrderedListItemContent_def]
  parse_cong[OF OrderedListItem_rule_def] parse_cong[OF UnorderedListItemContent_def]
  parse_cong[OF UnorderedListItem_rule_def] parse_cong[OF LabeledListItemDescription_def]
  parse_cong[OF LabeledListItem_rule_def] parse_cong[OF ListItems_def] parse_cong[OF List_def]
  parse_cong[OF BlockParagraphLine_def] parse_cong[OF BlockParagraph_def]
  parse_cong[OF FencedBlock_def] parse_cong[OF ListingBlock_def]
  parse_cong[OF ExampleBlock_def] parse_cong[OF VerseBlockLineContent_def]
  parse_cong[OF VerseBlockLine_def] parse_cong[OF VerseBlockParagraph_def]
  parse_cong[OF VerseBlockAttribute_def] parse_cong[OF VerseBlock_def]
  parse_cong[OF CommentBlockLine_def] parse_cong[OF CommentBlock_def]
  parse_cong[OF DelimitedBlock_rule_def] parse_cong[OF LiteralBlockContent_def]
  parse_cong[OF EndOfLiteralBlock_def] parse_cong[OF ParagraphWithSpaces_def]
  parse_cong[OF ParagraphWithLiteralBlockDelimiter_def]
  parse_cong[OF ParagraphWithLiteralAttribute_def] parse_cong[OF LiteralBlock_rule_def]
  parse_cong[OF DocumentBlock_def] parse_cong[OF SectionTitlePrefix_def]
  parse_cong[OF Section0TitlePrefix_def] parse_cong[OF Section1TitlePrefix_def]
  parse_cong[OF Section2TitlePrefix_def] parse_cong[OF Section3TitlePrefix_def]
  parse_cong[OF Section4TitlePrefix_def] parse_cong[OF Section5TitlePrefix_def]
  parse_cong[OF Section0Title_def] parse_cong[OF Section1Title_def]
  parse_cong[OF Section2Title_def] parse_cong[OF Section3Title_def]
  parse_cong[OF Section4Title_def] parse_cong[OF Section5Title_def]
  parse_cong[OF Section5Block_def] parse_cong[OF Section5_def]
  parse_cong[OF Section4Block_def] parse_cong[OF Section4_def]
  parse_cong[OF Section3Block_def] parse_cong[OF Section3_def]
  parse_cong[OF Section2Block_def] parse_cong[OF Section2_def]
  parse_cong[OF Section1Block_def] parse_cong[OF Section1_def]
  parse_cong[OF Section0Block_def] parse_cong[OF Section0_def] parse_cong[OF Section_rule_def]
  parse_cong[OF DocumentAuthorNamePart_def] parse_cong[OF DocumentAuthorEmail_def]
  parse_cong[OF DocumentAuthor_rule_def] parse_cong[OF DocumentAuthorsInlineForm_def]
  parse_cong[OF DocumentAuthorsAttributeForm_def] parse_cong[OF DocumentAuthors_rule_def]
  parse_cong[OF DocumentRevisionNumber_def] parse_cong[OF DocumentRevisionDate_def]
  parse_cong[OF DocumentRevisionRemark_def] parse_cong[OF DocumentRevision_rule_def]
  parse_cong[OF DocumentHeader_rule_def] parse_cong[OF YamlFrontMatterToken_def]
  parse_cong[OF YamlFrontMatterContent_def] parse_cong[OF FrontMatter_rule_def]
  parse_cong[OF Document_rule_def]

text \<open>The code of the actions and the functions of the Go library that it calls.\<close>

lemmas strings =
  spaceRunes_def TrimSpace_def TrimRight_def
  TrimLeft_def Trim_def TrimPrefix_def TrimSuffix_def hasPrefix_def hasSuffix_def
  underscoresToSpaces_def filepath_Split_def filepath_Ext_def backslash_def backslashes2_def
  backquote_def backquotes2_def

lemmas actions =
  label_def asSlice_def asString_def asAttrMap_def orFail_def asImageMacro_def
  flattenAll_def appendBuffer_def mergeElements_def stringify_def
  AttrID_def AttrTitle_def AttrAdmonitionKind_def AttrBlockKind_def AttrVerseAuthor_def
  AttrVerseTitle_def AttrLinkText_def AttrImageAlt_def AttrImageWidth_def AttrImageHeight_def
  NewElementAttributes_def mergeAttributes_def NewAttributeGroup_def NewGenericAttribute_def
  trimQuotes_def NewVerseAttributes_def isInlineElements_def NewParagraph_def
  NewInlineElements_def NewQuotedText_def dropPunctuation_def NewEscapedQuotedText_def
  NewImageAttributes_def NewImageMacro_def NewBlockImage_def NewInlineImage_def
  NewDelimitedBlock_def NewSectionTitle_def NewSection_def
  quoted_def quotedUnbalanced_def escaped_def escapedUnbalanced_def sectionTitle_def
  sectionOfLevel_def
  isSection_def insertPreamble_def frontMatterAttributes_def NewDocument_def


section \<open>Image macros\<close>

text \<open>
  C5. The claim: when the positional \<open>alt\<close> attribute of an image macro is absent, the
  \<open>alt\<close> attribute is the file name of the path without its extension, and the path
  \<open>images/tip.png\<close> gives \<open>tip\<close>. The code does not do that: for the block image
  \<open>image::images/tip.png[]\<close> and for the inline image \<open>image:images/tip.png[]\<close> the
  \<open>alt\<close> attribute is \<open>ti\<close>. \<open>NewImageMacro\<close> hands the extension to \<open>strings.TrimRight\<close>,
  which takes it for a set of characters and goes on dropping the characters
  \<open>.\<close>, \<open>p\<close>, \<open>n\<close> and \<open>g\<close> from the end of \<open>tip.png\<close> for as long as it finds one.
\<close>

theorem image_alt_of_tip_png:
  "parse 30 BlockImage_rule ''image::images/tip.png[]'' =
     Ok (BlockImage
           (ImageMacro ''images/tip.png''
              [(''alt'', Str ''ti''), (''width'', Str []), (''height'', Str [])]) [])
        [] []
   \<and> parse 30 InlineElements_rule ''image:images/tip.png[]'' =
       Ok (InlineElements
             [InlineImage
                (ImageMacro ''images/tip.png''
                   [(''alt'', Str ''ti''), (''width'', Str []), (''height'', Str [])])])
          [] []
   \<and> NewImageAttributes [] [] [] [] =
       AttrMap [(''alt'', Str []), (''width'', Str []), (''height'', Str [])]
   \<and> Alt (NewImageMacro ''images/tip.png''
              [(''alt'', Str []), (''width'', Str []), (''height'', Str [])]) = ''ti''"
  by (simp add: rules actions strings machine Alt_def)

section \<open>Escaped quoted text\<close>

lemma dropPunctuation_replicate:
  "dropPunctuation punctuation (replicate count c) = replicate (count - length punctuation) c"
  by (simp add: dropPunctuation_def)

text \<open>
  C4, against the claim as it is written: \<open>\\**x**\<close>, with two backslashes in front of
  the punctuation of two characters, gives the text \<open>**x**\<close>. No backslash is left, and
  the text is not \<open>\**x**\<close>.
\<close>

theorem escaped_double_bold_keeps_no_backslash:
  "parse 30 InlineElements_rule
     [CHR 0x5C, CHR 0x5C, CHR ''*'', CHR ''*'', CHR ''x'', CHR ''*'', CHR ''*''] =
     Ok (InlineElements [StringElement ''**x**'']) [] []
   \<and> ''**x**'' \<noteq> [CHR 0x5C, CHR ''*'', CHR ''*'', CHR ''x'', CHR ''*'', CHR ''*'']"
  by (simp add: rules actions strings machine)

text \<open>
  C4, amended: \<open>\*x*\<close> gives the text \<open>*x*\<close> and \<open>\\**x**\<close> gives the text \<open>**x**\<close>, neither
  of them a QuotedText; and where the backslashes in front of an escaped quoted text are
  \<open>count\<close> backslashes, the first element that \<open>NewEscapedQuotedText\<close> returns is
  \<open>count - len(punctuation)\<close> backslashes, none when that is negative.
\<close>

theorem escaped_quoted_text:
  assumes "stringify backslashes [] = Some (replicate count (CHR 0x5C))"
  shows "NewEscapedQuotedText backslashes punctuation content =
           Slice [Str (replicate (count - length punctuation) (CHR 0x5C)), Str punctuation,
                  Slice content, Str punctuation]
         \<and> parse 30 InlineElements_rule [CHR 0x5C, CHR ''*'', CHR ''x'', CHR ''*''] =
             Ok (InlineElements [StringElement ''*x*'']) [] []
         \<and> parse 30 InlineElements_rule
               [CHR 0x5C, CHR 0x5C, CHR ''*'', CHR ''*'', CHR ''x'', CHR ''*'', CHR ''*''] =
             Ok (InlineElements [StringElement ''**x**'']) [] []"
proof -
  from assms have "joinText (mergeElements backslashes) = Some (replicate count (CHR 0x5C))"
    by (simp add: stringify_def)
  then have "NewEscapedQuotedText backslashes punctuation content =
               Slice [Str (replicate (count - length punctuation) (CHR 0x5C)), Str punctuation,
                      Slice content, Str punctuation]"
    by (simp add: NewEscapedQuotedText_def stringify_def orFail_def dropPunctuation_replicate)
  moreover have "parse 30 InlineElements_rule [CHR 0x5C, CHR ''*'', CHR ''x'', CHR ''*''] =
                   Ok (InlineElements [StringElement ''*x*'']) [] []"
    by (simp add: rules actions strings machine)
  moreover have "parse 30 InlineElements_rule
                   [CHR 0x5C, CHR 0x5C, CHR ''*'', CHR ''*'', CHR ''x'', CHR ''*'', CHR ''*''] =
                   Ok (InlineElements [StringElement ''**x**'']) [] []"
    by (simp add: rules actions strings machine)
  ultimately show ?thesis by simp
qed

theorem escaped_quoted_text_witness:
  "stringify [Bytes [CHR 0x5C, CHR 0x5C], Slice [Bytes [CHR 0x5C]]] [] =
     Some (replicate 3 (CHR 0x5C))
   \<and> NewEscapedQuotedText [Bytes [CHR 0x5C, CHR 0x5C], Slice [Bytes [CHR 0x5C]]] ''**''
         [Str ''x''] =
       Slice [Str [CHR 0x5C], Str ''**'', Slice [Str ''x''], Str ''**'']"
proof -
  have run: "stringify [Bytes [CHR 0x5C, CHR 0x5C], Slice [Bytes [CHR 0x5C]]] [] =
               Some (replicate 3 (CHR 0x5C))"
    by (simp add: stringify_def mergeElements_def flattenAll_def appendBuffer_def
        numeral_3_eq_3)
  from escaped_quoted_text [OF run, of "''**''" "[Str ''x'']"] run show ?thesis
    by (simp add: numeral_3_eq_3)
qed

section \<open>The levels of the items of an ordered list\<close>

lemma map_of_store: "map_of (store k v m) = (map_of m)(k \<mapsto> v)"
  by (induction m) auto

lemma layer_store: "layer (store k v m) k = v"
  by (simp add: layer_def map_of_store)

text \<open>The level that the code gives to an item is the level of the rule of the
  specification, in every state and for every item.\<close>

lemma rewriteLevel_claimed:
  "(case rewriteLevel st level style of (level', levels) \<Rightarrow> (level', map_of levels)) =
     claimedLevel (previousLevel st) (previousNumberingStyle st) (map_of (levelPerStyle st))
       level style"
  by (auto simp: rewriteLevel_def claimedLevel_def map_of_store split: option.splits)

text \<open>A round panics for an item without elements, and where the level has decreased
  and one of the two levels to join has no items; it does not panic otherwise.\<close>

lemma processItem_panics:
  "(\<exists>err. processItem st (OrderedListItem level position style elements attributes) = Inl err) \<longleftrightarrow>
     elements = []
     \<or> (fst (claimedLevel (previousLevel st) (previousNumberingStyle st)
                (map_of (levelPerStyle st)) level style) < previousLevel st
        \<and> (layer (bufferedItemsPerLevel st) (previousLevel st - 2) = []
           \<or> layer (bufferedItemsPerLevel st) (previousLevel st - 1) = []))"
proof -
  obtain level' levels where r: "rewriteLevel st level style = (level', levels)"
    by (cases "rewriteLevel st level style")
  with rewriteLevel_claimed [of st level style]
  have "fst (claimedLevel (previousLevel st) (previousNumberingStyle st)
                (map_of (levelPerStyle st)) level style) = level'"
    by (metis fst_conv old.prod.case)
  with r show ?thesis
    by (auto simp: processItem_def attachToParent_def Let_def split: sum.splits if_splits)
qed

text \<open>One round of the loop of \<open>NewOrderedList\<close> that does not panic follows the rule of
  the specification, and the item it buffers has the level of the rule.\<close>

lemma processItem_level:
  assumes "processItem st (OrderedListItem level position style elements attributes) = Inr st'"
  shows "tracked st' = claimedStep (tracked st) (OrderedListItem level position style elements attributes)"
    and "last (layer (bufferedItemsPerLevel st') (previousLevel st' - 1)) =
           OrderedListItem (previousLevel st') position style elements attributes"
  using assms
  by (auto simp: processItem_def rewriteLevel_def tracked_def claimedStep_def claimedLevel_def
      itemLevel_def itemNumberingStyle_def map_of_store layer_store Let_def
      split: if_splits option.splits sum.splits)

lemma processItem_is_item:
  assumes "processItem st element = Inr st'"
  shows "\<exists>level position style elements attributes.
           element = OrderedListItem level position style elements attributes"
  using assms by (auto simp: processItem_def split: val.splits)

lemma processItems_append:
  "processItems st (items @ [item]) =
     (case processItems st items of Inl err \<Rightarrow> Inl err | Inr st' \<Rightarrow> processItem st' item)"
  by (induction items arbitrary: st) (auto split: sum.splits)

lemma processItems_tracked:
  "processItems st items = Inr st' \<Longrightarrow> tracked st' = foldl claimedStep (tracked st) items"
proof (induction items arbitrary: st)
  case Nil
  then show ?case by simp
next
  case (Cons item items)
  from Cons.prems obtain st1 where step: "processItem st item = Inr st1"
    and rest: "processItems st1 items = Inr st'"
    by (auto split: sum.splits)
  from processItem_is_item [OF step] obtain level position style elements attributes
    where item: "item = OrderedListItem level position style elements attributes"
    by blast
  from step item have "tracked st1 = claimedStep (tracked st) item"
    using processItem_level(1) by blast
  with Cons.IH [OF rest] show ?case by simp
qed

lemma processItems_levels:
  assumes "processItems initialState
             (items @ [OrderedListItem level position style elements attributes]) = Inr st"
  shows "(previousLevel st, previousNumberingStyle st, map_of (levelPerStyle st)) =
           claimedStep (foldl claimedStep (0, UnknownNumberingStyle, Map.empty) items)
             (OrderedListItem level position style elements attributes)
         \<and> last (layer (bufferedItemsPerLevel st) (previousLevel st - 1)) =
             OrderedListItem (previousLevel st) position style elements attributes"
proof -
  from assms obtain st1 where before: "processItems initialState items = Inr st1"
    and step: "processItem st1 (OrderedListItem level position style elements attributes) = Inr st"
    by (auto simp: processItems_append split: sum.splits)
  have "tracked initialState = (0, UnknownNumberingStyle, Map.empty)"
    by (simp add: tracked_def initialState_def)
  with processItems_tracked [OF before]
  have "tracked st1 = foldl claimedStep (0, UnknownNumberingStyle, Map.empty) items"
    by simp
  with processItem_level [OF step] show ?thesis
    by (simp add: tracked_def)
qed

text \<open>
  C8. In every round of the loop of \<open>NewOrderedList\<close>, whatever the state and the item,
  the level that the code gives to the item and the map of levels per style that it
  keeps are those of the rule of the specification (\<open>claimedLevel\<close>). A round panics only
  for an item without elements and where the join of a level that has been left finds
  no items; the rule itself never does. After any run of the loop that has not panicked,
  the level, the numbering style and the map that the loop keeps are those that the rule
  (\<open>claimedStep\<close>, one step of it for each item) gives from the start values \<open>0\<close>, the unknown
  style and the empty map; and the item that the last round has buffered is the last
  item of the input with its level rewritten to the level of the rule.
\<close>

theorem ordered_list_levels:
  "(case rewriteLevel st level style of (level', levels) \<Rightarrow> (level', map_of levels)) =
     claimedLevel (previousLevel st) (previousNumberingStyle st) (map_of (levelPerStyle st))
       level style
   \<and> ((\<exists>err. processItem st (OrderedListItem level position style elements attributes) =
               Inl err) \<longleftrightarrow>
        elements = []
        \<or> (fst (claimedLevel (previousLevel st) (previousNumberingStyle st)
                   (map_of (levelPerStyle st)) level style) < previousLevel st
           \<and> (layer (bufferedItemsPerLevel st) (previousLevel st - 2) = []
              \<or> layer (bufferedItemsPerLevel st) (previousLevel st - 1) = [])))
   \<and> (processItems initialState
         (items @ [OrderedListItem level position style elements attributes]) = Inr st' \<longrightarrow>
        (previousLevel st', previousNumberingStyle st', map_of (levelPerStyle st')) =
          claimedStep (foldl claimedStep (0, UnknownNumberingStyle, Map.empty) items)
            (OrderedListItem level position style elements attributes)
        \<and> last (layer (bufferedItemsPerLevel st') (previousLevel st' - 1)) =
            OrderedListItem (previousLevel st') position style elements attributes)"
proof (intro conjI impI)
  show "(case rewriteLevel st level style of (level', levels) \<Rightarrow> (level', map_of levels)) =
     claimedLevel (previousLevel st) (previousNumberingStyle st) (map_of (levelPerStyle st))
       level style"
    by (rule rewriteLevel_claimed)
next
  show "(\<exists>err. processItem st (OrderedListItem level position style elements attributes) =
               Inl err) \<longleftrightarrow>
        elements = []
        \<or> (fst (claimedLevel (previousLevel st) (previousNumberingStyle st)
                   (map_of (levelPerStyle st)) level style) < previousLevel st
           \<and> (layer (bufferedItemsPerLevel st) (previousLevel st - 2) = []
              \<or> layer (bufferedItemsPerLevel st) (previousLevel st - 1) = []))"
    by (rule processItem_panics)
next
  assume run: "processItems initialState
         (items @ [OrderedListItem level position style elements attributes]) = Inr st'"
  from processItems_levels [OF run]
  show "(previousLevel st', previousNumberingStyle st', map_of (levelPerStyle st')) =
          claimedStep (foldl claimedStep (0, UnknownNumberingStyle, Map.empty) items)
            (OrderedListItem level position style elements attributes)"
    by (rule conjunct1)
  from processItems_levels [OF run]
  show "last (layer (bufferedItemsPerLevel st') (previousLevel st' - 1)) =
            OrderedListItem (previousLevel st') position style elements attributes"
    by (rule conjunct2)
qed

text \<open>A run of the loop through every case of the rule: two items of the first level
  and the same style, two items of a deeper level, an item of a style that has been seen
  at the first level, and an item of a new style that is not deeper in the source.\<close>

theorem ordered_list_levels_witness:
  "processItems initialState
     ([OrderedListItem 1 1 Arabic [BlankLine] [], OrderedListItem 1 1 Arabic [BlankLine] [],
      OrderedListItem 2 1 LowerAlpha [BlankLine] [], OrderedListItem 2 1 LowerAlpha [BlankLine] [],
      OrderedListItem 1 1 Arabic [BlankLine] []]
      @ [OrderedListItem 1 1 UpperRoman [BlankLine] []]) =
     Inr \<lparr>bufferedItemsPerLevel =
            [(0, [OrderedListItem 1 1 Arabic [BlankLine] [],
                  OrderedListItem 1 1 Arabic
                    [BlankLine,
                     OrderedList []
                       [OrderedListItem 2 1 LowerAlpha [BlankLine] [],
                        OrderedListItem 2 2 LowerAlpha [BlankLine] []]] [],
                  OrderedListItem 1 1 Arabic [BlankLine] []]),
             (1, [OrderedListItem 2 1 UpperRoman [BlankLine] []])],
          levelPerStyle = [(Arabic, 1), (LowerAlpha, 2), (UpperRoman, 2)],
          previousLevel = 2, previousNumberingStyle = UpperRoman\<rparr>
   \<and> claimedStep
        (foldl claimedStep (0, UnknownNumberingStyle, Map.empty)
           [OrderedListItem 1 1 Arabic [BlankLine] [], OrderedListItem 1 1 Arabic [BlankLine] [],
      OrderedListItem 2 1 LowerAlpha [BlankLine] [], OrderedListItem 2 1 LowerAlpha [BlankLine] [],
      OrderedListItem 1 1 Arabic [BlankLine] []])
        (OrderedListItem 1 1 UpperRoman [BlankLine] []) =
      (2, UpperRoman, map_of [(Arabic, 1), (LowerAlpha, 2), (UpperRoman, 2)])
   \<and> map (\<lambda>(level, style, levels). level)
        (tl (rev (foldl (\<lambda>states item. claimedStep (hd states) item # states)
                    [(0, UnknownNumberingStyle, Map.empty)]
                    ([OrderedListItem 1 1 Arabic [BlankLine] [], OrderedListItem 1 1 Arabic [BlankLine] [],
      OrderedListItem 2 1 LowerAlpha [BlankLine] [], OrderedListItem 2 1 LowerAlpha [BlankLine] [],
      OrderedListItem 1 1 Arabic [BlankLine] []]
                     @ [OrderedListItem 1 1 UpperRoman [BlankLine] []])))) =
      [1, 1, 2, 2, 1, 2]
   \<and> NewOrderedList
        ([OrderedListItem 1 1 Arabic [BlankLine] [], OrderedListItem 1 1 Arabic [BlankLine] [],
      OrderedListItem 2 1 LowerAlpha [BlankLine] [], OrderedListItem 2 1 LowerAlpha [BlankLine] [],
      OrderedListItem 1 1 Arabic [BlankLine] []]
         @ [OrderedListItem 1 1 UpperRoman [BlankLine] []]) [] =
      OrderedList []
        [OrderedListItem 1 1 Arabic [BlankLine] [],
         OrderedListItem 1 2 Arabic
           [BlankLine,
            OrderedList []
              [OrderedListItem 2 1 LowerAlpha [BlankLine] [],
               OrderedListItem 2 2 LowerAlpha [BlankLine] []]] [],
         OrderedListItem 1 3 Arabic
           [BlankLine, OrderedList [] [OrderedListItem 2 1 UpperRoman [BlankLine] []]] []]"
proof -
  have run: "processItems initialState
     ([OrderedListItem 1 1 Arabic [BlankLine] [], OrderedListItem 1 1 Arabic [BlankLine] [],
      OrderedListItem 2 1 LowerAlpha [BlankLine] [], OrderedListItem 2 1 LowerAlpha [BlankLine] [],
      OrderedListItem 1 1 Arabic [BlankLine] []]
      @ [OrderedListItem 1 1 UpperRoman [BlankLine] []]) =
     Inr \<lparr>bufferedItemsPerLevel =
            [(0, [OrderedListItem 1 1 Arabic [BlankLine] [],
                  OrderedListItem 1 1 Arabic
                    [BlankLine,
                     OrderedList []
                       [OrderedListItem 2 1 LowerAlpha [BlankLine] [],
                        OrderedListItem 2 2 LowerAlpha [BlankLine] []]] [],
                  OrderedListItem 1 1 Arabic [BlankLine] []]),
             (1, [OrderedListItem 2 1 UpperRoman [BlankLine] []])],
          levelPerStyle = [(Arabic, 1), (LowerAlpha, 2), (UpperRoman, 2)],
          previousLevel = 2, previousNumberingStyle = UpperRoman\<rparr>"
    by (simp add: initialState_def processItem_def rewriteLevel_def layer_def
        attachToParent_def toOrderedList_def applyAttributes_def startOverride_def
        styleOverride_def numberingStyles_def numberingStyleName_def itemNumberingStyle_def
        itemPosition_def numberFrom_def setPosition_def setNumberingStyle_def AddChild_def
        delete_def)
  from ordered_list_levels
    [where items = "[OrderedListItem 1 1 Arabic [BlankLine] [], OrderedListItem 1 1 Arabic [BlankLine] [],
      OrderedListItem 2 1 LowerAlpha [BlankLine] [], OrderedListItem 2 1 LowerAlpha [BlankLine] [],
      OrderedListItem 1 1 Arabic [BlankLine] []]"
      and level = 1 and position = 1 and style = UpperRoman and elements = "[BlankLine]"
      and attributes = "[]"
      and st' = "\<lparr>bufferedItemsPerLevel =
            [(0, [OrderedListItem 1 1 Arabic [BlankLine] [],
                  OrderedListItem 1 1 Arabic
                    [BlankLine,
                     OrderedList []
                       [OrderedListItem 2 1 LowerAlpha [BlankLine] [],
                        OrderedListItem 2 2 LowerAlpha [BlankLine] []]] [],
                  OrderedListItem 1 1 Arabic [BlankLine] []]),
             (1, [OrderedListItem 2 1 UpperRoman [BlankLine] []])],
          levelPerStyle = [(Arabic, 1), (LowerAlpha, 2), (UpperRoman, 2)],
          previousLevel = 2, previousNumberingStyle = UpperRoman\<rparr>"]
    run
  have rule: "claimedStep
        (foldl claimedStep (0, UnknownNumberingStyle, Map.empty)
           [OrderedListItem 1 1 Arabic [BlankLine] [], OrderedListItem 1 1 Arabic [BlankLine] [],
      OrderedListItem 2 1 LowerAlpha [BlankLine] [], OrderedListItem 2 1 LowerAlpha [BlankLine] [],
      OrderedListItem 1 1 Arabic [BlankLine] []])
        (OrderedListItem 1 1 UpperRoman [BlankLine] []) =
      (2, UpperRoman, map_of [(Arabic, 1), (LowerAlpha, 2), (UpperRoman, 2)])"
    by simp
  have levels: "map (\<lambda>(level, style, levels). level)
        (tl (rev (foldl (\<lambda>states item. claimedStep (hd states) item # states)
                    [(0, UnknownNumberingStyle, Map.empty)]
                    ([OrderedListItem 1 1 Arabic [BlankLine] [], OrderedListItem 1 1 Arabic [BlankLine] [],
      OrderedListItem 2 1 LowerAlpha [BlankLine] [], OrderedListItem 2 1 LowerAlpha [BlankLine] [],
      OrderedListItem 1 1 Arabic [BlankLine] []]
                     @ [OrderedListItem 1 1 UpperRoman [BlankLine] []])))) =
      [1, 1, 2, 2, 1, 2]"
    by (simp add: claimedStep_def claimedLevel_def itemLevel_def itemNumberingStyle_def)
  have result: "NewOrderedList
        ([OrderedListItem 1 1 Arabic [BlankLine] [], OrderedListItem 1 1 Arabic [BlankLine] [],
      OrderedListItem 2 1 LowerAlpha [BlankLine] [], OrderedListItem 2 1 LowerAlpha [BlankLine] [],
      OrderedListItem 1 1 Arabic [BlankLine] []]
         @ [OrderedListItem 1 1 UpperRoman [BlankLine] []]) [] =
      OrderedList []
        [OrderedListItem 1 1 Arabic [BlankLine] [],
         OrderedListItem 1 2 Arabic
           [BlankLine,
            OrderedList []
              [OrderedListItem 2 1 LowerAlpha [BlankLine] [],
               OrderedListItem 2 2 LowerAlpha [BlankLine] []]] [],
         OrderedListItem 1 3 Arabic
           [BlankLine, OrderedList [] [OrderedListItem 2 1 UpperRoman [BlankLine] []]] []]"
    by (simp add: NewOrderedList_def initialState_def processItem_def rewriteLevel_def layer_def
        attachToParent_def toOrderedList_def applyAttributes_def startOverride_def
        styleOverride_def numberingStyles_def numberingStyleName_def itemNumberingStyle_def
        itemPosition_def numberFrom_def setPosition_def setNumberingStyle_def AddChild_def
        delete_def mergeAttributes_def NewElementAttributes_def)
  from run rule levels result show ?thesis
    by (intro conjI)
qed

section \<open>The preamble\<close>

lemma preambleElements_filter:
  "preambleElements acc blocks = acc @ filter (\<lambda>b. \<not> isSection b) blocks"
  by (induction blocks arbitrary: acc) auto

lemma insertPreamble_shape:
  assumes "\<forall>b\<in>set pre. \<not> isSection b" and "\<forall>b\<in>set secs. isSection b"
  shows "insertPreamble (pre @ secs) =
           (if pre = [] \<or> secs = [] then pre @ secs else Preamble pre # secs)"
proof -
  from assms have "filter (\<lambda>b. \<not> isSection b) (pre @ secs) = pre"
    by (simp add: filter_id_conv filter_empty_conv)
  then have "preambleElements [] (pre @ secs) = pre"
    by (simp only: preambleElements_filter append_Nil)
  then show ?thesis
    by (simp add: insertPreamble_def Let_def)
qed

lemma headerAttributes_without_toc:
  assumes "''toc'' \<notin> fst ` set content"
  shows "\<exists>attributes'. headerAttributes content attributes elements = Some (attributes', elements)"
  using assms by (induction content arbitrary: attributes) auto

text \<open>
  C1, against the claim as it is written: a header that sets the attribute \<open>toc\<close> to the
  empty string (or to \<open>auto\<close>) puts a table of contents in front of the elements. The
  Preamble is then the second element of the document and not the first.
\<close>

theorem preamble_behind_table_of_contents:
  "NewDocument Nil (DocumentHeader [(''toc'', Str [])]) [BlankLine, Section 1 Nil []] =
     Document [(''toc'', Str [])] [TableOfContentsMacro, Preamble [BlankLine], Section 1 Nil []]"
  by (simp add: NewDocument_def insertPreamble_def frontMatterAttributes_def isSection_def
      insertToc_def)

text \<open>
  C1, amended: for a list of blocks in which Sections only follow the first Section (the
  blocks \<open>pre\<close> that are no Sections, then the Sections \<open>secs\<close>) and a header that is absent
  or does not set the attribute \<open>toc\<close>, the elements of the document are the Preamble
  of the blocks \<open>pre\<close> followed by the Sections, when there is a block of either kind, and
  the list of blocks unchanged otherwise.
\<close>

theorem preamble_insertion:
  assumes "\<forall>b\<in>set pre. \<not> isSection b" and "\<forall>b\<in>set secs. isSection b"
    and "frontMatterAttributes frontmatter \<noteq> None"
    and "header = Nil \<or> (\<exists>content. header = DocumentHeader content \<and> ''toc'' \<notin> fst ` set content)"
  shows "Elements (NewDocument frontmatter header (pre @ secs)) =
           (if pre = [] \<or> secs = [] then pre @ secs else Preamble pre # secs)"
proof -
  from assms(3) obtain attributes where fm: "frontMatterAttributes frontmatter = Some attributes"
    by blast
  note shape = insertPreamble_shape [OF assms(1,2)]
  from assms(4) show ?thesis
  proof
    assume "header = Nil"
    with fm shape show ?thesis
      by (simp add: NewDocument_def Elements_def)
  next
    assume "\<exists>content. header = DocumentHeader content \<and> ''toc'' \<notin> fst ` set content"
    then obtain content where header: "header = DocumentHeader content"
      and toc: "''toc'' \<notin> fst ` set content"
      by blast
    from headerAttributes_without_toc [OF toc]
    obtain attributes' where "headerAttributes content attributes (insertPreamble (pre @ secs)) =
        Some (attributes', insertPreamble (pre @ secs))"
      by blast
    with fm header shape show ?thesis
      by (simp add: NewDocument_def Elements_def)
  qed
qed

theorem preamble_insertion_witness:
  "\<not> isSection BlankLine \<and> \<not> isSection (LiteralBlock ''x'')
   \<and> isSection (Section 1 Nil []) \<and> isSection (Section 1 Nil [BlankLine])
   \<and> frontMatterAttributes Nil \<noteq> None
   \<and> Elements (NewDocument Nil (DocumentHeader [(''author'', Str ''x'')])
        ([BlankLine, LiteralBlock ''x''] @ [Section 1 Nil [], Section 1 Nil [BlankLine]])) =
      [Preamble [BlankLine, LiteralBlock ''x''], Section 1 Nil [], Section 1 Nil [BlankLine]]"
proof -
  have pre: "\<forall>b\<in>set [BlankLine, LiteralBlock ''x'']. \<not> isSection b"
    by (simp add: isSection_def)
  have secs: "\<forall>b\<in>set [Section 1 Nil [], Section 1 Nil [BlankLine]]. isSection b"
    by (simp add: isSection_def)
  have fm: "frontMatterAttributes Nil \<noteq> None"
    by (simp add: frontMatterAttributes_def)
  have header: "DocumentHeader [(''author'', Str ''x'')] = Nil
      \<or> (\<exists>content. DocumentHeader [(''author'', Str ''x'')] = DocumentHeader content
            \<and> ''toc'' \<notin> fst ` set content)"
    by simp
  from preamble_insertion [OF pre secs fm header] pre secs fm show ?thesis
    by simp
qed

section \<open>Delimited blocks without a closing delimiter\<close>

text \<open>
  At the end of the input the line of a verse block matches without consuming anything:
  its content is a repetition that may be empty and its end of line is matched by the end
  of the input. The repetition of the lines therefore never ends there. The same holds of
  the lines of a comment block. The lines of the other blocks start with \<open>!EOF\<close>.
\<close>

lemma verse_line_at_end: "parse (Suc n) VerseBlockLine [] = Ok (InlineElements []) [] []"
  by (simp add: rules actions strings machine)

lemma verse_lines_loop: "parse n (Star VerseBlockLine) [] = OutOfFuel"
  by (induction n) (simp_all add: verse_line_at_end machine)

lemma comment_line_at_end: "parse (Suc n) CommentBlockLine [] = Ok (Slice []) [] []"
  by (simp add: rules actions strings machine)

lemma comment_lines_loop: "parse n (Star CommentBlockLine) [] = OutOfFuel"
  by (induction n) (simp_all add: comment_line_at_end machine)

lemma unclosed_verse_document:
  "parse (Suc (Suc (Suc (Suc (Suc (Suc (Suc (Suc (Suc (Suc (Suc (Suc (n))))))))))))) (Document_rule yaml)
     [CHR ''_'', CHR ''_'', CHR ''_'', CHR ''_'', CHR 0x0A, CHR ''f'', CHR ''o'', CHR ''o''] =
     OutOfFuel"
  by (simp add: rules actions strings machine verse_lines_loop)

lemma unclosed_verse_block:
  "parse (Suc (Suc (Suc (Suc (Suc (Suc (Suc (Suc (Suc (Suc (Suc (Suc (n))))))))))))) DelimitedBlock_rule
     [CHR ''_'', CHR ''_'', CHR ''_'', CHR ''_'', CHR 0x0A, CHR ''f'', CHR ''o'', CHR ''o''] =
     OutOfFuel"
  by (simp add: rules actions strings machine verse_lines_loop)

lemma unclosed_comment_block:
  "parse (Suc (Suc (Suc (Suc (Suc (Suc (Suc (Suc (Suc (Suc (Suc (Suc (n))))))))))))) DelimitedBlock_rule
     [CHR ''/'', CHR ''/'', CHR ''/'', CHR ''/'', CHR 0x0A, CHR ''f'', CHR ''o'', CHR ''o''] =
     OutOfFuel"
  by (simp add: rules actions strings machine comment_lines_loop)

text \<open>A run that is out of fuel with twelve units more than any amount is out of fuel
  with every amount.\<close>

lemma never_returns:
  assumes "\<And>n. parse (Suc (Suc (Suc (Suc (Suc (Suc (Suc (Suc (Suc (Suc (Suc (Suc (n))))))))))))) e s = OutOfFuel"
  shows "parse n e s = OutOfFuel"
proof (rule ccontr)
  assume "parse n e s \<noteq> OutOfFuel"
  from parse_fuel [OF this, of 12] have "parse (n + 12) e s \<noteq> OutOfFuel"
    using \<open>parse n e s \<noteq> OutOfFuel\<close> by simp
  moreover have "n + 12 = (Suc (Suc (Suc (Suc (Suc (Suc (Suc (Suc (Suc (Suc (Suc (Suc (n)))))))))))))"
    by simp
  ultimately show False
    using assms [of n] by simp
qed

text \<open>
  C2. The claim: for every input the parse of a Document terminates and returns a
  Document. The code does not do that. On the input of the two lines \<open>____\<close> and \<open>foo\<close>, a
  verse block that is not closed, the parse never returns: the machine is out of fuel
  whatever fuel it is given. On the input \<open>----\<close>, a bare delimiter line without a
  newline, the parse returns and fails (the generated parser reports that no match was
  found), with thirty units of fuel and with any more. On the input of the two lines
  \<open>=== a\<close> and \<open>=== b\<close> the code of the rule \<open>Section2\<close> panics: the option
  \<open>Section2Block?\<close> has no match in front of the second title, its value is \<open>nil\<close>, and
  \<open>elements.([]interface{})\<close> is a type assertion on \<open>nil\<close>.
\<close>

theorem document_parse_not_total:
  "parse n (Document_rule yaml)
     [CHR ''_'', CHR ''_'', CHR ''_'', CHR ''_'', CHR 0x0A, CHR ''f'', CHR ''o'', CHR ''o''] =
     OutOfFuel
   \<and> parse (30 + k) (Document_rule yaml) ''----'' = Fail
   \<and> parse (30 + k) (Document_rule yaml)
       [CHR ''='', CHR ''='', CHR ''='', CHR '' '', CHR ''a'', CHR 0x0A,
        CHR ''='', CHR ''='', CHR ''='', CHR '' '', CHR ''b''] =
       Raised ''interface conversion: interface {} is not []interface {}''"
proof (intro conjI)
  show "parse n (Document_rule yaml)
     [CHR ''_'', CHR ''_'', CHR ''_'', CHR ''_'', CHR 0x0A, CHR ''f'', CHR ''o'', CHR ''o''] =
     OutOfFuel"
    by (rule never_returns) (rule unclosed_verse_document)
next
  have "parse 30 (Document_rule yaml) ''----'' = Fail"
    by (simp add: rules actions strings machine)
  then show "parse (30 + k) (Document_rule yaml) ''----'' = Fail"
    by (simp add: parse_fuel)
next
  have "parse 30 (Document_rule yaml)
       [CHR ''='', CHR ''='', CHR ''='', CHR '' '', CHR ''a'', CHR 0x0A,
        CHR ''='', CHR ''='', CHR ''='', CHR '' '', CHR ''b''] =
       Raised ''interface conversion: interface {} is not []interface {}''"
    by (simp add: rules actions strings machine)
  then show "parse (30 + k) (Document_rule yaml)
       [CHR ''='', CHR ''='', CHR ''='', CHR '' '', CHR ''a'', CHR 0x0A,
        CHR ''='', CHR ''='', CHR ''='', CHR '' '', CHR ''b''] =
       Raised ''interface conversion: interface {} is not []interface {}''"
    by (simp add: parse_fuel)
qed

text \<open>
  C6. The claim: a delimited block whose closing delimiter is missing ends at the end of
  the input, and the parse succeeds. The code does that for a fenced block (and for a
  listing and an example block, whose rules have the same form) and not for a verse block
  or a comment block: there the parse never returns.
\<close>

theorem unclosed_verse_and_comment_blocks_never_return:
  "parse n DelimitedBlock_rule
     [CHR ''_'', CHR ''_'', CHR ''_'', CHR ''_'', CHR 0x0A, CHR ''f'', CHR ''o'', CHR ''o''] =
     OutOfFuel
   \<and> parse n DelimitedBlock_rule
       [CHR ''/'', CHR ''/'', CHR ''/'', CHR ''/'', CHR 0x0A, CHR ''f'', CHR ''o'', CHR ''o''] =
       OutOfFuel
   \<and> parse (30 + k) DelimitedBlock_rule
       [CHR 0x60, CHR 0x60, CHR 0x60, CHR 0x0A, CHR ''f'', CHR ''o'', CHR ''o''] =
       Ok (DelimitedBlock [(''kind'', BlockKindV Fenced)]
             [Paragraph [] [InlineElements [StringElement ''foo'']]]) [] []"
proof (intro conjI)
  show "parse n DelimitedBlock_rule
     [CHR ''_'', CHR ''_'', CHR ''_'', CHR ''_'', CHR 0x0A, CHR ''f'', CHR ''o'', CHR ''o''] =
     OutOfFuel"
    by (rule never_returns) (rule unclosed_verse_block)
next
  show "parse n DelimitedBlock_rule
       [CHR ''/'', CHR ''/'', CHR ''/'', CHR ''/'', CHR 0x0A, CHR ''f'', CHR ''o'', CHR ''o''] =
       OutOfFuel"
    by (rule never_returns) (rule unclosed_comment_block)
next
  have "parse 30 DelimitedBlock_rule
       [CHR 0x60, CHR 0x60, CHR 0x60, CHR 0x0A, CHR ''f'', CHR ''o'', CHR ''o''] =
       Ok (DelimitedBlock [(''kind'', BlockKindV Fenced)]
             [Paragraph [] [InlineElements [StringElement ''foo'']]]) [] []"
    by (simp add: rules actions strings machine)
  then show "parse (30 + k) DelimitedBlock_rule
       [CHR 0x60, CHR 0x60, CHR 0x60, CHR 0x0A, CHR ''f'', CHR ''o'', CHR ''o''] =
       Ok (DelimitedBlock [(''kind'', BlockKindV Fenced)]
             [Paragraph [] [InlineElements [StringElement ''foo'']]]) [] []"
    by (simp add: parse_fuel)
qed

section \<open>Blank lines\<close>




















section \<open>The end of a paragraph\<close>























section \<open>Verse blocks\<close>

text \<open>What a successful run of an expression tells about the runs of its parts.\<close>

lemma Rule_Act_Ok:
  assumes "parse n (Rule (Act f e)) s = Ok v env r"
  shows "\<exists>w env'. parse n e s = Ok w env' r \<and> v = f env' (matched s r)
           \<and> (\<forall>msg. v \<noteq> Failure msg)"
proof -
  from assms have "scoped (parse n (Act f e) s) = Ok v env r"
    by simp
  from scoped_Ok [OF this] obtain env1 where act: "parse n (Act f e) s = Ok v env1 r"
    by blast
  then obtain w env' r' where inner: "parse n e s = Ok w env' r'"
    by (cases "parse n e s") auto
  with act have "returned (f env' (matched s r')) env' r' = Ok v env1 r"
    by simp
  then have "v = f env' (matched s r') \<and> r' = r \<and> (\<forall>msg. v \<noteq> Failure msg)"
    by (auto simp: returned_def split: val.splits)
  with inner show ?thesis
    by auto
qed

lemma Rule_env: "parse n (Rule e) s = Ok v env r \<Longrightarrow> env = []"
  by (cases "parse n e s") (simp_all add: scoped_simps)

lemma Choice_env: "parse n (Choice es) s = Ok v env r \<Longrightarrow> env = []"
proof (induction es)
  case Nil
  then show ?case by simp
next
  case (Cons e es)
  then show ?case
    by (cases "parse n e s") (simp_all add: scoped_simps)
qed

lemma Choice_Ok:
  "parse n (Choice es) s = Ok v env r \<Longrightarrow> \<exists>e\<in>set es. \<exists>env'. parse n e s = Ok v env' r"
proof (induction es)
  case Nil
  then show ?case by simp
next
  case (Cons e es)
  then show ?case
    by (cases "parse n e s") (auto simp: scoped_simps)
qed

lemma Star_Ok: "parse n (Star e) s = Ok v env r \<Longrightarrow> env = [] \<and> (\<exists>ws. v = Slice ws)"
proof (cases n)
  case 0
  assume "parse n (Star e) s = Ok v env r"
  with 0 show ?thesis
    by (simp add: Star_simps)
next
  case (Suc m)
  assume run: "parse n (Star e) s = Ok v env r"
  show ?thesis
  proof (cases "parse (Suc m) e s")
    case (Ok v1 env1 r1)
    with run Suc show ?thesis
      by (cases "parse m (Star e) r1") (auto simp: Star_simps scoped_simps andThen_simps)
  qed (use run Suc in \<open>auto simp: Star_simps\<close>)
qed

lemma Lab_Ok:
  "parse n (Lab l e) s = Ok v env r \<Longrightarrow> env = [(l, v)] \<and> (\<exists>env'. parse n e s = Ok v env' r)"
  by (cases "parse n e s") simp_all

lemma Seq_Ok:
  assumes "parse n (Seq (e # es)) s = Ok v env r"
  shows "\<exists>v1 env1 r1 vs env2. parse n e s = Ok v1 env1 r1 \<and> parse n (Seq es) r1 = Ok vs env2 r
           \<and> env = env2 @ env1"
proof -
  from assms obtain v1 env1 r1 where first: "parse n e s = Ok v1 env1 r1"
    by (cases "parse n e s") auto
  with assms have "andThen v1 env1 (parse n (Seq es) r1) = Ok v env r"
    by simp
  then obtain vs env2 where "parse n (Seq es) r1 = Ok vs env2 r" and "env = env2 @ env1"
    by (cases "parse n (Seq es) r1") (auto simp: andThen_simps)
  with first show ?thesis
    by blast
qed

lemma matched_append: "matched (t @ r) r = t"
  by (simp add: matched_def)

text \<open>The elements of a repetition are results of runs of its expression.\<close>

lemma Star_elements:
  assumes "\<And>n s w env r. parse n e s = Ok w env r \<Longrightarrow> P w"
  shows "parse n (Star e) s = Ok (Slice ws) env r \<Longrightarrow> \<forall>w\<in>set ws. P w"
proof (induction n arbitrary: s ws env r)
  case 0
  then show ?case
    by (simp add: Star_simps)
next
  case (Suc m)
  show ?case
  proof (cases "parse (Suc m) e s")
    case (Ok v1 env1 r1)
    with Suc.prems have step: "scoped (andThen v1 [] (parse m (Star e) r1)) = Ok (Slice ws) env r"
      by (simp add: Star_simps)
    then obtain vs env2 where rest: "parse m (Star e) r1 = Ok vs env2 r"
      by (cases "parse m (Star e) r1") (auto simp: scoped_simps andThen_simps)
    from Star_Ok [OF rest] obtain ws' where vs: "vs = Slice ws'"
      by blast
    with step rest have "ws = v1 # ws'"
      by (simp add: scoped_simps andThen_simps elems_Slice)
    moreover from assms [OF Ok] have "P v1" .
    moreover from Suc.IH rest vs have "\<forall>w\<in>set ws'. P w"
      by blast
    ultimately show ?thesis
      by simp
  next
    case Fail
    with Suc.prems show ?thesis
      by (simp add: Star_simps)
  qed (use Suc.prems in \<open>simp_all add: Star_simps\<close>)
qed

text \<open>The content of a line of a verse block: the value is made of the matched text with
  the white space at its ends removed.\<close>

lemma verse_line_content:
  assumes "parse n VerseBlockLineContent s = Ok v env r"
  shows "\<exists>line. s = line @ r \<and> v = NewInlineElements [Str (TrimSpace line)]"
proof -
  from parse_suffix [OF assms] obtain line where s: "s = line @ r"
    by blast
  from assms Rule_Act_Ok [of n _ _ s v env r]
  have "v = NewInlineElements [Str (TrimSpace (matched s r))]"
    unfolding VerseBlockLineContent_def by blast
  with s show ?thesis
    by (auto simp: matched_append)
qed

lemma verse_line:
  assumes "parse n VerseBlockLine s = Ok v env r"
  shows "\<exists>text. v = NewInlineElements [Str (TrimSpace text)]"
proof -
  from assms Rule_Act_Ok [of n _ _ s v env r]
  obtain w env' where inner:
      "parse n (Seq [Lab ''line'' VerseBlockLineContent, EOL]) s = Ok w env' r"
    and v: "v = label env' ''line''"
    unfolding VerseBlockLine_def by blast
  from Seq_Ok [OF inner] obtain v1 env1 r1 vs env2
    where first: "parse n (Lab ''line'' VerseBlockLineContent) s = Ok v1 env1 r1"
      and rest: "parse n (Seq [EOL]) r1 = Ok vs env2 r" and env': "env' = env2 @ env1"
    by blast
  from Seq_Ok [OF rest] obtain v2 env3 r2 vs' env4
    where eol: "parse n EOL r1 = Ok v2 env3 r2" and "parse n (Seq []) r2 = Ok vs' env4 r"
      and env2: "env2 = env4 @ env3"
    by blast
  then have "env4 = []"
    by simp
  moreover from eol have "env3 = []"
    unfolding EOL_def by (rule Rule_env)
  ultimately have "env2 = []"
    using env2 by simp
  moreover from Lab_Ok [OF first] obtain env5
    where env1: "env1 = [(''line'', v1)]"
      and content: "parse n VerseBlockLineContent s = Ok v1 env5 r1"
    by blast
  ultimately have "v = v1"
    using v env' by (simp add: label_def)
  with verse_line_content [OF content] show ?thesis
    by blast
qed

lemma verse_paragraph:
  assumes "parse n VerseBlockParagraph s = Ok v env r"
  shows "\<exists>lines. v = Paragraph [] lines
           \<and> (\<forall>l\<in>set lines. \<exists>text. l = NewInlineElements [Str (TrimSpace text)])"
proof -
  from assms Rule_Act_Ok [of n _ _ s v env r]
  obtain w env' where inner: "parse n (Lab ''lines'' (Star VerseBlockLine)) s = Ok w env' r"
    and v: "v = asSlice (label env' ''lines'') (\<lambda>lines. NewParagraph lines [])"
    unfolding VerseBlockParagraph_def by blast
  from Lab_Ok [OF inner] obtain env1 where env': "env' = [(''lines'', w)]"
    and star: "parse n (Star VerseBlockLine) s = Ok w env1 r"
    by blast
  from Star_Ok [OF star] obtain ws where w: "w = Slice ws"
    by blast
  have "\<forall>l\<in>set ws. \<exists>text. l = NewInlineElements [Str (TrimSpace text)]"
    by (rule Star_elements [where e = VerseBlockLine and n = n and s = s and env = env1 and r = r])
      (use verse_line star w in auto)
  moreover from v env' w
  have "v = Paragraph [] (filter isInlineElements ws)"
    by (simp add: label_def asSlice_def NewParagraph_def NewElementAttributes_def)
  ultimately show ?thesis
    by auto
qed

section \<open>The lines of a verse block\<close>














text \<open>The kind of a delimited block is the kind that its rule hands to
  \<open>NewDelimitedBlock\<close>: the attribute is set after the attributes of the block have been
  merged.\<close>

lemma NewDelimitedBlock_kind:
  assumes "NewDelimitedBlock kind content attributes substitution = v"
    and "\<forall>msg. v \<noteq> Failure msg"
  shows "\<exists>a elements. v = DelimitedBlock a elements
           \<and> map_of a AttrBlockKind = Some (BlockKindV kind)
           \<and> substitute substitution content = Some elements"
  using assms
  by (auto simp: NewDelimitedBlock_def orFail_def Let_def map_of_store split: option.splits)

lemma asSlice_Ok:
  assumes "asSlice x k = v" and "\<forall>msg. v \<noteq> Failure msg"
  shows "\<exists>xs. x = Slice xs \<and> v = k xs"
  using assms by (cases x) (auto simp: asSlice_def)

lemma block_of_kind:
  assumes "asSlice x (\<lambda>content. asSlice y (\<lambda>attributes.
             NewDelimitedBlock kind content attributes substitution)) = v"
    and "\<forall>msg. v \<noteq> Failure msg"
  shows "\<exists>a elements. v = DelimitedBlock a elements
           \<and> map_of a AttrBlockKind = Some (BlockKindV kind)"
proof -
  from asSlice_Ok [OF assms] obtain content
    where "asSlice y (\<lambda>attributes. NewDelimitedBlock kind content attributes substitution) = v"
    by auto
  from asSlice_Ok [OF this assms(2)] obtain attributes
    where "NewDelimitedBlock kind content attributes substitution = v"
    by auto
  from NewDelimitedBlock_kind [OF this assms(2)] show ?thesis
    by blast
qed

lemma fenced_block:
  assumes "parse n FencedBlock s = Ok v env r"
  shows "\<exists>a elements. v = DelimitedBlock a elements
           \<and> map_of a AttrBlockKind = Some (BlockKindV Fenced)"
  using assms Rule_Act_Ok [of n _ _ s v env r] block_of_kind [where kind = Fenced and v = v]
  unfolding FencedBlock_def by blast

lemma listing_block:
  assumes "parse n ListingBlock s = Ok v env r"
  shows "\<exists>a elements. v = DelimitedBlock a elements
           \<and> map_of a AttrBlockKind = Some (BlockKindV Listing)"
  using assms Rule_Act_Ok [of n _ _ s v env r] block_of_kind [where kind = Listing and v = v]
  unfolding ListingBlock_def by blast

lemma example_block:
  assumes "parse n ExampleBlock s = Ok v env r"
  shows "\<exists>a elements. v = DelimitedBlock a elements
           \<and> map_of a AttrBlockKind = Some (BlockKindV Example)"
  using assms Rule_Act_Ok [of n _ _ s v env r] block_of_kind [where kind = Example and v = v]
  unfolding ExampleBlock_def by blast

lemma comment_block:
  assumes "parse n CommentBlock s = Ok v env r"
  shows "\<exists>a elements. v = DelimitedBlock a elements
           \<and> map_of a AttrBlockKind = Some (BlockKindV Comment)"
  using assms Rule_Act_Ok [of n _ _ s v env r] block_of_kind [where kind = Comment and v = v]
  unfolding CommentBlock_def by blast

text \<open>The one element of a verse block is the value of the rule \<open>VerseBlockParagraph\<close>,
  a Paragraph.\<close>

lemma verse_block:
  assumes "parse n VerseBlock s = Ok v env r"
  shows "\<exists>a lines. v = DelimitedBlock a [Paragraph [] lines]
           \<and> map_of a AttrBlockKind = Some (BlockKindV Verse)"
proof -
  from assms Rule_Act_Ok [of n _ _ s v env r]
  obtain w env' where inner:
      "parse n (Seq [Lab ''attributes'' (Star VerseBlockAttribute), VerseBlockDelimiter, Star WS,
                     NEWLINE, Lab ''content'' VerseBlockParagraph,
                     Choice [Seq [VerseBlockDelimiter, Star WS, EOL], EOF]]) s = Ok w env' r"
    and v: "v = asSlice (label env' ''attributes'') (\<lambda>attributes.
                  NewDelimitedBlock Verse [label env' ''content''] attributes None_subst)"
    and ok: "\<forall>msg. v \<noteq> Failure msg"
    unfolding VerseBlock_def by blast
  from Seq_Ok [OF inner] obtain v1 env1 r1 vs1 envA
    where e1: "parse n (Lab ''attributes'' (Star VerseBlockAttribute)) s = Ok v1 env1 r1"
      and rest1: "parse n (Seq [VerseBlockDelimiter, Star WS, NEWLINE,
                     Lab ''content'' VerseBlockParagraph,
                     Choice [Seq [VerseBlockDelimiter, Star WS, EOL], EOF]]) r1 = Ok vs1 envA r"
      and env': "env' = envA @ env1"
    by blast
  from Seq_Ok [OF rest1] obtain v2 env2 r2 vs2 envB
    where e2: "parse n VerseBlockDelimiter r1 = Ok v2 env2 r2"
      and rest2: "parse n (Seq [Star WS, NEWLINE, Lab ''content'' VerseBlockParagraph,
                     Choice [Seq [VerseBlockDelimiter, Star WS, EOL], EOF]]) r2 = Ok vs2 envB r"
      and envA: "envA = envB @ env2"
    by blast
  from Seq_Ok [OF rest2] obtain v3 env3 r3 vs3 envC
    where e3: "parse n (Star WS) r2 = Ok v3 env3 r3"
      and rest3: "parse n (Seq [NEWLINE, Lab ''content'' VerseBlockParagraph,
                     Choice [Seq [VerseBlockDelimiter, Star WS, EOL], EOF]]) r3 = Ok vs3 envC r"
      and envB: "envB = envC @ env3"
    by blast
  from Seq_Ok [OF rest3] obtain v4 env4 r4 vs4 envD
    where e4: "parse n NEWLINE r3 = Ok v4 env4 r4"
      and rest4: "parse n (Seq [Lab ''content'' VerseBlockParagraph,
                     Choice [Seq [VerseBlockDelimiter, Star WS, EOL], EOF]]) r4 = Ok vs4 envD r"
      and envC: "envC = envD @ env4"
    by blast
  from Seq_Ok [OF rest4] obtain v5 env5 r5 vs5 envE
    where e5: "parse n (Lab ''content'' VerseBlockParagraph) r4 = Ok v5 env5 r5"
      and rest5: "parse n (Seq [Choice [Seq [VerseBlockDelimiter, Star WS, EOL], EOF]]) r5 =
                    Ok vs5 envE r"
      and envD: "envD = envE @ env5"
    by blast
  from Seq_Ok [OF rest5] obtain v6 env6 r6 vs6 envF
    where e6: "parse n (Choice [Seq [VerseBlockDelimiter, Star WS, EOL], EOF]) r5 = Ok v6 env6 r6"
      and rest6: "parse n (Seq []) r6 = Ok vs6 envF r"
      and envE: "envE = envF @ env6"
    by blast
  from rest6 have "envF = []"
    by simp
  moreover from e6 have "env6 = []"
    by (rule Choice_env)
  moreover from Lab_Ok [OF e5] obtain env5'
    where env5: "env5 = [(''content'', v5)]"
      and verse: "parse n VerseBlockParagraph r4 = Ok v5 env5' r5"
    by blast
  moreover from e4 have "env4 = []"
    unfolding NEWLINE_def by (rule Rule_env)
  moreover from Star_Ok [OF e3] have "env3 = []"
    by simp
  moreover from e2 have "env2 = []"
    unfolding VerseBlockDelimiter_def by (rule Rule_env)
  moreover from Lab_Ok [OF e1] obtain env1'
    where env1: "env1 = [(''attributes'', v1)]"
      and attributes: "parse n (Star VerseBlockAttribute) s = Ok v1 env1' r1"
    by blast
  ultimately have labels: "env' = [(''content'', v5), (''attributes'', v1)]"
    using env' envA envB envC envD envE by simp
  from Star_Ok [OF attributes] obtain ws where "v1 = Slice ws"
    by blast
  with v labels have "v = NewDelimitedBlock Verse [v5] ws None_subst"
    by (simp add: label_def asSlice_def)
  from NewDelimitedBlock_kind [OF this [symmetric] ok]
  obtain a where "v = DelimitedBlock a [v5]"
    and "map_of a AttrBlockKind = Some (BlockKindV Verse)"
    by auto
  moreover from verse_paragraph [OF verse] obtain lines where "v5 = Paragraph [] lines"
    by blast
  ultimately show ?thesis
    by blast
qed

text \<open>
  C7. The rule \<open>DelimitedBlock\<close> is the one place of the grammar where a DelimitedBlock is
  made. Its value is a DelimitedBlock in every case, and where the kind of that block is
  Verse, the block has exactly one element, which is a Paragraph. For the verse block
  without lines this Paragraph has no lines.
\<close>

theorem verse_block_has_one_paragraph:
  "(parse n DelimitedBlock_rule s = Ok v env r \<longrightarrow>
      (\<exists>attributes elements. v = DelimitedBlock attributes elements
         \<and> (map_of attributes AttrBlockKind = Some (BlockKindV Verse) \<longrightarrow>
              (\<exists>a lines. elements = [Paragraph a lines]))))
   \<and> parse 30 DelimitedBlock_rule
       [CHR ''_'', CHR ''_'', CHR ''_'', CHR ''_'', CHR 0x0A, CHR ''_'', CHR ''_'', CHR ''_'',
        CHR ''_''] =
       Ok (DelimitedBlock [(''kind'', BlockKindV Verse)] [Paragraph [] []]) [] []"
proof (intro conjI impI)
  assume run: "parse n DelimitedBlock_rule s = Ok v env r"
  then have "scoped (parse n (Choice [FencedBlock, ListingBlock, ExampleBlock, CommentBlock,
                                      VerseBlock]) s) = Ok v env r"
    by (simp add: DelimitedBlock_rule_def)
  from scoped_Ok [OF this] obtain env1
    where "parse n (Choice [FencedBlock, ListingBlock, ExampleBlock, CommentBlock, VerseBlock]) s =
             Ok v env1 r"
    by blast
  from Choice_Ok [OF this]
  consider env2 where "parse n FencedBlock s = Ok v env2 r"
    | env2 where "parse n ListingBlock s = Ok v env2 r"
    | env2 where "parse n ExampleBlock s = Ok v env2 r"
    | env2 where "parse n CommentBlock s = Ok v env2 r"
    | env2 where "parse n VerseBlock s = Ok v env2 r"
    by auto
  then show "\<exists>attributes elements. v = DelimitedBlock attributes elements
         \<and> (map_of attributes AttrBlockKind = Some (BlockKindV Verse) \<longrightarrow>
              (\<exists>a lines. elements = [Paragraph a lines]))"
  proof cases
    case 1
    from fenced_block [OF this] show ?thesis by auto
  next
    case 2
    from listing_block [OF this] show ?thesis by auto
  next
    case 3
    from example_block [OF this] show ?thesis by auto
  next
    case 4
    from comment_block [OF this] show ?thesis by auto
  next
    case 5
    from verse_block [OF this] show ?thesis by auto
  qed
next
  show "parse 30 DelimitedBlock_rule
       [CHR ''_'', CHR ''_'', CHR ''_'', CHR ''_'', CHR 0x0A, CHR ''_'', CHR ''_'', CHR ''_'',
        CHR ''_''] =
       Ok (DelimitedBlock [(''kind'', BlockKindV Verse)] [Paragraph [] []]) [] []"
    by (simp add: rules actions strings machine)
qed

theorem verse_block_has_one_paragraph_witness:
  "parse 30 DelimitedBlock_rule
     [CHR ''_'', CHR ''_'', CHR ''_'', CHR ''_'', CHR 0x0A, CHR ''f'', CHR ''o'', CHR ''o'',
      CHR 0x0A, CHR ''_'', CHR ''_'', CHR ''_'', CHR ''_''] =
     Ok (DelimitedBlock [(''kind'', BlockKindV Verse)]
           [Paragraph [] [InlineElements [StringElement ''foo'']]]) [] []
   \<and> map_of [(''kind'', BlockKindV Verse)] AttrBlockKind = Some (BlockKindV Verse)
   \<and> (\<exists>a lines. [Paragraph [] [InlineElements [StringElement ''foo'']]] = [Paragraph a lines])"
proof -
  have run: "parse 30 DelimitedBlock_rule
     [CHR ''_'', CHR ''_'', CHR ''_'', CHR ''_'', CHR 0x0A, CHR ''f'', CHR ''o'', CHR ''o'',
      CHR 0x0A, CHR ''_'', CHR ''_'', CHR ''_'', CHR ''_''] =
     Ok (DelimitedBlock [(''kind'', BlockKindV Verse)]
           [Paragraph [] [InlineElements [StringElement ''foo'']]]) [] []"
    by (simp add: rules actions strings machine)
  have kind: "map_of [(''kind'', BlockKindV Verse)] AttrBlockKind = Some (BlockKindV Verse)"
    by (simp add: AttrBlockKind_def)
  from verse_block_has_one_paragraph
    [of 30 "[CHR ''_'', CHR ''_'', CHR ''_'', CHR ''_'', CHR 0x0A, CHR ''f'', CHR ''o'', CHR ''o'',
      CHR 0x0A, CHR ''_'', CHR ''_'', CHR ''_'', CHR ''_'']"
      "DelimitedBlock [(''kind'', BlockKindV Verse)]
           [Paragraph [] [InlineElements [StringElement ''foo'']]]" "[]" "[]"]
    run kind
  have "\<exists>a lines. [Paragraph [] [InlineElements [StringElement ''foo'']]] = [Paragraph a lines]"
    by auto
  with run kind show ?thesis
    by (intro conjI)
qed

end
